theory Spec2Isabelle
  imports Complex_Main "HOL-Library.List_Lexorder"
begin

section \<open>Strings of the JavaScript runtime\<close>

text \<open>
  A JavaScript string is a sequence of UTF-16 code units, modelled as a list of naturals.
  Literals of the source are written \<open>js ''...''\<close>; the two non-ASCII characters of
  the source's patterns are the en dash (U+2013) and the bullet (U+2022).
\<close>

type_synonym jstring = "nat list"

definition js :: "string \<Rightarrow> jstring" where
  "js s = map of_char s"

text \<open>
  The code points of a string (\<open>StringToCodePoints\<close>): a high surrogate followed by a low
  one is one code point, every other code unit is a code point of its own. The code
  units of a code point (\<open>UTF16EncodeCodePoint\<close>).
\<close>

definition isHighSurrogate :: "nat \<Rightarrow> bool" where
  "isHighSurrogate c = (55296 \<le> c \<and> c \<le> 56319)"

definition isLowSurrogate :: "nat \<Rightarrow> bool" where
  "isLowSurrogate c = (56320 \<le> c \<and> c \<le> 57343)"

fun codePoints :: "jstring \<Rightarrow> nat list" where
  "codePoints [] = []"
| "codePoints [c] = [c]"
| "codePoints (h # l # cs) =
     (if isHighSurrogate h \<and> isLowSurrogate l
      then (65536 + (h - 55296) * 1024 + (l - 56320)) # codePoints cs
      else h # codePoints (l # cs))"

definition codeUnits :: "nat \<Rightarrow> jstring" where
  "codeUnits cp =
     (if cp < 65536 then [cp]
      else [55296 + (cp - 65536) div 1024, 56320 + (cp - 65536) mod 1024])"

subsection \<open>The case mappings of Unicode\<close>

text \<open>
  \<open>toLowerCase\<close>, \<open>toUpperCase\<close> and the flag \<open>i\<close> of a pattern follow the case mappings
  of the Unicode Character Database; the tables below are those of version 15.0. An
  entry \<open>(lo, hi, step, target)\<close> maps the code points \<open>lo\<close>, \<open>lo + step\<close>, ... up
  to \<open>hi\<close>: the code point \<open>c\<close> among them goes to \<open>target + (c - lo)\<close>. The ASCII
  letters are mapped by \<open>lowerChar\<close> and \<open>upperChar\<close>; a code point that no entry
  maps is its own image.
\<close>

definition lowerChar :: "nat \<Rightarrow> nat" where
  "lowerChar c = (if 65 \<le> c \<and> c \<le> 90 then c + 32 else c)"

definition upperChar :: "nat \<Rightarrow> nat" where
  "upperChar c = (if 97 \<le> c \<and> c \<le> 122 then c - 32 else c)"

fun caseLookup :: "(nat \<times> nat \<times> nat \<times> nat) list \<Rightarrow> nat \<Rightarrow> nat" where
  "caseLookup [] c = c"
| "caseLookup ((lo, hi, step, target) # rs) c =
     (if lo \<le> c \<and> c \<le> hi \<and> (c - lo) mod step = 0 then target + (c - lo)
      else caseLookup rs c)"

fun inRanges :: "(nat \<times> nat) list \<Rightarrow> nat \<Rightarrow> bool" where
  "inRanges [] c = False"
| "inRanges ((lo, hi) # rs) c = (if lo \<le> c \<and> c \<le> hi then True else inRanges rs c)"

text \<open>
  The lower case of the code points outside ASCII whose lower case is another single code
  point (\<open>UnicodeData.txt\<close>).
\<close>

definition lowerTable :: "(nat \<times> nat \<times> nat \<times> nat) list" where
  "lowerTable =
   [(192, 214, 1, 224), (216, 222, 1, 248), (256, 302, 2, 257), (306, 310, 2, 307),
    (313, 327, 2, 314), (330, 374, 2, 331), (376, 376, 1, 255), (377, 381, 2, 378),
    (385, 385, 1, 595), (386, 388, 2, 387), (390, 390, 1, 596), (391, 391, 1, 392),
    (393, 394, 1, 598), (395, 395, 1, 396), (398, 398, 1, 477), (399, 399, 1, 601),
    (400, 400, 1, 603), (401, 401, 1, 402), (403, 403, 1, 608), (404, 404, 1, 611),
    (406, 406, 1, 617), (407, 407, 1, 616), (408, 408, 1, 409), (412, 412, 1, 623),
    (413, 413, 1, 626), (415, 415, 1, 629), (416, 420, 2, 417), (422, 422, 1, 640),
    (423, 423, 1, 424), (425, 425, 1, 643), (428, 428, 1, 429), (430, 430, 1, 648),
    (431, 431, 1, 432), (433, 434, 1, 650), (435, 437, 2, 436), (439, 439, 1, 658),
    (440, 440, 1, 441), (444, 444, 1, 445), (452, 452, 1, 454), (453, 453, 1, 454),
    (455, 455, 1, 457), (456, 456, 1, 457), (458, 458, 1, 460), (459, 475, 2, 460),
    (478, 494, 2, 479), (497, 497, 1, 499), (498, 500, 2, 499), (502, 502, 1, 405),
    (503, 503, 1, 447), (504, 542, 2, 505), (544, 544, 1, 414), (546, 562, 2, 547),
    (570, 570, 1, 11365), (571, 571, 1, 572), (573, 573, 1, 410), (574, 574, 1, 11366),
    (577, 577, 1, 578), (579, 579, 1, 384), (580, 580, 1, 649), (581, 581, 1, 652),
    (582, 590, 2, 583), (880, 882, 2, 881), (886, 886, 1, 887), (895, 895, 1, 1011),
    (902, 902, 1, 940), (904, 906, 1, 941), (908, 908, 1, 972), (910, 911, 1, 973),
    (913, 929, 1, 945), (931, 939, 1, 963), (975, 975, 1, 983), (984, 1006, 2, 985),
    (1012, 1012, 1, 952), (1015, 1015, 1, 1016), (1017, 1017, 1, 1010), (1018, 1018, 1, 1019),
    (1021, 1023, 1, 891), (1024, 1039, 1, 1104), (1040, 1071, 1, 1072), (1120, 1152, 2, 1121),
    (1162, 1214, 2, 1163), (1216, 1216, 1, 1231), (1217, 1229, 2, 1218), (1232, 1326, 2, 1233),
    (1329, 1366, 1, 1377), (4256, 4293, 1, 11520), (4295, 4295, 1, 11559), (4301, 4301, 1, 11565),
    (5024, 5103, 1, 43888), (5104, 5109, 1, 5112), (7312, 7354, 1, 4304), (7357, 7359, 1, 4349),
    (7680, 7828, 2, 7681), (7838, 7838, 1, 223), (7840, 7934, 2, 7841), (7944, 7951, 1, 7936),
    (7960, 7965, 1, 7952), (7976, 7983, 1, 7968), (7992, 7999, 1, 7984), (8008, 8013, 1, 8000),
    (8025, 8025, 1, 8017), (8027, 8027, 1, 8019), (8029, 8029, 1, 8021), (8031, 8031, 1, 8023),
    (8040, 8047, 1, 8032), (8072, 8079, 1, 8064), (8088, 8095, 1, 8080), (8104, 8111, 1, 8096),
    (8120, 8121, 1, 8112), (8122, 8123, 1, 8048), (8124, 8124, 1, 8115), (8136, 8139, 1, 8050),
    (8140, 8140, 1, 8131), (8152, 8153, 1, 8144), (8154, 8155, 1, 8054), (8168, 8169, 1, 8160),
    (8170, 8171, 1, 8058), (8172, 8172, 1, 8165), (8184, 8185, 1, 8056), (8186, 8187, 1, 8060),
    (8188, 8188, 1, 8179), (8486, 8486, 1, 969), (8490, 8490, 1, 107), (8491, 8491, 1, 229),
    (8498, 8498, 1, 8526), (8544, 8559, 1, 8560), (8579, 8579, 1, 8580), (9398, 9423, 1, 9424),
    (11264, 11311, 1, 11312), (11360, 11360, 1, 11361), (11362, 11362, 1, 619),
    (11363, 11363, 1, 7549), (11364, 11364, 1, 637), (11367, 11371, 2, 11368),
    (11373, 11373, 1, 593), (11374, 11374, 1, 625), (11375, 11375, 1, 592), (11376, 11376, 1, 594),
    (11378, 11378, 1, 11379), (11381, 11381, 1, 11382), (11390, 11391, 1, 575),
    (11392, 11490, 2, 11393), (11499, 11501, 2, 11500), (11506, 11506, 1, 11507),
    (42560, 42604, 2, 42561), (42624, 42650, 2, 42625), (42786, 42798, 2, 42787),
    (42802, 42862, 2, 42803), (42873, 42875, 2, 42874), (42877, 42877, 1, 7545),
    (42878, 42886, 2, 42879), (42891, 42891, 1, 42892), (42893, 42893, 1, 613),
    (42896, 42898, 2, 42897), (42902, 42920, 2, 42903), (42922, 42922, 1, 614),
    (42923, 42923, 1, 604), (42924, 42924, 1, 609), (42925, 42925, 1, 620), (42926, 42926, 1, 618),
    (42928, 42928, 1, 670), (42929, 42929, 1, 647), (42930, 42930, 1, 669),
    (42931, 42931, 1, 43859), (42932, 42946, 2, 42933), (42948, 42948, 1, 42900),
    (42949, 42949, 1, 642), (42950, 42950, 1, 7566), (42951, 42953, 2, 42952),
    (42960, 42960, 1, 42961), (42966, 42968, 2, 42967), (42997, 42997, 1, 42998),
    (65313, 65338, 1, 65345), (66560, 66599, 1, 66600), (66736, 66771, 1, 66776),
    (66928, 66938, 1, 66967), (66940, 66954, 1, 66979), (66956, 66962, 1, 66995),
    (66964, 66965, 1, 67003), (68736, 68786, 1, 68800), (71840, 71871, 1, 71872),
    (93760, 93791, 1, 93792), (125184, 125217, 1, 125218)]"

text \<open>
  The upper case of the code points outside ASCII whose upper case is another single code
  point (\<open>UnicodeData.txt\<close>).
\<close>

definition upperTable :: "(nat \<times> nat \<times> nat \<times> nat) list" where
  "upperTable =
   [(181, 181, 1, 924), (224, 246, 1, 192), (248, 254, 1, 216), (255, 255, 1, 376),
    (257, 303, 2, 256), (305, 305, 1, 73), (307, 311, 2, 306), (314, 328, 2, 313),
    (331, 375, 2, 330), (378, 382, 2, 377), (383, 383, 1, 83), (384, 384, 1, 579),
    (387, 389, 2, 386), (392, 392, 1, 391), (396, 396, 1, 395), (402, 402, 1, 401),
    (405, 405, 1, 502), (409, 409, 1, 408), (410, 410, 1, 573), (414, 414, 1, 544),
    (417, 421, 2, 416), (424, 424, 1, 423), (429, 429, 1, 428), (432, 432, 1, 431),
    (436, 438, 2, 435), (441, 441, 1, 440), (445, 445, 1, 444), (447, 447, 1, 503),
    (453, 453, 1, 452), (454, 454, 1, 452), (456, 456, 1, 455), (457, 457, 1, 455),
    (459, 459, 1, 458), (460, 460, 1, 458), (462, 476, 2, 461), (477, 477, 1, 398),
    (479, 495, 2, 478), (498, 498, 1, 497), (499, 499, 1, 497), (501, 501, 1, 500),
    (505, 543, 2, 504), (547, 563, 2, 546), (572, 572, 1, 571), (575, 576, 1, 11390),
    (578, 578, 1, 577), (583, 591, 2, 582), (592, 592, 1, 11375), (593, 593, 1, 11373),
    (594, 594, 1, 11376), (595, 595, 1, 385), (596, 596, 1, 390), (598, 599, 1, 393),
    (601, 601, 1, 399), (603, 603, 1, 400), (604, 604, 1, 42923), (608, 608, 1, 403),
    (609, 609, 1, 42924), (611, 611, 1, 404), (613, 613, 1, 42893), (614, 614, 1, 42922),
    (616, 616, 1, 407), (617, 617, 1, 406), (618, 618, 1, 42926), (619, 619, 1, 11362),
    (620, 620, 1, 42925), (623, 623, 1, 412), (625, 625, 1, 11374), (626, 626, 1, 413),
    (629, 629, 1, 415), (637, 637, 1, 11364), (640, 640, 1, 422), (642, 642, 1, 42949),
    (643, 643, 1, 425), (647, 647, 1, 42929), (648, 648, 1, 430), (649, 649, 1, 580),
    (650, 651, 1, 433), (652, 652, 1, 581), (658, 658, 1, 439), (669, 669, 1, 42930),
    (670, 670, 1, 42928), (837, 837, 1, 921), (881, 883, 2, 880), (887, 887, 1, 886),
    (891, 893, 1, 1021), (940, 940, 1, 902), (941, 943, 1, 904), (945, 961, 1, 913),
    (962, 962, 1, 931), (963, 971, 1, 931), (972, 972, 1, 908), (973, 974, 1, 910),
    (976, 976, 1, 914), (977, 977, 1, 920), (981, 981, 1, 934), (982, 982, 1, 928),
    (983, 983, 1, 975), (985, 1007, 2, 984), (1008, 1008, 1, 922), (1009, 1009, 1, 929),
    (1010, 1010, 1, 1017), (1011, 1011, 1, 895), (1013, 1013, 1, 917), (1016, 1016, 1, 1015),
    (1019, 1019, 1, 1018), (1072, 1103, 1, 1040), (1104, 1119, 1, 1024), (1121, 1153, 2, 1120),
    (1163, 1215, 2, 1162), (1218, 1230, 2, 1217), (1231, 1231, 1, 1216), (1233, 1327, 2, 1232),
    (1377, 1414, 1, 1329), (4304, 4346, 1, 7312), (4349, 4351, 1, 7357), (5112, 5117, 1, 5104),
    (7296, 7296, 1, 1042), (7297, 7297, 1, 1044), (7298, 7298, 1, 1054), (7299, 7300, 1, 1057),
    (7301, 7301, 1, 1058), (7302, 7302, 1, 1066), (7303, 7303, 1, 1122), (7304, 7304, 1, 42570),
    (7545, 7545, 1, 42877), (7549, 7549, 1, 11363), (7566, 7566, 1, 42950), (7681, 7829, 2, 7680),
    (7835, 7835, 1, 7776), (7841, 7935, 2, 7840), (7936, 7943, 1, 7944), (7952, 7957, 1, 7960),
    (7968, 7975, 1, 7976), (7984, 7991, 1, 7992), (8000, 8005, 1, 8008), (8017, 8017, 1, 8025),
    (8019, 8019, 1, 8027), (8021, 8021, 1, 8029), (8023, 8023, 1, 8031), (8032, 8039, 1, 8040),
    (8048, 8049, 1, 8122), (8050, 8053, 1, 8136), (8054, 8055, 1, 8154), (8056, 8057, 1, 8184),
    (8058, 8059, 1, 8170), (8060, 8061, 1, 8186), (8112, 8113, 1, 8120), (8126, 8126, 1, 921),
    (8144, 8145, 1, 8152), (8160, 8161, 1, 8168), (8165, 8165, 1, 8172), (8526, 8526, 1, 8498),
    (8560, 8575, 1, 8544), (8580, 8580, 1, 8579), (9424, 9449, 1, 9398), (11312, 11359, 1, 11264),
    (11361, 11361, 1, 11360), (11365, 11365, 1, 570), (11366, 11366, 1, 574),
    (11368, 11372, 2, 11367), (11379, 11379, 1, 11378), (11382, 11382, 1, 11381),
    (11393, 11491, 2, 11392), (11500, 11502, 2, 11499), (11507, 11507, 1, 11506),
    (11520, 11557, 1, 4256), (11559, 11559, 1, 4295), (11565, 11565, 1, 4301),
    (42561, 42605, 2, 42560), (42625, 42651, 2, 42624), (42787, 42799, 2, 42786),
    (42803, 42863, 2, 42802), (42874, 42876, 2, 42873), (42879, 42887, 2, 42878),
    (42892, 42892, 1, 42891), (42897, 42899, 2, 42896), (42900, 42900, 1, 42948),
    (42903, 42921, 2, 42902), (42933, 42947, 2, 42932), (42952, 42954, 2, 42951),
    (42961, 42961, 1, 42960), (42967, 42969, 2, 42966), (42998, 42998, 1, 42997),
    (43859, 43859, 1, 42931), (43888, 43967, 1, 5024), (65345, 65370, 1, 65313),
    (66600, 66639, 1, 66560), (66776, 66811, 1, 66736), (66967, 66977, 1, 66928),
    (66979, 66993, 1, 66940), (66995, 67001, 1, 66956), (67003, 67004, 1, 66964),
    (68800, 68850, 1, 68736), (71872, 71903, 1, 71840), (93792, 93823, 1, 93760),
    (125218, 125251, 1, 125184)]"

text \<open>
  The code points whose upper case is more than one code point (\<open>SpecialCasing.txt\<close>,
  the entries without a condition), with the code units of their upper case.
\<close>

definition upperSpecial :: "(nat \<times> nat list) list" where
  "upperSpecial =
   [(223, [83, 83]), (329, [700, 78]), (496, [74, 780]), (912, [921, 776, 769]),
    (944, [933, 776, 769]), (1415, [1333, 1362]), (7830, [72, 817]), (7831, [84, 776]),
    (7832, [87, 778]), (7833, [89, 778]), (7834, [65, 702]), (8016, [933, 787]),
    (8018, [933, 787, 768]), (8020, [933, 787, 769]), (8022, [933, 787, 834]), (8064, [7944, 921]),
    (8065, [7945, 921]), (8066, [7946, 921]), (8067, [7947, 921]), (8068, [7948, 921]),
    (8069, [7949, 921]), (8070, [7950, 921]), (8071, [7951, 921]), (8072, [7944, 921]),
    (8073, [7945, 921]), (8074, [7946, 921]), (8075, [7947, 921]), (8076, [7948, 921]),
    (8077, [7949, 921]), (8078, [7950, 921]), (8079, [7951, 921]), (8080, [7976, 921]),
    (8081, [7977, 921]), (8082, [7978, 921]), (8083, [7979, 921]), (8084, [7980, 921]),
    (8085, [7981, 921]), (8086, [7982, 921]), (8087, [7983, 921]), (8088, [7976, 921]),
    (8089, [7977, 921]), (8090, [7978, 921]), (8091, [7979, 921]), (8092, [7980, 921]),
    (8093, [7981, 921]), (8094, [7982, 921]), (8095, [7983, 921]), (8096, [8040, 921]),
    (8097, [8041, 921]), (8098, [8042, 921]), (8099, [8043, 921]), (8100, [8044, 921]),
    (8101, [8045, 921]), (8102, [8046, 921]), (8103, [8047, 921]), (8104, [8040, 921]),
    (8105, [8041, 921]), (8106, [8042, 921]), (8107, [8043, 921]), (8108, [8044, 921]),
    (8109, [8045, 921]), (8110, [8046, 921]), (8111, [8047, 921]), (8114, [8122, 921]),
    (8115, [913, 921]), (8116, [902, 921]), (8118, [913, 834]), (8119, [913, 834, 921]),
    (8124, [913, 921]), (8130, [8138, 921]), (8131, [919, 921]), (8132, [905, 921]),
    (8134, [919, 834]), (8135, [919, 834, 921]), (8140, [919, 921]), (8146, [921, 776, 768]),
    (8147, [921, 776, 769]), (8150, [921, 834]), (8151, [921, 776, 834]), (8162, [933, 776, 768]),
    (8163, [933, 776, 769]), (8164, [929, 787]), (8166, [933, 834]), (8167, [933, 776, 834]),
    (8178, [8186, 921]), (8179, [937, 921]), (8180, [911, 921]), (8182, [937, 834]),
    (8183, [937, 834, 921]), (8188, [937, 921]), (64256, [70, 70]), (64257, [70, 73]),
    (64258, [70, 76]), (64259, [70, 70, 73]), (64260, [70, 70, 76]), (64261, [83, 84]),
    (64262, [83, 84]), (64275, [1348, 1350]), (64276, [1348, 1333]), (64277, [1348, 1339]),
    (64278, [1358, 1350]), (64279, [1348, 1341])]"

text \<open>
  The code points with the property \<open>Case_Ignorable\<close>, and those with the property
  \<open>Cased\<close> and without \<open>Case_Ignorable\<close>, as ranges.
\<close>

definition caseIgnorable :: "(nat \<times> nat) list" where
  "caseIgnorable =
   [(39, 39), (46, 46), (58, 58), (94, 94), (96, 96), (168, 168), (173, 173), (175, 175),
    (180, 180), (183, 184), (688, 879), (884, 885), (890, 890), (900, 901), (903, 903),
    (1155, 1161), (1369, 1369), (1375, 1375), (1425, 1469), (1471, 1471), (1473, 1474),
    (1476, 1477), (1479, 1479), (1524, 1524), (1536, 1541), (1552, 1562), (1564, 1564),
    (1600, 1600), (1611, 1631), (1648, 1648), (1750, 1757), (1759, 1768), (1770, 1773),
    (1807, 1807), (1809, 1809), (1840, 1866), (1958, 1968), (2027, 2037), (2042, 2042),
    (2045, 2045), (2070, 2093), (2137, 2139), (2184, 2184), (2192, 2193), (2200, 2207),
    (2249, 2306), (2362, 2362), (2364, 2364), (2369, 2376), (2381, 2381), (2385, 2391),
    (2402, 2403), (2417, 2417), (2433, 2433), (2492, 2492), (2497, 2500), (2509, 2509),
    (2530, 2531), (2558, 2558), (2561, 2562), (2620, 2620), (2625, 2626), (2631, 2632),
    (2635, 2637), (2641, 2641), (2672, 2673), (2677, 2677), (2689, 2690), (2748, 2748),
    (2753, 2757), (2759, 2760), (2765, 2765), (2786, 2787), (2810, 2815), (2817, 2817),
    (2876, 2876), (2879, 2879), (2881, 2884), (2893, 2893), (2901, 2902), (2914, 2915),
    (2946, 2946), (3008, 3008), (3021, 3021), (3072, 3072), (3076, 3076), (3132, 3132),
    (3134, 3136), (3142, 3144), (3146, 3149), (3157, 3158), (3170, 3171), (3201, 3201),
    (3260, 3260), (3263, 3263), (3270, 3270), (3276, 3277), (3298, 3299), (3328, 3329),
    (3387, 3388), (3393, 3396), (3405, 3405), (3426, 3427), (3457, 3457), (3530, 3530),
    (3538, 3540), (3542, 3542), (3633, 3633), (3636, 3642), (3654, 3662), (3761, 3761),
    (3764, 3772), (3782, 3782), (3784, 3790), (3864, 3865), (3893, 3893), (3895, 3895),
    (3897, 3897), (3953, 3966), (3968, 3972), (3974, 3975), (3981, 3991), (3993, 4028),
    (4038, 4038), (4141, 4144), (4146, 4151), (4153, 4154), (4157, 4158), (4184, 4185),
    (4190, 4192), (4209, 4212), (4226, 4226), (4229, 4230), (4237, 4237), (4253, 4253),
    (4348, 4348), (4957, 4959), (5906, 5908), (5938, 5939), (5970, 5971), (6002, 6003),
    (6068, 6069), (6071, 6077), (6086, 6086), (6089, 6099), (6103, 6103), (6109, 6109),
    (6155, 6159), (6211, 6211), (6277, 6278), (6313, 6313), (6432, 6434), (6439, 6440),
    (6450, 6450), (6457, 6459), (6679, 6680), (6683, 6683), (6742, 6742), (6744, 6750),
    (6752, 6752), (6754, 6754), (6757, 6764), (6771, 6780), (6783, 6783), (6823, 6823),
    (6832, 6862), (6912, 6915), (6964, 6964), (6966, 6970), (6972, 6972), (6978, 6978),
    (7019, 7027), (7040, 7041), (7074, 7077), (7080, 7081), (7083, 7085), (7142, 7142),
    (7144, 7145), (7149, 7149), (7151, 7153), (7212, 7219), (7222, 7223), (7288, 7293),
    (7376, 7378), (7380, 7392), (7394, 7400), (7405, 7405), (7412, 7412), (7416, 7417),
    (7468, 7530), (7544, 7544), (7579, 7679), (8125, 8125), (8127, 8129), (8141, 8143),
    (8157, 8159), (8173, 8175), (8189, 8190), (8203, 8207), (8216, 8217), (8228, 8228),
    (8231, 8231), (8234, 8238), (8288, 8292), (8294, 8303), (8305, 8305), (8319, 8319),
    (8336, 8348), (8400, 8432), (11388, 11389), (11503, 11505), (11631, 11631), (11647, 11647),
    (11744, 11775), (11823, 11823), (12293, 12293), (12330, 12333), (12337, 12341), (12347, 12347),
    (12441, 12446), (12540, 12542), (40981, 40981), (42232, 42237), (42508, 42508), (42607, 42610),
    (42612, 42621), (42623, 42623), (42652, 42655), (42736, 42737), (42752, 42785), (42864, 42864),
    (42888, 42890), (42994, 42996), (43000, 43001), (43010, 43010), (43014, 43014), (43019, 43019),
    (43045, 43046), (43052, 43052), (43204, 43205), (43232, 43249), (43263, 43263), (43302, 43309),
    (43335, 43345), (43392, 43394), (43443, 43443), (43446, 43449), (43452, 43453), (43471, 43471),
    (43493, 43494), (43561, 43566), (43569, 43570), (43573, 43574), (43587, 43587), (43596, 43596),
    (43632, 43632), (43644, 43644), (43696, 43696), (43698, 43700), (43703, 43704), (43710, 43711),
    (43713, 43713), (43741, 43741), (43756, 43757), (43763, 43764), (43766, 43766), (43867, 43871),
    (43881, 43883), (44005, 44005), (44008, 44008), (44013, 44013), (64286, 64286), (64434, 64450),
    (65024, 65039), (65043, 65043), (65056, 65071), (65106, 65106), (65109, 65109), (65279, 65279),
    (65287, 65287), (65294, 65294), (65306, 65306), (65342, 65342), (65344, 65344), (65392, 65392),
    (65438, 65439), (65507, 65507), (65529, 65531), (66045, 66045), (66272, 66272), (66422, 66426),
    (67456, 67461), (67463, 67504), (67506, 67514), (68097, 68099), (68101, 68102), (68108, 68111),
    (68152, 68154), (68159, 68159), (68325, 68326), (68900, 68903), (69291, 69292), (69373, 69375),
    (69446, 69456), (69506, 69509), (69633, 69633), (69688, 69702), (69744, 69744), (69747, 69748),
    (69759, 69761), (69811, 69814), (69817, 69818), (69821, 69821), (69826, 69826), (69837, 69837),
    (69888, 69890), (69927, 69931), (69933, 69940), (70003, 70003), (70016, 70017), (70070, 70078),
    (70089, 70092), (70095, 70095), (70191, 70193), (70196, 70196), (70198, 70199), (70206, 70206),
    (70209, 70209), (70367, 70367), (70371, 70378), (70400, 70401), (70459, 70460), (70464, 70464),
    (70502, 70508), (70512, 70516), (70712, 70719), (70722, 70724), (70726, 70726), (70750, 70750),
    (70835, 70840), (70842, 70842), (70847, 70848), (70850, 70851), (71090, 71093), (71100, 71101),
    (71103, 71104), (71132, 71133), (71219, 71226), (71229, 71229), (71231, 71232), (71339, 71339),
    (71341, 71341), (71344, 71349), (71351, 71351), (71453, 71455), (71458, 71461), (71463, 71467),
    (71727, 71735), (71737, 71738), (71995, 71996), (71998, 71998), (72003, 72003), (72148, 72151),
    (72154, 72155), (72160, 72160), (72193, 72202), (72243, 72248), (72251, 72254), (72263, 72263),
    (72273, 72278), (72281, 72283), (72330, 72342), (72344, 72345), (72752, 72758), (72760, 72765),
    (72767, 72767), (72850, 72871), (72874, 72880), (72882, 72883), (72885, 72886), (73009, 73014),
    (73018, 73018), (73020, 73021), (73023, 73029), (73031, 73031), (73104, 73105), (73109, 73109),
    (73111, 73111), (73459, 73460), (73472, 73473), (73526, 73530), (73536, 73536), (73538, 73538),
    (78896, 78912), (78919, 78933), (92912, 92916), (92976, 92982), (92992, 92995), (94031, 94031),
    (94095, 94111), (94176, 94177), (94179, 94180), (110576, 110579), (110581, 110587),
    (110589, 110590), (113821, 113822), (113824, 113827), (118528, 118573), (118576, 118598),
    (119143, 119145), (119155, 119170), (119173, 119179), (119210, 119213), (119362, 119364),
    (121344, 121398), (121403, 121452), (121461, 121461), (121476, 121476), (121499, 121503),
    (121505, 121519), (122880, 122886), (122888, 122904), (122907, 122913), (122915, 122916),
    (122918, 122922), (122928, 122989), (123023, 123023), (123184, 123197), (123566, 123566),
    (123628, 123631), (124139, 124143), (125136, 125142), (125252, 125259), (127995, 127999),
    (917505, 917505), (917536, 917631), (917760, 917999)]"

definition casedLetter :: "(nat \<times> nat) list" where
  "casedLetter =
   [(65, 90), (97, 122), (170, 170), (181, 181), (186, 186), (192, 214), (216, 246), (248, 442),
    (444, 447), (452, 659), (661, 687), (880, 883), (886, 887), (891, 893), (895, 895), (902, 902),
    (904, 906), (908, 908), (910, 929), (931, 1013), (1015, 1153), (1162, 1327), (1329, 1366),
    (1376, 1416), (4256, 4293), (4295, 4295), (4301, 4301), (4304, 4346), (4349, 4351),
    (5024, 5109), (5112, 5117), (7296, 7304), (7312, 7354), (7357, 7359), (7424, 7467),
    (7531, 7543), (7545, 7578), (7680, 7957), (7960, 7965), (7968, 8005), (8008, 8013),
    (8016, 8023), (8025, 8025), (8027, 8027), (8029, 8029), (8031, 8061), (8064, 8116),
    (8118, 8124), (8126, 8126), (8130, 8132), (8134, 8140), (8144, 8147), (8150, 8155),
    (8160, 8172), (8178, 8180), (8182, 8188), (8450, 8450), (8455, 8455), (8458, 8467),
    (8469, 8469), (8473, 8477), (8484, 8484), (8486, 8486), (8488, 8488), (8490, 8493),
    (8495, 8500), (8505, 8505), (8508, 8511), (8517, 8521), (8526, 8526), (8544, 8575),
    (8579, 8580), (9398, 9449), (11264, 11387), (11390, 11492), (11499, 11502), (11506, 11507),
    (11520, 11557), (11559, 11559), (11565, 11565), (42560, 42605), (42624, 42651), (42786, 42863),
    (42865, 42887), (42891, 42894), (42896, 42954), (42960, 42961), (42963, 42963), (42965, 42969),
    (42997, 42998), (43002, 43002), (43824, 43866), (43872, 43880), (43888, 43967), (64256, 64262),
    (64275, 64279), (65313, 65338), (65345, 65370), (66560, 66639), (66736, 66771), (66776, 66811),
    (66928, 66938), (66940, 66954), (66956, 66962), (66964, 66965), (66967, 66977), (66979, 66993),
    (66995, 67001), (67003, 67004), (68736, 68786), (68800, 68850), (71840, 71903), (93760, 93823),
    (119808, 119892), (119894, 119964), (119966, 119967), (119970, 119970), (119973, 119974),
    (119977, 119980), (119982, 119993), (119995, 119995), (119997, 120003), (120005, 120069),
    (120071, 120074), (120077, 120084), (120086, 120092), (120094, 120121), (120123, 120126),
    (120128, 120132), (120134, 120134), (120138, 120144), (120146, 120485), (120488, 120512),
    (120514, 120538), (120540, 120570), (120572, 120596), (120598, 120628), (120630, 120654),
    (120656, 120686), (120688, 120712), (120714, 120744), (120746, 120770), (120772, 120779),
    (122624, 122633), (122635, 122654), (122661, 122666), (125184, 125251), (127280, 127305),
    (127312, 127337), (127344, 127369)]"

definition simpleLower :: "nat \<Rightarrow> nat" where
  "simpleLower c = (if c < 128 then lowerChar c else caseLookup lowerTable c)"

definition simpleUpper :: "nat \<Rightarrow> nat" where
  "simpleUpper c = (if c < 128 then upperChar c else caseLookup upperTable c)"

text \<open>
  The condition \<open>Final_Sigma\<close> of a capital sigma: before it, after any case-ignorable
  code points, stands a cased letter, and after it, after any case-ignorable code
  points, stands none. \<open>prior\<close> is the text before the sigma, the nearest code point
  first, and \<open>rest\<close> the text after it.
\<close>

fun skipIgnorable :: "nat list \<Rightarrow> nat option" where
  "skipIgnorable [] = None"
| "skipIgnorable (c # cs) = (if inRanges caseIgnorable c then skipIgnorable cs else Some c)"

definition finalSigma :: "nat list \<Rightarrow> nat list \<Rightarrow> bool" where
  "finalSigma prior rest =
     ((case skipIgnorable prior of None \<Rightarrow> False | Some c \<Rightarrow> inRanges casedLetter c)
      \<and> (case skipIgnorable rest of None \<Rightarrow> True | Some c \<Rightarrow> \<not> inRanges casedLetter c))"

text \<open>
  The lower case of one code point in its context: the capital sigma (U+03A3) gives the
  final or the common small sigma, the capital I with a dot above (U+0130) gives
  \<open>i\<close> and a combining dot (\<open>SpecialCasing.txt\<close>), every other code point the
  code point of the table.
\<close>

definition lowerOf :: "nat list \<Rightarrow> nat \<Rightarrow> nat list \<Rightarrow> jstring" where
  "lowerOf prior c rest =
     (if c = 931 then (if finalSigma prior rest then [962] else [963])
      else if c = 304 then [105, 775]
      else codeUnits (simpleLower c))"

fun lowerFrom :: "nat list \<Rightarrow> nat list \<Rightarrow> jstring" where
  "lowerFrom prior [] = []"
| "lowerFrom prior (c # cs) = lowerOf prior c cs @ lowerFrom (c # prior) cs"

definition toLowerCase :: "jstring \<Rightarrow> jstring" where
  "toLowerCase s = lowerFrom [] (codePoints s)"

text \<open>The upper case of one code point, and \<open>toUpperCase\<close>.\<close>

definition upperOf :: "nat \<Rightarrow> jstring" where
  "upperOf c = (case map_of upperSpecial c of Some us \<Rightarrow> us | None \<Rightarrow> codeUnits (simpleUpper c))"

definition toUpperCase :: "jstring \<Rightarrow> jstring" where
  "toUpperCase s = concat (map upperOf (codePoints s))"

definition isDigit :: "nat \<Rightarrow> bool" where
  "isDigit c = (48 \<le> c \<and> c \<le> 57)"

text \<open>The class \<open>\w\<close>: ASCII letters, digits and the underscore.\<close>

definition isWordChar :: "nat \<Rightarrow> bool" where
  "isWordChar c = ((48 \<le> c \<and> c \<le> 57) \<or> (65 \<le> c \<and> c \<le> 90) \<or> c = 95 \<or> (97 \<le> c \<and> c \<le> 122))"

text \<open>The class \<open>\s\<close>: the white space and line terminator code units of ECMAScript.\<close>

definition isSpace :: "nat \<Rightarrow> bool" where
  "isSpace c = ((9 \<le> c \<and> c \<le> 13) \<or> c = 32 \<or> c = 160 \<or> c = 5760 \<or> (8192 \<le> c \<and> c \<le> 8202)
     \<or> c = 8232 \<or> c = 8233 \<or> c = 8239 \<or> c = 8287 \<or> c = 12288 \<or> c = 65279)"

text \<open>\<open>String.prototype.includes\<close> and \<open>startsWith\<close>.\<close>

fun startsWith :: "jstring \<Rightarrow> jstring \<Rightarrow> bool" where
  "startsWith s [] = True"
| "startsWith [] (p # ps) = False"
| "startsWith (c # cs) (p # ps) = (c = p \<and> startsWith cs ps)"

fun strIncludes :: "jstring \<Rightarrow> jstring \<Rightarrow> bool" where
  "strIncludes [] w = startsWith [] w"
| "strIncludes (c # cs) w = (startsWith (c # cs) w \<or> strIncludes cs w)"

text \<open>Comparison of two strings with \<open><\<close>: lexicographic on the code units.\<close>

fun strLess :: "jstring \<Rightarrow> jstring \<Rightarrow> bool" where
  "strLess [] [] = False"
| "strLess [] (b # bs) = True"
| "strLess (a # as) [] = False"
| "strLess (a # as) (b # bs) = (a < b \<or> (a = b \<and> strLess as bs))"

text \<open>Unary plus and \<open>parseInt\<close> on a string of decimal digits.\<close>

definition digitsToNat :: "jstring \<Rightarrow> nat" where
  "digitsToNat s = foldl (\<lambda>n c. 10 * n + (c - 48)) 0 s"

section \<open>Regular expressions\<close>

text \<open>
  The patterns of the source, as data. A quantifier of the source is always applied
  to a character class (\<open>\d{1,2}\<close>, \<open>\s+\<close>, \<open>\s*\<close>, \<open>\d+\<close>, \<open>[,\s]+\<close>) or is
  an optional group. \<open>Many k m n\<close> is the greedy quantifier on class \<open>k\<close> with at
  least \<open>m\<close> and at most \<open>n\<close> repetitions (\<open>None\<close>: unbounded).
\<close>

datatype cls = CDigit | CSpace | CChar nat | CUnion cls cls

datatype rx =
    Lit jstring
  | Cls cls
  | Bnd
  | Seq rx rx
  | Alt rx rx
  | Opt rx
  | Many cls nat "nat option"
  | Grp nat rx

fun inCls :: "cls \<Rightarrow> nat \<Rightarrow> bool" where
  "inCls CDigit c = isDigit c"
| "inCls CSpace c = isSpace c"
| "inCls (CChar d) c = (c = d)"
| "inCls (CUnion a b) c = (inCls a c \<or> inCls b c)"

text \<open>
  \<open>Canonicalize\<close> under the flag \<open>i\<close>, without the flag \<open>u\<close>: a code unit is
  replaced by its upper case when that is a single code unit, except that a code
  unit outside ASCII is never replaced by an ASCII one. Two code units are the same
  under the flag when their canonical forms are equal.
\<close>

definition canonicalize :: "nat \<Rightarrow> nat" where
  "canonicalize c =
     (if c < 128 then upperChar c
      else (case upperOf c of [u] \<Rightarrow> if u < 128 then c else u | _ \<Rightarrow> c))"

definition sameChar :: "bool \<Rightarrow> nat \<Rightarrow> nat \<Rightarrow> bool" where
  "sameChar icase p c = (if icase then canonicalize p = canonicalize c else p = c)"

fun litPrefix :: "bool \<Rightarrow> jstring \<Rightarrow> jstring \<Rightarrow> bool" where
  "litPrefix icase [] s = True"
| "litPrefix icase (p # ps) [] = False"
| "litPrefix icase (p # ps) (c # cs) = (sameChar icase p c \<and> litPrefix icase ps cs)"

text \<open>The number of leading code units of the input that are in the class.\<close>

fun runLength :: "cls \<Rightarrow> jstring \<Rightarrow> nat" where
  "runLength k [] = 0"
| "runLength k (c # cs) = (if inCls k c then Suc (runLength k cs) else 0)"

text \<open>The candidate lengths of a greedy quantifier, longest first.\<close>

fun countDown :: "nat \<Rightarrow> nat \<Rightarrow> nat list" where
  "countDown 0 m = (if m = 0 then [0] else [])"
| "countDown (Suc n) m = (if m \<le> Suc n then Suc n # countDown n m else [])"

definition isWordAt :: "nat option \<Rightarrow> bool" where
  "isWordAt c = (case c of None \<Rightarrow> False | Some x \<Rightarrow> isWordChar x)"

definition nextChar :: "jstring \<Rightarrow> nat option" where
  "nextChar s = (case s of [] \<Rightarrow> None | c # _ \<Rightarrow> Some c)"

definition prevAfter :: "nat option \<Rightarrow> jstring \<Rightarrow> nat option" where
  "prevAfter prev m = (if m = [] then prev else Some (last m))"

type_synonym caps = "(nat \<times> jstring) list"

text \<open>
  The backtracking matcher: every way the pattern matches at the head of the input,
  in the order in which a backtracking engine tries them. A result is the matched text, the rest of
  the input and the captures; \<open>prev\<close> is the code unit before the input, for \<open>\b\<close>.
\<close>

fun rmatch :: "bool \<Rightarrow> rx \<Rightarrow> nat option \<Rightarrow> jstring \<Rightarrow> caps \<Rightarrow> (jstring \<times> jstring \<times> caps) list" where
  "rmatch i (Lit w) prev s c =
     (if litPrefix i w s then [(take (length w) s, drop (length w) s, c)] else [])"
| "rmatch i (Cls k) prev s c =
     (case s of [] \<Rightarrow> [] | x # xs \<Rightarrow> if inCls k x then [([x], xs, c)] else [])"
| "rmatch i Bnd prev s c =
     (if isWordAt prev \<noteq> isWordAt (nextChar s) then [([], s, c)] else [])"
| "rmatch i (Seq a b) prev s c =
     concat (map (\<lambda>(m1, s1, c1).
        map (\<lambda>(m2, s2, c2). (m1 @ m2, s2, c2)) (rmatch i b (prevAfter prev m1) s1 c1))
       (rmatch i a prev s c))"
| "rmatch i (Alt a b) prev s c = rmatch i a prev s c @ rmatch i b prev s c"
| "rmatch i (Opt a) prev s c = rmatch i a prev s c @ [([], s, c)]"
| "rmatch i (Many k lo hi) prev s c =
     (let n = (case hi of None \<Rightarrow> runLength k s | Some h \<Rightarrow> min h (runLength k s))
      in map (\<lambda>j. (take j s, drop j s, c)) (countDown n lo))"
| "rmatch i (Grp g a) prev s c =
     map (\<lambda>(m, s', c'). (m, s', (g, m) # c')) (rmatch i a prev s c)"

text \<open>\<open>String.prototype.match\<close> without the flag \<open>g\<close>: the leftmost match.\<close>

fun rsearch :: "bool \<Rightarrow> rx \<Rightarrow> nat option \<Rightarrow> jstring \<Rightarrow> (jstring \<times> caps) option" where
  "rsearch i r prev [] =
     (case rmatch i r prev [] [] of [] \<Rightarrow> None | (m, _, c) # _ \<Rightarrow> Some (m, c))"
| "rsearch i r prev (x # xs) =
     (case rmatch i r prev (x # xs) [] of
        [] \<Rightarrow> rsearch i r (Some x) xs
      | (m, _, c) # _ \<Rightarrow> Some (m, c))"

definition rxMatch :: "bool \<Rightarrow> rx \<Rightarrow> jstring \<Rightarrow> (jstring \<times> caps) option" where
  "rxMatch i r s = rsearch i r None s"

definition rxTest :: "bool \<Rightarrow> rx \<Rightarrow> jstring \<Rightarrow> bool" where
  "rxTest i r s = (rxMatch i r s \<noteq> None)"

text \<open>The text of a capture group, \<open>None\<close> when the group did not take part.\<close>

definition cap :: "caps \<Rightarrow> nat \<Rightarrow> jstring option" where
  "cap c g = map_of c g"

text \<open>An alternation of literals, in the order of the list.\<close>

fun alts :: "jstring list \<Rightarrow> rx" where
  "alts [] = Lit []"
| "alts [w] = Lit w"
| "alts (w # ws) = Alt (Lit w) (alts ws)"

fun seqs :: "rx list \<Rightarrow> rx" where
  "seqs [] = Lit []"
| "seqs [r] = r"
| "seqs (r # rs) = Seq r (seqs rs)"

section \<open>Dates of the JavaScript runtime\<close>

text \<open>
  A valid \<open>Date\<close> is its time value, an integer number of milliseconds since the epoch.
  Local time is UTC shifted by a fixed offset \<open>tz\<close>, in minutes east of UTC.
  Time values are taken to stay inside the range of \<open>Date\<close>.
\<close>

datatype jsdate = Date int | InvalidDate

definition msPerDay :: int where
  "msPerDay = 86400000"

definition dayFromYear :: "int \<Rightarrow> int" where
  "dayFromYear y = 365 * (y - 1970) + (y - 1969) div 4 - (y - 1901) div 100 + (y - 1601) div 400"

definition isLeap :: "int \<Rightarrow> bool" where
  "isLeap y = ((y mod 4 = 0 \<and> y mod 100 \<noteq> 0) \<or> y mod 400 = 0)"

definition monthStart :: "bool \<Rightarrow> int \<Rightarrow> int" where
  "monthStart leap m =
     (if m = 0 then 0 else if m = 1 then 31
      else (if leap then 1 else 0) +
        (if m = 2 then 59 else if m = 3 then 90 else if m = 4 then 120 else if m = 5 then 151
         else if m = 6 then 181 else if m = 7 then 212 else if m = 8 then 243
         else if m = 9 then 273 else if m = 10 then 304 else 334))"

text \<open>\<open>MakeDay\<close>: the day number of a year, a month (from 0, any integer) and a day of the month (any integer).\<close>

definition makeDay :: "int \<Rightarrow> int \<Rightarrow> int \<Rightarrow> int" where
  "makeDay y m d =
     (let ym = y + m div 12; mn = m mod 12
      in dayFromYear ym + monthStart (isLeap ym) mn + d - 1)"

text \<open>
  The year, the month (from 0) and the day of the month of a day number, by the
  arithmetic of the 400-year cycle that starts on 1 March of year 0: the day \<open>doe\<close> of the
  cycle, its year \<open>yoe\<close> in the cycle, the day \<open>doy\<close> of that year and the month \<open>mp\<close> counted from March.
\<close>

definition civilMonth :: "int \<Rightarrow> int \<Rightarrow> int \<Rightarrow> int \<times> int \<times> int" where
  "civilMonth y doy mp =
     (y + (if mp < 10 then 0 else 1), (if mp < 10 then mp + 2 else mp - 10), doy - (153 * mp + 2) div 5 + 1)"

definition civilDay :: "int \<Rightarrow> int \<Rightarrow> int \<times> int \<times> int" where
  "civilDay y doy = civilMonth y doy ((5 * doy + 2) div 153)"

definition civilYear :: "int \<Rightarrow> int \<Rightarrow> int \<Rightarrow> int \<times> int \<times> int" where
  "civilYear era doe yoe = civilDay (yoe + era * 400) (doe - (365 * yoe + yoe div 4 - yoe div 100))"

definition civilCycle :: "int \<Rightarrow> int \<Rightarrow> int \<times> int \<times> int" where
  "civilCycle era doe = civilYear era doe ((doe - doe div 1460 + doe div 36524 - doe div 146096) div 365)"

definition civil :: "int \<Rightarrow> int \<times> int \<times> int" where
  "civil z = civilCycle ((z + 719468) div 146097) ((z + 719468) mod 146097)"

definition localDays :: "int \<Rightarrow> int \<Rightarrow> int" where
  "localDays tz t = (t + tz * 60000) div msPerDay"

definition timeInDay :: "int \<Rightarrow> int \<Rightarrow> int" where
  "timeInDay tz t = (t + tz * 60000) mod msPerDay"

definition mkLocal :: "int \<Rightarrow> int \<Rightarrow> int \<Rightarrow> int" where
  "mkLocal tz day time = day * msPerDay + time - tz * 60000"

definition getFullYear :: "int \<Rightarrow> int \<Rightarrow> int" where
  "getFullYear tz t = fst (civil (localDays tz t))"

definition getMonth :: "int \<Rightarrow> int \<Rightarrow> int" where
  "getMonth tz t = fst (snd (civil (localDays tz t)))"

definition getDate :: "int \<Rightarrow> int \<Rightarrow> int" where
  "getDate tz t = snd (snd (civil (localDays tz t)))"

text \<open>The day of the week, 0 for Sunday; day number 0 was a Thursday.\<close>

definition getDay :: "int \<Rightarrow> int \<Rightarrow> int" where
  "getDay tz t = (localDays tz t + 4) mod 7"

text \<open>\<open>new Date(y, m, d)\<close>: local midnight; a year from 0 to 99 means 1900 + y.\<close>

definition newDate :: "int \<Rightarrow> int \<Rightarrow> int \<Rightarrow> int \<Rightarrow> int" where
  "newDate tz y m d = mkLocal tz (makeDay (if 0 \<le> y \<and> y \<le> 99 then 1900 + y else y) m d) 0"

definition setDate :: "int \<Rightarrow> int \<Rightarrow> int \<Rightarrow> int" where
  "setDate tz t n =
     (case civil (localDays tz t) of (y, m, _) \<Rightarrow> mkLocal tz (makeDay y m n) (timeInDay tz t))"

definition setFullYear :: "int \<Rightarrow> int \<Rightarrow> int \<Rightarrow> int" where
  "setFullYear tz t y =
     (case civil (localDays tz t) of (_, m, d) \<Rightarrow> mkLocal tz (makeDay y m d) (timeInDay tz t))"

text \<open>\<open>setHours(0, 0, 0, 0)\<close>: local midnight of the same local day.\<close>

definition setHoursZero :: "int \<Rightarrow> int \<Rightarrow> int" where
  "setHoursZero tz t = mkLocal tz (localDays tz t) 0"

definition digit :: "int \<Rightarrow> nat" where
  "digit n = 48 + nat (n mod 10)"

definition pad2 :: "int \<Rightarrow> jstring" where
  "pad2 n = [digit (n div 10), digit n]"

definition pad4 :: "int \<Rightarrow> jstring" where
  "pad4 n = [digit (n div 1000), digit (n div 100), digit (n div 10), digit n]"

definition pad6 :: "int \<Rightarrow> jstring" where
  "pad6 n = [digit (n div 100000), digit (n div 10000)] @ pad4 n"

text \<open>
  The date part of \<open>toISOString()\<close>, the text before the \<open>T\<close>: the UTC date, the year with
  four digits from 0 to 9999 and with a sign and six digits otherwise.
\<close>

definition isoDatePart :: "int \<Rightarrow> jstring" where
  "isoDatePart t =
     (case civil (t div msPerDay) of (y, m, d) \<Rightarrow>
        (if 0 \<le> y \<and> y \<le> 9999 then pad4 y
         else (if y < 0 then [45] else [43]) @ pad6 (abs y))
        @ [45] @ pad2 (m + 1) @ [45] @ pad2 d)"

definition pad3 :: "int \<Rightarrow> jstring" where
  "pad3 n = [digit (n div 100), digit (n div 10), digit n]"

definition toISOString :: "int \<Rightarrow> jstring" where
  "toISOString t =
     (let ms = t mod msPerDay
      in isoDatePart t @ [84] @ pad2 (ms div 3600000) @ [58] @ pad2 (ms div 60000 mod 60) @ [58]
         @ pad2 (ms div 1000 mod 60) @ [46] @ pad3 (ms mod 1000) @ [90])"

text \<open>\<open>toISOString().slice(0, 10)\<close> and \<open>toISOString().split('T')[0]\<close>.\<close>

definition isoSlice10 :: "int \<Rightarrow> jstring" where
  "isoSlice10 t = take 10 (toISOString t)"

definition isoBeforeT :: "int \<Rightarrow> jstring" where
  "isoBeforeT t = takeWhile (\<lambda>c. c \<noteq> 84) (toISOString t)"

section \<open>The date extraction engine (dateExtractor.js)\<close>

datatype kind = KIso | KNumeric | KNamed | KRange | KRelative | KDeadline

record dateResult =
  start :: int
  "end" :: "int option"
  type :: kind

definition MONTHS :: "(jstring \<times> int) list" where
  "MONTHS =
    [(js ''jan'', 0), (js ''january'', 0),
     (js ''feb'', 1), (js ''february'', 1),
     (js ''mar'', 2), (js ''march'', 2),
     (js ''apr'', 3), (js ''april'', 3),
     (js ''may'', 4),
     (js ''jun'', 5), (js ''june'', 5),
     (js ''jul'', 6), (js ''july'', 6),
     (js ''aug'', 7), (js ''august'', 7),
     (js ''sep'', 8), (js ''september'', 8),
     (js ''oct'', 9), (js ''october'', 9),
     (js ''nov'', 10), (js ''november'', 10),
     (js ''dec'', 11), (js ''december'', 11)]"

definition DAYS :: "jstring list" where
  "DAYS = map js [''sunday'', ''monday'', ''tuesday'', ''wednesday'', ''thursday'', ''friday'', ''saturday'']"

text \<open>\<open>monthNum\<close>; a missing key is \<open>null\<close>, which the callers' date arithmetic reads as 0.\<close>

definition monthNum :: "jstring \<Rightarrow> int option" where
  "monthNum str = map_of MONTHS (take 3 (toLowerCase str))"

definition nullAsZero :: "int option \<Rightarrow> int" where
  "nullAsZero v = (case v of None \<Rightarrow> 0 | Some n \<Rightarrow> n)"

definition inferYear :: "int \<Rightarrow> int \<Rightarrow> int \<Rightarrow> int \<Rightarrow> int" where
  "inferYear tz month day ref =
     (let d = newDate tz (getFullYear tz ref) month day
      in if d < ref \<and> ref - d > 30 * 86400000 then setFullYear tz d (getFullYear tz d + 1) else d)"

text \<open>The alternation \<open>monthNames\<close>: the keys of \<open>MONTHS\<close> longer than two, joined by \<open>|\<close>.\<close>

definition monthNames :: rx where
  "monthNames = alts (filter (\<lambda>m. length m > 2) (map fst MONTHS))"

definition digits12 :: rx where
  "digits12 = Many CDigit 1 (Some 2)"

definition digits4 :: rx where
  "digits4 = Many CDigit 4 (Some 4)"

definition ordinalSuffix :: rx where
  "ordinalSuffix = Opt (alts (map js [''st'', ''nd'', ''rd'', ''th'']))"

definition sep :: rx where
  "sep = alts [[47], [45]]"

definition capInt :: "caps \<Rightarrow> nat \<Rightarrow> int" where
  "capInt c g = (case cap c g of None \<Rightarrow> 0 | Some s \<Rightarrow> int (digitsToNat s))"

definition capStr :: "caps \<Rightarrow> nat \<Rightarrow> jstring" where
  "capStr c g = (case cap c g of None \<Rightarrow> [] | Some s \<Rightarrow> s)"

subsection \<open>Layer 1: ISO and numeric dates\<close>

definition isoRe :: rx where
  "isoRe = seqs [Bnd, Grp 1 digits4, Lit [45], Grp 2 digits12, Lit [45], Grp 3 digits12, Bnd]"

definition dmyRe :: rx where
  "dmyRe = seqs [Bnd, Grp 1 digits12, sep, Grp 2 digits12, sep, Grp 3 digits4, Bnd]"

definition extractISO :: "int \<Rightarrow> jstring \<Rightarrow> int \<Rightarrow> dateResult option" where
  "extractISO tz text ref =
     (case rxMatch False isoRe text of
        Some (_, c) \<Rightarrow>
          Some \<lparr>start = newDate tz (capInt c 1) (capInt c 2 - 1) (capInt c 3), end = None, type = KIso\<rparr>
      | None \<Rightarrow>
         (case rxMatch False dmyRe text of
            Some (_, c) \<Rightarrow>
              Some \<lparr>start = newDate tz (capInt c 3) (capInt c 2 - 1) (capInt c 1), end = None, type = KNumeric\<rparr>
          | None \<Rightarrow> None))"

subsection \<open>Layer 2: named dates\<close>

definition optYear :: rx where
  "optYear = Opt (Seq (Many (CUnion (CChar 44) CSpace) 1 None) (Grp 3 digits4))"

definition namedRe1 :: rx where
  "namedRe1 = seqs [Bnd, Grp 1 monthNames, Many CSpace 1 None, Grp 2 digits12, ordinalSuffix, optYear, Bnd]"

definition namedRe2 :: rx where
  "namedRe2 = seqs [Bnd, Grp 1 digits12, ordinalSuffix, Many CSpace 1 None, Grp 2 monthNames,
     Opt (Seq (Many CSpace 1 None) (Grp 3 digits4)), Bnd]"

text \<open>
  \<open>yr ? new Date(yr, mo, day) : inferYear(mo, day, ref)\<close>: the year is used when the
  group matched and its number is not 0.
\<close>

definition dateWithYear :: "int \<Rightarrow> caps \<Rightarrow> nat \<Rightarrow> int \<Rightarrow> int \<Rightarrow> int \<Rightarrow> int" where
  "dateWithYear tz c g mo day ref =
     (case cap c g of
        None \<Rightarrow> inferYear tz mo day ref
      | Some ys \<Rightarrow>
         (let yr = int (digitsToNat ys)
          in if yr \<noteq> 0 then newDate tz yr mo day else inferYear tz mo day ref))"

definition extractNamed :: "int \<Rightarrow> jstring \<Rightarrow> int \<Rightarrow> dateResult option" where
  "extractNamed tz text ref =
     (case rxMatch True namedRe1 text of
        Some (_, c) \<Rightarrow>
          (let mo = nullAsZero (monthNum (capStr c 1)); day = capInt c 2
           in Some \<lparr>start = dateWithYear tz c 3 mo day ref, end = None, type = KNamed\<rparr>)
      | None \<Rightarrow>
         (case rxMatch True namedRe2 text of
            Some (_, c) \<Rightarrow>
              (let mo = nullAsZero (monthNum (capStr c 2)); day = capInt c 1
               in Some \<lparr>start = dateWithYear tz c 3 mo day ref, end = None, type = KNamed\<rparr>)
          | None \<Rightarrow> None))"

subsection \<open>Layer 3: date ranges\<close>

definition toWords :: rx where
  "toWords = alts [js ''to'', [8211], [45], js ''through'']"

definition rangeRe1 :: rx where
  "rangeRe1 = seqs [Bnd, Grp 1 monthNames, Many CSpace 1 None, Grp 2 digits12, Many CSpace 0 None,
     toWords, Many CSpace 0 None, Grp 3 monthNames, Many CSpace 1 None, Grp 4 digits12, Bnd]"

definition rangeRe2 :: rx where
  "rangeRe2 = seqs [Bnd, Grp 1 monthNames, Many CSpace 1 None, Grp 2 digits12, Many CSpace 0 None,
     toWords, Many CSpace 0 None, Grp 3 digits12, Bnd]"

definition rangeRe3 :: rx where
  "rangeRe3 = seqs [Bnd, Grp 1 digits12, Many CSpace 0 None, alts [js ''to'', [8211], [45]],
     Many CSpace 0 None, Grp 2 digits12, Many CSpace 1 None, Grp 3 monthNames, Bnd]"

definition extractRange :: "int \<Rightarrow> jstring \<Rightarrow> int \<Rightarrow> dateResult option" where
  "extractRange tz text ref =
     (case rxMatch True rangeRe1 text of
        Some (_, c) \<Rightarrow>
          Some \<lparr>start = inferYear tz (nullAsZero (monthNum (capStr c 1))) (capInt c 2) ref,
                end = Some (inferYear tz (nullAsZero (monthNum (capStr c 3))) (capInt c 4) ref),
                type = KRange\<rparr>
      | None \<Rightarrow>
         (case rxMatch True rangeRe2 text of
            Some (_, c) \<Rightarrow>
              (let mo = nullAsZero (monthNum (capStr c 1))
               in Some \<lparr>start = inferYear tz mo (capInt c 2) ref,
                        end = Some (inferYear tz mo (capInt c 3) ref), type = KRange\<rparr>)
          | None \<Rightarrow>
             (case rxMatch True rangeRe3 text of
                Some (_, c) \<Rightarrow>
                  (let mo = nullAsZero (monthNum (capStr c 3))
                   in Some \<lparr>start = inferYear tz mo (capInt c 1) ref,
                            end = Some (inferYear tz mo (capInt c 2) ref), type = KRange\<rparr>)
              | None \<Rightarrow> None)))"

subsection \<open>Layer 4: relative dates\<close>

definition wordRe :: "jstring \<Rightarrow> rx" where
  "wordRe w = seqs [Bnd, Lit w, Bnd]"

definition nextNRe :: rx where
  "nextNRe = seqs [Bnd, Lit (js ''next''), Many CSpace 1 None, Grp 1 (Many CDigit 1 None),
     Many CSpace 1 None, Grp 2 (alts [js ''day'', js ''week'']), Opt (Lit (js ''s'')), Bnd]"

definition dayRe :: "jstring \<Rightarrow> rx" where
  "dayRe dayName = seqs [Bnd, alts [js ''this'', js ''next'', js ''coming''], Many CSpace 1 None,
     Lit dayName, Bnd]"

text \<open>The loop over \<open>DAYS\<close>: the first day name, from index \<open>i\<close> on, that the text mentions.\<close>

fun firstDay :: "jstring \<Rightarrow> int \<Rightarrow> jstring list \<Rightarrow> int option" where
  "firstDay text i [] = None"
| "firstDay text i (d # ds) = (if rxTest True (dayRe d) text then Some i else firstDay text (i + 1) ds)"

definition extractRelative :: "int \<Rightarrow> jstring \<Rightarrow> int \<Rightarrow> dateResult option" where
  "extractRelative tz text ref =
     (let lower = toLowerCase text in
      if rxTest False (wordRe (js ''tomorrow'')) lower then
        Some \<lparr>start = setDate tz ref (getDate tz ref + 1), end = None, type = KRelative\<rparr>
      else if rxTest False (wordRe (js ''today'')) lower then
        Some \<lparr>start = ref, end = None, type = KRelative\<rparr>
      else
       (case rxMatch False nextNRe lower of
          Some (_, c) \<Rightarrow>
            (let n = capInt c 1;
                 unit = (if capStr c 2 = js ''week'' then 7 else 1)
             in Some \<lparr>start = ref, end = Some (setDate tz ref (getDate tz ref + n * unit)), type = KRelative\<rparr>)
        | None \<Rightarrow>
           (if rxTest False (wordRe (js ''next week'')) lower then
              (let start = setDate tz ref (getDate tz ref + (7 - getDay tz ref + 1))
               in Some \<lparr>start = start, end = Some (setDate tz start (getDate tz start + 6)), type = KRelative\<rparr>)
            else
             (case firstDay text 0 DAYS of
                Some i \<Rightarrow>
                  (let diff0 = (i - getDay tz ref + 7) mod 7;
                       diff = (if diff0 = 0 then 7 else diff0)
                   in Some \<lparr>start = setDate tz ref (getDate tz ref + diff), end = None, type = KRelative\<rparr>)
              | None \<Rightarrow>
                 (if rxTest False (wordRe (js ''this weekend'')) lower then
                    (let sat = setDate tz ref (getDate tz ref + (6 - getDay tz ref + 7) mod 7)
                     in Some \<lparr>start = sat, end = Some (setDate tz sat (getDate tz sat + 1)), type = KRelative\<rparr>)
                  else None)))))"

subsection \<open>Layer 5: deadlines\<close>

definition deadlineAnchor :: rx where
  "deadlineAnchor =
     Alt (Seq (Lit (js ''end'')) (Opt (Lit (js ''s''))))
    (Alt (Lit (js ''last date''))
    (Alt (Lit (js ''deadline''))
    (Alt (Seq (Lit (js ''valid '')) (alts [js ''till'', js ''until'']))
    (Alt (Seq (Lit (js ''expire'')) (Opt (Lit (js ''s''))))
         (Lit (js ''before''))))))"

definition deadlineRe :: rx where
  "deadlineRe = seqs [Bnd, deadlineAnchor, Many CSpace 1 None,
     Opt (Seq (Lit (js ''on'')) (Many CSpace 1 None)),
     Grp 1 monthNames, Many CSpace 1 None, Grp 2 digits12, ordinalSuffix, optYear, Bnd]"

definition extractDeadline :: "int \<Rightarrow> jstring \<Rightarrow> int \<Rightarrow> dateResult option" where
  "extractDeadline tz text ref =
     (case rxMatch True deadlineRe text of
        Some (_, c) \<Rightarrow>
          (let mo = nullAsZero (monthNum (capStr c 1)); day = capInt c 2
           in Some \<lparr>start = ref, end = Some (dateWithYear tz c 3 mo day ref), type = KDeadline\<rparr>)
      | None \<Rightarrow> None)"

subsection \<open>The entry point\<close>

text \<open>\<open>a || b\<close> on results that are an object or \<open>null\<close>.\<close>

definition orElse :: "'a option \<Rightarrow> 'a option \<Rightarrow> 'a option" where
  "orElse a b = (case a of Some x \<Rightarrow> Some x | None \<Rightarrow> b)"

text \<open>
  \<open>extractDate(text, pubDate)\<close>; \<open>now\<close> is the clock, read when no publication date
  is given.
\<close>

definition extractDate :: "int \<Rightarrow> int \<Rightarrow> jstring \<Rightarrow> jsdate option \<Rightarrow> dateResult option" where
  "extractDate tz now text pubDate =
     (if text = [] then None
      else
       (case (case pubDate of None \<Rightarrow> Date now | Some d \<Rightarrow> d) of
          InvalidDate \<Rightarrow> None
        | Date ref \<Rightarrow>
            orElse (extractISO tz text ref)
           (orElse (extractNamed tz text ref)
           (orElse (extractRange tz text ref)
           (orElse (extractRelative tz text ref)
                   (extractDeadline tz text ref))))))"

section \<open>Categories\<close>

datatype category =
  movies | events | festivals | alerts | sports | shopping | civic | weather_alerts | general

definition categoryName :: "category \<Rightarrow> jstring" where
  "categoryName c = js (case c of
      movies \<Rightarrow> ''movies'' | events \<Rightarrow> ''events'' | festivals \<Rightarrow> ''festivals''
    | alerts \<Rightarrow> ''alerts'' | sports \<Rightarrow> ''sports'' | shopping \<Rightarrow> ''shopping''
    | civic \<Rightarrow> ''civic'' | weather_alerts \<Rightarrow> ''weather_alerts'' | general \<Rightarrow> ''general'')"

section \<open>The planner store (plannerStorage.js)\<close>

text \<open>
  A JavaScript object with string keys is an association list in insertion order, with
  each key once. An assignment to a new key appends, an assignment to a present key
  replaces in place, and \<open>delete\<close> removes.
\<close>

type_synonym 'v obj = "(jstring \<times> 'v) list"

definition objGet :: "'v obj \<Rightarrow> jstring \<Rightarrow> 'v option" where
  "objGet data k = map_of data k"

fun objSet :: "'v obj \<Rightarrow> jstring \<Rightarrow> 'v \<Rightarrow> 'v obj" where
  "objSet [] k v = [(k, v)]"
| "objSet ((k', v') # rest) k v = (if k' = k then (k, v) # rest else (k', v') # objSet rest k v)"

definition objDelete :: "'v obj \<Rightarrow> jstring \<Rightarrow> 'v obj" where
  "objDelete data k = filter (\<lambda>(k', _). k' \<noteq> k) data"

definition objKeys :: "'v obj \<Rightarrow> jstring list" where
  "objKeys data = map fst data"

record plannerItem =
  pId :: jstring
  pTitle :: jstring
  pCategory :: category
  pLink :: jstring

record storedItem = plannerItem +
  addedAt :: int

type_synonym plannerData = "storedItem list obj"

text \<open>
  The entry \<open>upAhead_planner\<close> of \<open>localStorage\<close>: absent or unparsable (\<open>None\<close>), or
  the parsed object. \<open>setItem\<close> throws when the quota is exceeded; \<open>save\<close> swallows it.
\<close>

record localStorage =
  content :: "plannerData option"
  quotaExceeded :: bool

definition PRUNE_DAYS_PAST :: int where
  "PRUNE_DAYS_PAST = 7"

definition load :: "localStorage \<Rightarrow> plannerData" where
  "load ls = (case content ls of None \<Rightarrow> [] | Some data \<Rightarrow> data)"

definition save :: "localStorage \<Rightarrow> plannerData \<Rightarrow> localStorage" where
  "save ls data = (if quotaExceeded ls then ls else ls\<lparr>content := Some data\<rparr>)"

definition cutoffKey :: "int \<Rightarrow> int \<Rightarrow> jstring" where
  "cutoffKey tz now = isoSlice10 (setDate tz now (getDate tz now - PRUNE_DAYS_PAST))"

definition prune :: "int \<Rightarrow> int \<Rightarrow> plannerData \<Rightarrow> plannerData" where
  "prune tz now data = filter (\<lambda>(key, _). \<not> strLess key (cutoffKey tz now)) data"

text \<open>
  \<open>split(/\s+/)\<close>: the pieces between the runs of white space; a string that starts or
  ends with white space gives an empty first or last piece.
\<close>

fun splitWs :: "jstring \<Rightarrow> jstring \<Rightarrow> bool \<Rightarrow> jstring list" where
  "splitWs [] cur inWs = [rev cur]"
| "splitWs (c # cs) cur inWs =
     (if isSpace c then (if inWs then splitWs cs [] True else rev cur # splitWs cs [] True)
      else splitWs cs (c # cur) False)"

definition splitWhitespace :: "jstring \<Rightarrow> jstring list" where
  "splitWhitespace s = splitWs s [] False"

text \<open>\<open>new Set(...)\<close>: the distinct elements.\<close>

definition wordSet :: "jstring \<Rightarrow> jstring list" where
  "wordSet a = remdups (splitWhitespace (toLowerCase a))"

text \<open>
  \<open>similarity\<close>. The quotient of the two counts is a rational here; the source compares
  its double with the double 0.7, which gives the same verdict as the comparison of
  the rational with 7/10 for every pair of counts below \<open>2^49\<close>.
\<close>

definition similarity :: "jstring \<Rightarrow> jstring \<Rightarrow> rat" where
  "similarity a b =
     (let wa = wordSet a; wb = wordSet b;
          intersection = length (filter (\<lambda>w. w \<in> set wb) wa)
      in of_nat intersection / of_nat (length wa + length wb - intersection))"

definition isDuplicate :: "storedItem list \<Rightarrow> plannerItem \<Rightarrow> bool" where
  "isDuplicate existing newItem =
     list_ex (\<lambda>item. pId item = pId newItem \<or>
        (pTitle item \<noteq> [] \<and> pTitle newItem \<noteq> [] \<and> similarity (pTitle item) (pTitle newItem) > 7 / 10))
       existing"

text \<open>\<open>{ ...item, addedAt: Date.now() }\<close>\<close>

definition stored :: "plannerItem \<Rightarrow> int \<Rightarrow> storedItem" where
  "stored item now =
     \<lparr>pId = pId item, pTitle = pTitle item, pCategory = pCategory item, pLink = pLink item, addedAt = now\<rparr>"

definition getDay_store :: "localStorage \<Rightarrow> jstring \<Rightarrow> storedItem list \<times> localStorage" where
  "getDay_store ls dateKey =
     (let data = load ls
      in (case objGet data dateKey of None \<Rightarrow> [] | Some xs \<Rightarrow> xs, ls))"

definition getAll :: "int \<Rightarrow> int \<Rightarrow> localStorage \<Rightarrow> plannerData \<times> localStorage" where
  "getAll tz now ls =
     (let data = prune tz now (load ls)
      in (data, save ls data))"

text \<open>The inner loop of \<open>merge\<close>: the items are pushed one by one, each checked against the list so far.\<close>

fun mergeItems :: "int \<Rightarrow> storedItem list \<Rightarrow> plannerItem list \<Rightarrow> storedItem list" where
  "mergeItems now existing [] = existing"
| "mergeItems now existing (item # items) =
     mergeItems now (if \<not> isDuplicate existing item then existing @ [stored item now] else existing) items"

fun mergeKeys :: "int \<Rightarrow> plannerData \<Rightarrow> jstring list \<Rightarrow> plannerItem list \<Rightarrow> plannerData" where
  "mergeKeys now data [] items = data"
| "mergeKeys now data (key # keys) items =
     (let existing = (case objGet data key of None \<Rightarrow> [] | Some xs \<Rightarrow> xs)
      in mergeKeys now (objSet data key (mergeItems now existing items)) keys items)"

definition merge :: "int \<Rightarrow> int \<Rightarrow> localStorage \<Rightarrow> jstring list \<Rightarrow> plannerItem list \<Rightarrow> localStorage" where
  "merge tz now ls dateKeys items =
     (let data = prune tz now (load ls)
      in save ls (mergeKeys now data dateKeys items))"

definition addItem :: "int \<Rightarrow> int \<Rightarrow> localStorage \<Rightarrow> jstring \<Rightarrow> plannerItem \<Rightarrow> localStorage" where
  "addItem tz now ls dateKey item = merge tz now ls [dateKey] [item]"

definition removeItem :: "localStorage \<Rightarrow> jstring \<Rightarrow> jstring \<Rightarrow> localStorage" where
  "removeItem ls dateKey itemId =
     (let data = load ls
      in case objGet data dateKey of
           None \<Rightarrow> ls
         | Some xs \<Rightarrow>
            (let ys = filter (\<lambda>i. pId i \<noteq> itemId) xs
             in save ls (if ys = [] then objDelete data dateKey else objSet data dateKey ys)))"

definition clear :: "localStorage \<Rightarrow> localStorage" where
  "clear ls = ls\<lparr>content := None\<rparr>"

text \<open>The loop of \<open>getUpcomingDays\<close>, for the days \<open>i, i + 1, ...\<close> below \<open>i + k\<close> from today.\<close>

fun upcomingFrom :: "int \<Rightarrow> int \<Rightarrow> plannerData \<Rightarrow> int \<Rightarrow> nat \<Rightarrow> (jstring \<times> storedItem list) list" where
  "upcomingFrom tz today data i 0 = []"
| "upcomingFrom tz today data i (Suc k) =
     (let key = isoSlice10 (setDate tz today (getDate tz today + i))
      in (case objGet data key of
            Some (x # xs) \<Rightarrow> [(key, x # xs)]
          | _ \<Rightarrow> []) @ upcomingFrom tz today data (i + 1) k)"

definition getUpcomingDays ::
  "int \<Rightarrow> int \<Rightarrow> localStorage \<Rightarrow> nat \<Rightarrow> (jstring \<times> storedItem list) list \<times> localStorage" where
  "getUpcomingDays tz now ls n =
     (case getAll tz now ls of (data, ls') \<Rightarrow>
        (upcomingFrom tz (setHoursZero tz now) data 0 n, ls'))"

section \<open>The aggregator (upAheadService.js)\<close>

subsection \<open>Keyword matching\<close>

text \<open>
  \<open>matchesWord\<close> escapes every special character of the word, so that the compiled
  pattern is the word itself between two \<open>\b\<close>, under the flag \<open>i\<close>. The compiled
  patterns are kept in the module-level map \<open>_wbCache\<close>, which outlives a run.
\<close>

type_synonym wbCache = "(jstring \<times> rx) list"

definition wordBoundaryRe :: "jstring \<Rightarrow> rx" where
  "wordBoundaryRe word = seqs [Bnd, Lit word, Bnd]"

definition matchesWord :: "wbCache \<Rightarrow> jstring \<Rightarrow> jstring \<Rightarrow> bool \<times> wbCache" where
  "matchesWord cache text word =
     (case map_of cache word of
        Some re \<Rightarrow> (rxTest True re text, cache)
      | None \<Rightarrow> (let re = wordBoundaryRe word in (rxTest True re text, (word, re) # cache)))"

definition matchesKeyword :: "wbCache \<Rightarrow> jstring \<Rightarrow> jstring \<Rightarrow> bool \<times> wbCache" where
  "matchesKeyword cache text keyword =
     (if 32 \<in> set keyword then (strIncludes text keyword, cache)
      else matchesWord cache text keyword)"

text \<open>\<open>words.some(w => matchesKeyword(text, w.toLowerCase()))\<close>: stops at the first hit.\<close>

fun someKeyword :: "wbCache \<Rightarrow> jstring \<Rightarrow> jstring list \<Rightarrow> bool \<times> wbCache" where
  "someKeyword cache text [] = (False, cache)"
| "someKeyword cache text (w # ws) =
     (case matchesKeyword cache text (toLowerCase w) of
        (True, cache') \<Rightarrow> (True, cache')
      | (False, cache') \<Rightarrow> someKeyword cache' text ws)"

subsection \<open>The keyword tables\<close>

definition NEGATIVE_KEYWORDS :: "(string \<times> string list) list" where
  "NEGATIVE_KEYWORDS =
   [(''commentary'',
     [''review'', ''reviewed'', ''reviews'', ''opinion'', ''editorial'', ''column'',
      ''op-ed'', ''analysis'', ''deep dive'', ''explainer'', ''explained'', ''interview'',
      ''memoir'', ''podcast'', ''recap'', ''retrospective'', ''lookback'', ''throwback'']),
    (''gossip'',
     [''gossip'', ''rumour'', ''rumor'', ''spotted'', ''dating'', ''divorce'',
      ''controversy'', ''trolled'', ''slammed'', ''reacts'', ''reaction'', ''claps back'',
      ''feud'', ''leaked'', ''wardrobe malfunction'', ''breakup'']),
    (''crime'',
     [''arrested'', ''murder'', ''stabbed'', ''robbery'', ''scam'', ''fraud'', ''accused'',
      ''chargesheet'', ''sentenced'', ''bail'', ''fir filed'', ''kidnap'', ''suicide'',
      ''death toll'', ''fatal'']),
    (''finance_noise'',
     [''quarterly results'', ''earnings call'', ''dividend'', ''stock split'',
      ''ipo allotment'', ''listing gains'', ''shareholding pattern'', ''promoter stake'',
      ''mutual fund nav'', ''portfolio rebalancing'']),
    (''political_noise'',
     [''alleges'', ''slams'', ''hits out'', ''war of words'', ''defamation'',
      ''no confidence'', ''horse trading'', ''exit poll'', ''poll prediction'', ''meme'']),
    (''past_tense'',
     [''was held'', ''concluded'', ''wrapped up'', ''came to an end'',
      ''successfully completed'', ''inaugurated by'', ''flagged off'', ''took place'',
      ''was celebrated'']),
    (''obituary'',
     [''passes away'', ''passed away'', ''demise'', ''rip'', ''condolences'', ''last rites'',
      ''funeral'', ''pays tribute'', ''mourns'', ''obituary'']),
    (''listicle'',
     [''top 10'', ''top 5'', ''best of'', ''worst of'', ''reasons why'', ''things you'',
      ''ranked'', ''all you need to know'', ''everything we know'']),
    (''collection_reports'',
     [''box office collection'', ''day 1 collection'', ''total collection'',
      ''worldwide gross'', ''opening weekend'', ''first week collection'', ''crosses crore'',
      ''nett collection'']),
    (''clickbait'',
     [''shocking'', ''you won'' @ [CHR 0x27] @ ''t believe'', ''jaw dropping'', ''gone viral'',
      ''breaks the internet'', ''exclusive''])]"

definition FORWARD_LOOKING_SIGNALS :: "jstring list" where
  "FORWARD_LOOKING_SIGNALS = map js
    [''upcoming'', ''scheduled'', ''starting'', ''launches'', ''opens'', ''begins'',
     ''commences'', ''from today'', ''this weekend'', ''next week'', ''releasing'',
     ''premieres'', ''debuts'', ''kicks off'', ''set to'', ''slated for'', ''expected on'',
     ''effective from'', ''valid till'', ''last date'', ''deadline'', ''registrations open'',
     ''bookings open'', ''doors open'', ''book now'', ''tickets available'', ''grab your'',
     ''register'', ''rsvp'', ''sign up'', ''enroll'', ''apply before'', ''limited seats'',
     ''early bird'', ''pre-order'', ''advance booking'', ''buy tickets'', ''entry free'',
     ''venue'', ''stadium'', ''auditorium'', ''convention centre'', ''exhibition hall'',
     ''multiplex'', ''arena'', ''grounds'', ''schedule'', ''timetable'', ''lineup'',
     ''itinerary'', ''match day'', ''race day'', ''show timings'', ''showtimes'',
     ''time slot'', ''batch'']"

definition CATEGORY_POSITIVE_KEYWORDS :: "category \<Rightarrow> jstring list option" where
  "CATEGORY_POSITIVE_KEYWORDS cat =
     (case cat of
        movies \<Rightarrow> Some (map js
          [''release date'', ''releasing'', ''in theatres'', ''in theaters'', ''first day'',
           ''advance booking'', ''fdfs'', ''premiere'', ''preview'', ''sneak peek'',
           ''special screening'', ''ott release'', ''streaming from'', ''now streaming'',
           ''available on'', ''direct to ott'', ''digital premiere'', ''tickets'',
           ''showtimes'', ''book now'', ''bookmyshow'', ''ticketnew'', ''paytm movies'',
           ''trailer launch'', ''teaser release'', ''motion poster''])
      | events \<Rightarrow> Some (map js
          [''concert'', ''live music'', ''standup'', ''comedy show'', ''theatre'',
           ''theater'', ''drama'', ''stage play'', ''dance recital'', ''sabha'', ''kutcheri'',
           ''kutchery'', ''exhibition'', ''expo'', ''book fair'', ''trade fair'',
           ''flea market'', ''art gallery'', ''trade show'', ''workshop'', ''masterclass'',
           ''bootcamp'', ''seminar'', ''webinar'', ''hackathon'', ''meetup'',
           ''food festival'', ''pop-up'', ''tasting'', ''brunch'', ''food walk'',
           ''heritage walk'', ''night market'', ''entry fee'', ''passes available'',
           ''gate open'', ''limited slots'', ''registration''])
      | sports \<Rightarrow> Some (map js
          ['' vs '', '' v/s '', ''match'', ''fixture'', ''squad announced'', ''playing xi'',
           ''toss'', ''innings'', ''schedule'', ''points table'', ''qualifier'',
           ''semi final'', ''final'', ''playoffs'', ''stadium'', ''live on'', ''broadcast'',
           ''streaming'', ''start time'', ''kick off'', ''first ball''])
      | festivals \<Rightarrow> Some (map js
          [''holiday'', ''bank holiday'', ''gazetted'', ''declared holiday'',
           ''government holiday'', ''pongal'', ''diwali'', ''deepavali'', ''navratri'',
           ''dussehra'', ''eid'', ''ramadan'', ''christmas'', ''onam'', ''vishu'', ''ugadi'',
           ''holi'', ''ganesh'', ''jayanti'', ''puja'', ''pooja'', ''thai pusam'',
           ''observed on'', ''falls on'', ''celebrated on'', ''auspicious'', ''muhurtham'',
           ''tithi''])
      | shopping \<Rightarrow> Some (map js
          [''sale'', ''mega sale'', ''flash sale'', ''clearance'', ''end of season'',
           ''flat discount'', ''upto off'', ''cashback'', ''coupon'', ''promo code'',
           ''shopping festival'', ''exhibition sale'', ''trade fair'', ''grand opening'',
           ''limited period'', ''ends today'', ''last day'', ''offer valid'',
           ''while stocks last'', ''hurry''])
      | alerts \<Rightarrow> Some (map js
          [''power cut'', ''power shutdown'', ''load shedding'', ''tangedco'', ''tneb'',
           ''scheduled maintenance'', ''water cut'', ''water supply'', ''disruption'',
           ''traffic advisory'', ''road closure'', ''diversion'', ''metro shutdown'',
           ''bus route change'', ''train cancelled'', ''flight delayed'',
           ''boil water advisory'', ''mosquito fogging'', ''tree trimming'',
           ''construction zone''])
      | weather_alerts \<Rightarrow> Some (map js
          [''warning'', ''alert'', ''advisory'', ''watch'', ''red alert'', ''orange alert'',
           ''yellow alert'', ''heavy rain'', ''very heavy rain'', ''cyclone'',
           ''thunderstorm'', ''heat wave'', ''cold wave'', ''fog'', ''flooding'',
           ''high tide'', ''storm surge'', ''imd'', ''met department'', ''weather bulletin''])
      | civic \<Rightarrow> Some (map js
          [''vip movement'', ''vip visit'', ''road block'', ''security arrangement'',
           ''route change'', ''bandh'', ''hartal'', ''strike'', ''protest march'',
           ''rasta roko'', ''rail roko'', ''corporation notice'', ''tender'',
           ''public hearing'', ''ward meeting'', ''grievance day''])
      | general \<Rightarrow> None)"

definition ALL_NEGATIVE_KEYWORDS :: "jstring list" where
  "ALL_NEGATIVE_KEYWORDS = map js (concat (map snd NEGATIVE_KEYWORDS))"

subsection \<open>Items, settings and the output\<close>

record subItem =
  sTitle :: jstring
  sDate :: "int option"
  originalText :: jstring
  platform :: jstring

text \<open>
  A normalized item. \<open>forwardScore\<close> is the property \<open>_forwardScore\<close>, which an item does
  not have until a run attaches it.
\<close>

record item =
  itemId :: jstring
  title :: jstring
  link :: jstring
  description :: jstring
  pubDate :: "jsdate option"
  extractedDate :: "int option"
  category :: category
  rawSource :: jstring
  isRoundup :: bool
  subItems :: "subItem list"
  forwardScore :: "nat option"

text \<open>
  The settings the aggregator reads: \<open>hideOlderThanHours\<close>, and under \<open>upAhead\<close> the
  user's negative keywords (\<open>keywords.negative\<close>), the user's keywords of a category
  (\<open>keywords[cat]\<close>) and the locations; \<open>None\<close> is a value that is missing at any level.
\<close>

record settings =
  hideOlderThanHours :: "int option"
  negative :: "jstring list option"
  categoryKeywords :: "category \<Rightarrow> jstring list option"
  locations :: "jstring list option"

record displayItem =
  dTitle :: jstring
  dLink :: jstring
  releaseDate :: "jstring option"
  date :: "jstring option"
  dText :: jstring
  severity :: jstring
  language :: jstring
  dIsRoundup :: bool
  subItemsCount :: nat

record timelineItem =
  tId :: jstring
  tType :: jstring
  tTitle :: jstring
  subtitle :: jstring
  tDescription :: jstring
  tags :: "category list"
  tLink :: jstring
  tIsRoundup :: bool
  tSubItems :: "subItem list"
  tForwardScore :: "nat option"

record timelineDay =
  dayDate :: jstring
  dayLabel :: jstring
  items :: "timelineItem list"

record planItem =
  planTitle :: jstring
  planType :: jstring
  icon :: jstring
  planLink :: jstring

record upAheadData =
  timeline :: "timelineDay list"
  sections :: "category \<Rightarrow> displayItem list"
  weekly_plan :: "planItem list obj"
  lastUpdated :: jstring

subsection \<open>Rendering of dates and numbers\<close>

function natToStr :: "nat \<Rightarrow> jstring" where
  "natToStr n = (if n < 10 then [48 + n] else natToStr (n div 10) @ [48 + n mod 10])"
  by pat_completeness auto
termination
  by (relation "measure id") auto

declare natToStr.simps [simp del]

definition weekdayLong :: "int \<Rightarrow> jstring" where
  "weekdayLong d = map js [''Sunday'', ''Monday'', ''Tuesday'', ''Wednesday'', ''Thursday'', ''Friday'',
     ''Saturday''] ! nat d"

definition weekdayShort :: "int \<Rightarrow> jstring" where
  "weekdayShort d = take 3 (weekdayLong d)"

definition monthShort :: "int \<Rightarrow> jstring" where
  "monthShort m = map js [''Jan'', ''Feb'', ''Mar'', ''Apr'', ''May'', ''Jun'', ''Jul'', ''Aug'', ''Sep'',
     ''Oct'', ''Nov'', ''Dec''] ! nat m"

text \<open>\<open>toDateString()\<close>, as in \<open>Sat Jan 10 2026\<close>.\<close>

definition toDateString :: "int \<Rightarrow> int \<Rightarrow> jstring" where
  "toDateString tz t =
     (case civil (localDays tz t) of (y, m, d) \<Rightarrow>
        weekdayShort (getDay tz t) @ [32] @ monthShort m @ [32] @ pad2 d @ [32]
        @ (if y < 0 then [45] else []) @ (if abs y \<le> 9999 then pad4 (abs y) else natToStr (nat (abs y))))"

text \<open>\<open>toLocaleDateString('en-US', ...)\<close> with the long weekday, the short month and the day, as in \<open>Saturday, Jan 10\<close>.\<close>

definition toLocaleLong :: "int \<Rightarrow> int \<Rightarrow> jstring" where
  "toLocaleLong tz t =
     (case civil (localDays tz t) of (y, m, d) \<Rightarrow>
        weekdayLong (getDay tz t) @ js '', '' @ monthShort m @ [32] @ natToStr (nat d))"

definition getDayLabel :: "int \<Rightarrow> int \<Rightarrow> int \<Rightarrow> jstring" where
  "getDayLabel tz now target =
     (let today = setHoursZero tz now;
          tomorrow = setDate tz today (getDate tz today + 1);
          d = setHoursZero tz target
      in if d = today then js ''Today''
         else if d = tomorrow then js ''Tomorrow''
         else toLocaleLong tz d)"

definition getItemType :: "category \<Rightarrow> jstring" where
  "getItemType c = js (case c of
      movies \<Rightarrow> ''movie'' | events \<Rightarrow> ''event'' | festivals \<Rightarrow> ''festival''
    | alerts \<Rightarrow> ''alert'' | sports \<Rightarrow> ''sport'' | shopping \<Rightarrow> ''shopping''
    | civic \<Rightarrow> ''civic'' | weather_alerts \<Rightarrow> ''weather_alert'' | general \<Rightarrow> ''event'')"

text \<open>The icons, as UTF-16 code units.\<close>

definition getCategoryIcon :: "jstring \<Rightarrow> jstring" where
  "getCategoryIcon t =
     (case map_of
        [(js ''movie'', [55356, 57260]), (js ''event'', [55356, 57261]),
         (js ''festival'', [55356, 57226]), (js ''alert'', [9888, 65039]),
         (js ''sport'', [9917]), (js ''shopping'', [55357, 57042]),
         (js ''civic'', [55356, 57307, 65039]), (js ''entertainment'', [55356, 57270]),
         (js ''weather_alert'', [55356, 57130, 65039]), (js ''general'', [55357, 56517])] t of
        Some i \<Rightarrow> i
      | None \<Rightarrow> [55357, 56517])"

subsection \<open>The gates of \<open>processUpAheadData\<close>\<close>

definition maxAgeHours :: "settings \<Rightarrow> int" where
  "maxAgeHours st = (case hideOlderThanHours st of None \<Rightarrow> 60 | Some h \<Rightarrow> if h = 0 then 60 else h)"

definition maxAgeMs :: "settings \<Rightarrow> int" where
  "maxAgeMs st = maxAgeHours st * 60 * 60 * 1000"

definition CATEGORY_MAX_AGE_HOURS :: "category \<Rightarrow> int option" where
  "CATEGORY_MAX_AGE_HOURS c =
     (case c of weather_alerts \<Rightarrow> Some 6 | alerts \<Rightarrow> Some 12 | festivals \<Rightarrow> Some 336 | _ \<Rightarrow> None)"

definition effectiveMaxAgeMs :: "settings \<Rightarrow> category \<Rightarrow> int" where
  "effectiveMaxAgeMs st c =
     (case CATEGORY_MAX_AGE_HOURS c of
        Some h \<Rightarrow> min (maxAgeMs st) (h * 60 * 60 * 1000)
      | None \<Rightarrow> maxAgeMs st)"

text \<open>
  The strict freshness check: the item goes on only with a valid publication date
  whose age is at most the effective maximum.
\<close>

definition isFresh :: "int \<Rightarrow> settings \<Rightarrow> item \<Rightarrow> bool" where
  "isFresh now st it =
     (case pubDate it of
        None \<Rightarrow> False
      | Some InvalidDate \<Rightarrow> False
      | Some (Date p) \<Rightarrow> \<not> (now - p > effectiveMaxAgeMs st (category it)))"

definition mergedNegatives :: "settings \<Rightarrow> jstring list" where
  "mergedNegatives st = ALL_NEGATIVE_KEYWORDS @ (case negative st of None \<Rightarrow> [] | Some ws \<Rightarrow> ws)"

definition mergedPositives :: "settings \<Rightarrow> category \<Rightarrow> jstring list" where
  "mergedPositives st c =
     (if c = general then []
      else (case CATEGORY_POSITIVE_KEYWORDS c of None \<Rightarrow> [] | Some ws \<Rightarrow> ws)
         @ (case categoryKeywords st c of None \<Rightarrow> [] | Some ws \<Rightarrow> ws))"

definition userLocations :: "settings \<Rightarrow> jstring list" where
  "userLocations st =
     map toLowerCase (case locations st of None \<Rightarrow> map js [''Chennai'', ''Muscat'', ''Trichy''] | Some ls \<Rightarrow> ls)"

definition fullTextOf :: "item \<Rightarrow> jstring" where
  "fullTextOf it = toLowerCase (title it @ [32] @ description it)"

definition staleRegex :: rx where
  "staleRegex = seqs [alts [[8226], [45], js ''published''], Many CSpace 0 None,
     Grp 1 (Many CDigit 1 None), Many CSpace 0 None,
     Grp 2 (alts (map js [''mo'', ''month'', ''months'', ''w'', ''week'', ''weeks'', ''y'', ''year'', ''years''])),
     Many CSpace 0 None, Opt (Lit (js ''ago''))]"

definition isStale :: "jstring \<Rightarrow> bool" where
  "isStale fullText =
     (case rxMatch True staleRegex fullText of
        None \<Rightarrow> False
      | Some (_, c) \<Rightarrow>
         (let qty = capInt c 1; unit = toLowerCase (capStr c 2)
          in if startsWith unit (js ''mo'') \<or> startsWith unit (js ''y'') then True
             else startsWith unit (js ''w'') \<and> qty \<ge> 1))"

definition countNewRe :: rx where
  "countNewRe = Seq (Many CDigit 1 None) (Lit (js '' new''))"

text \<open>The roundup test of the negative filter, on the full text.\<close>

definition isRoundupText :: "jstring \<Rightarrow> bool" where
  "isRoundupText fullText =
     (rxTest True (alts (map js [''ott'', ''releases'', ''week'', ''weekend''])) fullText
      \<and> rxTest True countNewRe fullText)"

text \<open>The roundup flag that \<open>normalizeUpAheadItem\<close> stores in \<open>isRoundup\<close>, on the title.\<close>

definition normalizeIsRoundup :: "jstring \<Rightarrow> bool" where
  "normalizeIsRoundup titleText =
     (rxTest True (alts (map js [''ott'', ''releases'', ''week''])) titleText
      \<and> rxTest True countNewRe titleText)"

text \<open>Layer 1: whether the negative filter drops the item.\<close>

definition negativeDrop :: "wbCache \<Rightarrow> settings \<Rightarrow> jstring \<Rightarrow> bool \<times> wbCache" where
  "negativeDrop cache st fullText =
     (if \<not> isRoundupText fullText then someKeyword cache fullText (mergedNegatives st)
      else (False, cache))"

definition forwardScoreOf :: "jstring \<Rightarrow> nat" where
  "forwardScoreOf fullText = foldl (\<lambda>score signal. if strIncludes fullText signal then score + 1 else score) 0
     FORWARD_LOOKING_SIGNALS"

text \<open>Layer 3: whether the positive filter drops the item.\<close>

definition positiveDrop :: "wbCache \<Rightarrow> settings \<Rightarrow> category \<Rightarrow> jstring \<Rightarrow> nat \<Rightarrow> bool \<times> wbCache" where
  "positiveDrop cache st c fullText score =
     (let allPositive = mergedPositives st c
      in if length allPositive > 0 then
           (case someKeyword cache fullText allPositive of
              (hasPositiveMatch, cache') \<Rightarrow>
                (c \<in> {movies, events, sports, shopping} \<and> \<not> hasPositiveMatch \<and> score = 0, cache'))
         else (False, cache))"

text \<open>Layer 4: whether the location gate drops the item.\<close>

definition locationDrop :: "settings \<Rightarrow> category \<Rightarrow> jstring \<Rightarrow> bool" where
  "locationDrop st c fullText =
     ((c = alerts \<or> c = civic) \<and> \<not> list_ex (\<lambda>loc. strIncludes fullText loc) (userLocations st))"

subsection \<open>The loop body of \<open>processUpAheadData\<close>\<close>

text \<open>The local state of a run: the ids seen, the section lists and the timeline map.\<close>

record aggState =
  seenIds :: "jstring list"
  sectionLists :: "category \<Rightarrow> displayItem list"
  timelineMap :: "timelineDay obj"

definition isPlannerCategory :: "category \<Rightarrow> bool" where
  "isPlannerCategory c = (c \<in> {movies, festivals, events, sports, shopping, civic})"

text \<open>
  The section block returns from the loop body for a planner category without an
  extracted date (unless a roundup), for a festival more than 3 days before today,
  and for another planner category dated before today.
\<close>

definition sectionReturn :: "int \<Rightarrow> item \<Rightarrow> bool" where
  "sectionReturn today it =
     (category it \<noteq> general \<and>
      ((isPlannerCategory (category it) \<and> extractedDate it = None \<and> \<not> isRoundup it) \<or>
       (case extractedDate it of
          None \<Rightarrow> False
        | Some e \<Rightarrow>
            if category it = festivals then e - today < - 3 * (1000 * 3600 * 24)
            else isPlannerCategory (category it) \<and> e < today)))"

definition displayItemOf :: "int \<Rightarrow> item \<Rightarrow> displayItem" where
  "displayItemOf tz it =
     \<lparr>dTitle = title it, dLink = link it,
      releaseDate = map_option (toDateString tz) (extractedDate it),
      date = map_option (toDateString tz) (extractedDate it),
      dText = title it, severity = js ''medium'', language = js ''Unknown'',
      dIsRoundup = isRoundup it, subItemsCount = length (subItems it)\<rparr>"

definition pushSection :: "int \<Rightarrow> item \<Rightarrow> aggState \<Rightarrow> aggState" where
  "pushSection tz it s =
     (if category it \<noteq> general
      then s\<lparr>sectionLists := (sectionLists s)(category it := sectionLists s (category it) @ [displayItemOf tz it])\<rparr>
      else s)"

text \<open>The target date of the timeline: the extracted date, or today for a recent alert and for a roundup.\<close>

definition targetDate :: "int \<Rightarrow> int \<Rightarrow> item \<Rightarrow> int option" where
  "targetDate now today it =
     (let t1 = (if extractedDate it = None \<and> (category it = alerts \<or> category it = weather_alerts)
                then (case pubDate it of
                        Some (Date p) \<Rightarrow> if now - p < 24 * 60 * 60 * 1000 then Some today else None
                      | _ \<Rightarrow> None)
                else extractedDate it)
      in if t1 = None \<and> isRoundup it then Some today else t1)"

definition timelineItemOf :: "item \<Rightarrow> timelineItem" where
  "timelineItemOf it =
     \<lparr>tId = itemId it, tType = getItemType (category it), tTitle = title it,
      subtitle = (if isRoundup it
                  then (if length (subItems it) \<noteq> 0 then natToStr (length (subItems it)) else js ''Multiple'')
                       @ js '' ITEMS''
                  else toUpperCase (categoryName (category it))),
      tDescription = description it, tags = [category it], tLink = link it,
      tIsRoundup = isRoundup it, tSubItems = subItems it,
      tForwardScore = Some (case forwardScore it of None \<Rightarrow> 0 | Some n \<Rightarrow> n)\<rparr>"

definition pushTimeline :: "int \<Rightarrow> int \<Rightarrow> int \<Rightarrow> item \<Rightarrow> aggState \<Rightarrow> aggState" where
  "pushTimeline tz now today it s =
     (case targetDate now today it of
        None \<Rightarrow> s
      | Some t \<Rightarrow>
          if t \<ge> today then
            (let dateKey = isoBeforeT t;
                 day = (case objGet (timelineMap s) dateKey of
                          None \<Rightarrow> \<lparr>dayDate = dateKey, dayLabel = getDayLabel tz now t, items = []\<rparr>
                        | Some d \<Rightarrow> d)
             in s\<lparr>timelineMap := objSet (timelineMap s) dateKey (day\<lparr>items := items day @ [timelineItemOf it]\<rparr>)\<rparr>)
          else s)"

text \<open>
  The loop body, on the cache, the local state and one item; it gives back the item as
  the run leaves it. Each early \<open>return\<close> of the source is a branch that keeps
  the state.
\<close>

definition processItem ::
  "int \<Rightarrow> int \<Rightarrow> settings \<Rightarrow> wbCache \<times> aggState \<Rightarrow> item \<Rightarrow> (wbCache \<times> aggState) \<times> item" where
  "processItem tz now st cs it =
     (case cs of (cache, s) \<Rightarrow>
      if itemId it \<in> set (seenIds s) then ((cache, s), it)
      else
       (let s1 = s\<lparr>seenIds := seenIds s @ [itemId it]\<rparr>;
            today = setHoursZero tz now;
            fullText = fullTextOf it
        in if \<not> isFresh now st it then ((cache, s1), it)
           else if isStale fullText then ((cache, s1), it)
           else
            (case negativeDrop cache st fullText of
               (True, cache1) \<Rightarrow> ((cache1, s1), it)
             | (False, cache1) \<Rightarrow>
                (let score = forwardScoreOf fullText
                 in case positiveDrop cache1 st (category it) fullText score of
                      (True, cache2) \<Rightarrow> ((cache2, s1), it)
                    | (False, cache2) \<Rightarrow>
                        if locationDrop st (category it) fullText then ((cache2, s1), it)
                        else
                         (let it' = it\<lparr>forwardScore := Some score\<rparr>
                          in if sectionReturn today it' then ((cache2, s1), it')
                             else ((cache2, pushTimeline tz now today it' (pushSection tz it' s1)), it'))))))"

fun processItems ::
  "int \<Rightarrow> int \<Rightarrow> settings \<Rightarrow> wbCache \<times> aggState \<Rightarrow> item list \<Rightarrow> (wbCache \<times> aggState) \<times> item list" where
  "processItems tz now st cs [] = (cs, [])"
| "processItems tz now st cs (it # its) =
     (case processItem tz now st cs it of
        (cs1, it') \<Rightarrow>
          (case processItems tz now st cs1 its of
             (cs2, its') \<Rightarrow> (cs2, it' # its')))"

subsection \<open>The end of the run\<close>

definition scoreOf :: "timelineItem \<Rightarrow> int" where
  "scoreOf t = (case tForwardScore t of None \<Rightarrow> 0 | Some n \<Rightarrow> int n)"

text \<open>
  The days in the order of their keys; in a day the items by falling score, items
  of equal score in their order of arrival; then the score is deleted.
\<close>

definition finishDay :: "timelineDay \<Rightarrow> timelineDay" where
  "finishDay day = day\<lparr>items := map (\<lambda>t. t\<lparr>tForwardScore := None\<rparr>) (sort_key (\<lambda>t. - scoreOf t) (items day))\<rparr>"

definition sortedTimeline :: "timelineDay obj \<Rightarrow> timelineDay list" where
  "sortedTimeline tm = map finishDay (sort_key dayDate (map snd tm))"

definition planItemOf :: "timelineItem \<Rightarrow> planItem" where
  "planItemOf t = \<lparr>planTitle = tTitle t, planType = tType t, icon = getCategoryIcon (tType t), planLink = tLink t\<rparr>"

text \<open>The loop of \<open>generateWeeklyPlan\<close>, for the days \<open>i, i + 1, ...\<close> below \<open>i + k\<close> from now.\<close>

fun weeklyPlanFrom :: "int \<Rightarrow> int \<Rightarrow> timelineDay list \<Rightarrow> planItem list obj \<Rightarrow> int \<Rightarrow> nat \<Rightarrow> planItem list obj" where
  "weeklyPlanFrom tz today days plan i 0 = plan"
| "weeklyPlanFrom tz today days plan i (Suc k) =
     (let d = setDate tz today (getDate tz today + i);
          dateStr = isoBeforeT d;
          dayName = weekdayLong (getDay tz d)
      in weeklyPlanFrom tz today days
           (objSet plan dayName
              (case find (\<lambda>t. dayDate t = dateStr) days of
                 Some timelineDay \<Rightarrow>
                   if length (items timelineDay) > 0 then map planItemOf (items timelineDay) else []
               | None \<Rightarrow> []))
           (i + 1) k)"

definition generateWeeklyPlan :: "int \<Rightarrow> int \<Rightarrow> timelineDay list \<Rightarrow> planItem list obj" where
  "generateWeeklyPlan tz now days = weeklyPlanFrom tz now days [] 0 7"

definition initialState :: aggState where
  "initialState = \<lparr>seenIds = [], sectionLists = (\<lambda>_. []), timelineMap = []\<rparr>"

text \<open>
  \<open>processUpAheadData\<close>, with the clock at \<open>now\<close>. Beside the result it gives the cache
  and the items as the run leaves them.
\<close>

definition processUpAheadData ::
  "int \<Rightarrow> int \<Rightarrow> wbCache \<Rightarrow> item list \<Rightarrow> settings \<Rightarrow> upAheadData \<times> wbCache \<times> item list" where
  "processUpAheadData tz now cache rawItems st =
     (case processItems tz now st (cache, initialState) rawItems of
        ((cache', s), rawItems') \<Rightarrow>
          (let days = sortedTimeline (timelineMap s)
           in (\<lparr>timeline = days,
                sections = (\<lambda>k. take 5 (sectionLists s k)),
                weekly_plan = generateWeeklyPlan tz now days,
                lastUpdated = toISOString now\<rparr>, cache', rawItems')))"

section \<open>The loop body without the cache\<close>

text \<open>
  The cache is well formed when every entry holds the pattern of its word. The empty
  cache of a fresh module is, and every call keeps it so; on a well-formed cache the
  result of a match is that of the cache-free functions of this section.
\<close>

definition cacheOk :: "wbCache \<Rightarrow> bool" where
  "cacheOk cache = (\<forall>(w, re) \<in> set cache. re = wordBoundaryRe w)"

definition keywordMatches :: "jstring \<Rightarrow> jstring \<Rightarrow> bool" where
  "keywordMatches tx keyword =
     (if 32 \<in> set keyword then strIncludes tx keyword else rxTest True (wordBoundaryRe keyword) tx)"

definition anyKeyword :: "jstring \<Rightarrow> jstring list \<Rightarrow> bool" where
  "anyKeyword tx ws = list_ex (\<lambda>w. keywordMatches tx (toLowerCase w)) ws"

definition negativeHit :: "settings \<Rightarrow> jstring \<Rightarrow> bool" where
  "negativeHit st fullText = (\<not> isRoundupText fullText \<and> anyKeyword fullText (mergedNegatives st))"

definition positiveMiss :: "settings \<Rightarrow> category \<Rightarrow> jstring \<Rightarrow> bool" where
  "positiveMiss st c fullText =
     (mergedPositives st c \<noteq> [] \<and> c \<in> {movies, events, sports, shopping}
      \<and> \<not> anyKeyword fullText (mergedPositives st c) \<and> forwardScoreOf fullText = 0)"

text \<open>Whether an item passes all the gates before the section block.\<close>

definition passesGates :: "int \<Rightarrow> settings \<Rightarrow> item \<Rightarrow> bool" where
  "passesGates now st it =
     (isFresh now st it \<and> \<not> isStale (fullTextOf it) \<and> \<not> negativeHit st (fullTextOf it)
      \<and> \<not> positiveMiss st (category it) (fullTextOf it) \<and> \<not> locationDrop st (category it) (fullTextOf it))"

text \<open>The new local state after the loop body, and the item as the loop body leaves it.\<close>

definition stepState :: "int \<Rightarrow> int \<Rightarrow> settings \<Rightarrow> aggState \<Rightarrow> item \<Rightarrow> aggState" where
  "stepState tz now st s it =
     (if itemId it \<in> set (seenIds s) then s
      else if \<not> passesGates now st it then s\<lparr>seenIds := seenIds s @ [itemId it]\<rparr>
      else if sectionReturn (setHoursZero tz now) it then s\<lparr>seenIds := seenIds s @ [itemId it]\<rparr>
      else pushTimeline tz now (setHoursZero tz now) (it\<lparr>forwardScore := Some (forwardScoreOf (fullTextOf it))\<rparr>)
             (pushSection tz it (s\<lparr>seenIds := seenIds s @ [itemId it]\<rparr>)))"

definition stepItem :: "int \<Rightarrow> settings \<Rightarrow> aggState \<Rightarrow> item \<Rightarrow> item" where
  "stepItem now st s it =
     (if itemId it \<notin> set (seenIds s) \<and> passesGates now st it
      then it\<lparr>forwardScore := Some (forwardScoreOf (fullTextOf it))\<rparr> else it)"

fun stepItems :: "int \<Rightarrow> int \<Rightarrow> settings \<Rightarrow> aggState \<Rightarrow> item list \<Rightarrow> item list" where
  "stepItems tz now st s [] = []"
| "stepItems tz now st s (it # its) = stepItem now st s it # stepItems tz now st (stepState tz now st s it) its"

text \<open>Two items that differ at most in the score.\<close>

definition sameButScore :: "item \<Rightarrow> item \<Rightarrow> bool" where
  "sameButScore a b = (\<exists>x. b = a\<lparr>forwardScore := x\<rparr>)"

section \<open>Notions of the specification\<close>

text \<open>
  The similarity in the words of the specification: the size of the intersection over
  the size of the union of the two sets of lower-cased, white-space separated words.
\<close>

definition jaccard :: "jstring \<Rightarrow> jstring \<Rightarrow> rat" where
  "jaccard a b =
     of_nat (card (set (splitWhitespace (toLowerCase a)) \<inter> set (splitWhitespace (toLowerCase b))))
     / of_nat (card (set (splitWhitespace (toLowerCase a)) \<union> set (splitWhitespace (toLowerCase b))))"

text \<open>
  Two texts are the same up to the case of their letters, code unit by code unit; a text
  contains a word up to case; a text contains a word up to case between two word
  boundaries; a text contains a digit followed by " new" up to case.
\<close>

definition sameFolded :: "jstring \<Rightarrow> jstring \<Rightarrow> bool" where
  "sameFolded a b = (map canonicalize a = map canonicalize b)"

definition lastChar :: "jstring \<Rightarrow> nat option" where
  "lastChar s = (if s = [] then None else Some (last s))"

definition boundaryBetween :: "jstring \<Rightarrow> jstring \<Rightarrow> bool" where
  "boundaryBetween prior rest = (isWordAt (lastChar prior) \<noteq> isWordAt (nextChar rest))"

definition containsFolded :: "jstring \<Rightarrow> jstring \<Rightarrow> bool" where
  "containsFolded tx w = (\<exists>pre mid post. tx = pre @ mid @ post \<and> sameFolded mid w)"

definition occursAsWord :: "jstring \<Rightarrow> jstring \<Rightarrow> bool" where
  "occursAsWord tx w =
     (\<exists>pre mid post. tx = pre @ mid @ post \<and> sameFolded mid w
        \<and> boundaryBetween pre (mid @ post) \<and> boundaryBetween (pre @ mid) post)"

definition hasCountNew :: "jstring \<Rightarrow> bool" where
  "hasCountNew tx =
     (\<exists>pre d mid post. tx = pre @ [d] @ mid @ post \<and> isDigit d \<and> sameFolded mid (js '' new''))"

text \<open>Patterns without a capture group.\<close>

fun noGroups :: "rx \<Rightarrow> bool" where
  "noGroups (Lit w) = True"
| "noGroups (Cls k) = True"
| "noGroups Bnd = True"
| "noGroups (Seq a b) = (noGroups a \<and> noGroups b)"
| "noGroups (Alt a b) = (noGroups a \<and> noGroups b)"
| "noGroups (Opt a) = noGroups a"
| "noGroups (Many k lo hi) = True"
| "noGroups (Grp g a) = False"

text \<open>
  The named pattern "Month Day[, Year]" after its leading word boundary; the
  deadline pattern ends with the same.
\<close>

definition monthDayYear :: rx where
  "monthDayYear = seqs [Grp 1 monthNames, Many CSpace 1 None, Grp 2 digits12, ordinalSuffix, optYear, Bnd]"

text \<open>
  The maximum age in hours in the words of the specification: the smaller of the
  configured value and the override of the category, if it has one.
\<close>

definition specMaxAgeHours :: "int \<Rightarrow> category \<Rightarrow> int" where
  "specMaxAgeHours configured c =
     (if c = weather_alerts then min configured 6
      else if c = alerts then min configured 12
      else if c = festivals then min configured 336
      else configured)"

section \<open>Example inputs\<close>

definition concertA :: plannerItem where
  "concertA = \<lparr>pId = js ''a'', pTitle = js ''City Concert This Weekend'', pCategory = events, pLink = js ''l1''\<rparr>"

definition concertB :: plannerItem where
  "concertB = \<lparr>pId = js ''b'', pTitle = js ''City Concert this Weekend!!'', pCategory = events, pLink = js ''l2''\<rparr>"

definition concertC :: plannerItem where
  "concertC = \<lparr>pId = js ''c'', pTitle = js ''CITY  CONCERT  this weekend'', pCategory = events, pLink = js ''l3''\<rparr>"

definition now_2026_01_10 :: int where
  "now_2026_01_10 = newDate 0 2026 0 10"

definition oldStore :: localStorage where
  "oldStore = \<lparr>content = Some [(js ''2000-01-01'', [stored concertA 0]), (js ''2026-01-09'', [stored concertB 0])],
     quotaExceeded = False\<rparr>"

text \<open>A clock at 10:00 on 10 January 2026 in a zone 5:30 hours east of UTC, which is 04:30 UTC of that day.\<close>

definition clockIST :: int where
  "clockIST = newDate 330 2026 0 10 + 10 * 3600000"

definition chennaiSettings :: settings where
  "chennaiSettings =
     \<lparr>hideOlderThanHours = Some 60, negative = None, categoryKeywords = (\<lambda>_. None),
      locations = Some [js ''Chennai'']\<rparr>"

text \<open>An item of a feed, with the fields that the examples do not vary.\<close>

definition feedItem :: "jstring \<Rightarrow> jstring \<Rightarrow> category \<Rightarrow> int \<Rightarrow> item" where
  "feedItem titleText descriptionText c published =
     \<lparr>itemId = titleText, title = titleText, link = js ''https://example.org/item'',
      description = descriptionText, pubDate = Some (Date published), extractedDate = None,
      category = c, rawSource = js ''feed'', isRoundup = normalizeIsRoundup titleText,
      subItems = [], forwardScore = None\<rparr>"

definition powerCut :: item where
  "powerCut = feedItem (js ''Chennai power cut in Adyar'') [] alerts (clockIST - 2 * 3600000)"

definition weatherWarning :: item where
  "weatherWarning = feedItem (js ''Heavy rain warning for Chennai'') [] weather_alerts (clockIST - 7 * 3600000)"

definition trafficAlert :: item where
  "trafficAlert = feedItem (js ''Chennai traffic advisory for Anna Salai'') [] alerts (clockIST - 10 * 3600000)"

definition previewItem :: item where
  "previewItem = feedItem (js ''preview screening announced'') [] weather_alerts (clockIST - 3600000)"

definition reviewItem :: item where
  "reviewItem = feedItem (js ''this movie review is harsh'') [] weather_alerts (clockIST - 3600000)"

definition roundupReview :: item where
  "roundupReview = feedItem (js ''Film review'') (js ''5 new releases this week'') movies (clockIST - 3600000)"

section \<open>Evaluation rules\<close>

lemma js_Nil: "js [] = []"
  by (simp add: js_def)

lemma js_Cons: "js (c # cs) = of_char c # js cs"
  by (simp add: js_def)

lemmas js_simps = js_Nil js_Cons

lemma js_not_empty: "js (c # cs) \<noteq> []"
  by (simp add: js_def)

text \<open>
  On ASCII text the case mappings are those of the ASCII letters, and a code unit
  that is the same as an ASCII one under the flag \<open>i\<close> is ASCII itself.
\<close>

lemma codePoints_ascii: "list_all (\<lambda>c. c < 128) s \<Longrightarrow> codePoints s = s"
  by (induction s rule: codePoints.induct) (simp_all add: isHighSurrogate_def)

lemma lowerOf_ascii: "c < 128 \<Longrightarrow> lowerOf prior c rest = [lowerChar c]"
  by (simp add: lowerOf_def simpleLower_def codeUnits_def lowerChar_def)

lemma lowerFrom_ascii: "list_all (\<lambda>c. c < 128) s \<Longrightarrow> lowerFrom prior s = map lowerChar s"
  by (induction s arbitrary: prior) (simp_all add: lowerOf_ascii)

lemma toLowerCase_ascii: "list_all (\<lambda>c. c < 128) s \<Longrightarrow> toLowerCase s = map lowerChar s"
  by (simp add: toLowerCase_def codePoints_ascii lowerFrom_ascii)

lemma upperSpecial_keys: "\<forall>k \<in> fst ` set upperSpecial. 128 \<le> k"
  by (simp add: upperSpecial_def)

lemma upperOf_ascii: "c < 128 \<Longrightarrow> upperOf c = [upperChar c]"
proof -
  assume c: "c < 128"
  then have "c \<notin> fst ` set upperSpecial"
    using upperSpecial_keys by fastforce
  then have "map_of upperSpecial c = None"
    by (simp add: map_of_eq_None_iff)
  moreover have "upperChar c \<le> c"
    by (simp add: upperChar_def)
  with c have "upperChar c < 65536"
    by simp
  ultimately show ?thesis
    using c by (simp add: upperOf_def simpleUpper_def codeUnits_def)
qed

lemma toUpperCase_ascii: "list_all (\<lambda>c. c < 128) s \<Longrightarrow> toUpperCase s = map upperChar s"
proof -
  assume a: "list_all (\<lambda>c. c < 128) s"
  then have "concat (map upperOf s) = map upperChar s"
    by (induction s) (simp_all add: upperOf_ascii)
  with a show ?thesis
    by (simp add: toUpperCase_def codePoints_ascii)
qed

lemma canonicalize_ascii: "c < 128 \<Longrightarrow> canonicalize c = upperChar c"
  by (simp add: canonicalize_def)

lemma canonicalize_not_ascii: "128 \<le> c \<Longrightarrow> 128 \<le> canonicalize c"
  by (simp add: canonicalize_def split: list.splits)

lemma canonicalize_eq_ascii:
  assumes "canonicalize p = canonicalize c" and "p < 128"
  shows "c < 128 \<and> upperChar p = upperChar c"
proof -
  have "upperChar p \<le> p"
    by (simp add: upperChar_def)
  with assms(2) have "canonicalize p < 128"
    by (simp add: canonicalize_ascii)
  with assms(1) canonicalize_not_ascii [of c] have "c < 128"
    by (cases "c < 128") simp_all
  with assms show ?thesis
    by (simp add: canonicalize_ascii)
qed

lemma canonicalize_dash: "canonicalize 8211 = 8211"
  by (simp add: canonicalize_def upperOf_def upperSpecial_def simpleUpper_def upperTable_def codeUnits_def)

lemma canonicalize_bullet: "canonicalize 8226 = 8226"
  by (simp add: canonicalize_def upperOf_def upperSpecial_def simpleUpper_def upperTable_def codeUnits_def)

text \<open>
  Congruence rules that keep the simplifier out of a function until it is applied to
  a value, so that a term is evaluated the way a program runs.
\<close>

lemma map_weak_cong: "xs = ys \<Longrightarrow> map f xs = map f ys"
  by simp

lemma foldl_weak_cong: "a = b \<Longrightarrow> xs = ys \<Longrightarrow> foldl f a xs = foldl f b ys"
  by simp

lemma filter_weak_cong: "xs = ys \<Longrightarrow> filter P xs = filter P ys"
  by simp

lemma list_ex_weak_cong: "xs = ys \<Longrightarrow> list_ex P xs = list_ex P ys"
  by simp

lemmas rx_eval = rxMatch_def rxTest_def sameChar_def canonicalize_ascii canonicalize_dash
  canonicalize_bullet upperChar_def lowerChar_def isWordAt_def
  nextChar_def isWordChar_def prevAfter_def isDigit_def isSpace_def cap_def capInt_def capStr_def
  digitsToNat_def toLowerCase_ascii toUpperCase_ascii js_simps

lemmas date_rx = monthNames_def MONTHS_def digits12_def digits4_def ordinalSuffix_def optYear_def
  sep_def isoRe_def dmyRe_def namedRe1_def namedRe2_def

lemmas civil_eval = civil_def civilCycle_def civilYear_def civilDay_def civilMonth_def

lemmas makeDay_eval = makeDay_def dayFromYear_def monthStart_def isLeap_def

lemmas iso_eval = isoSlice10_def isoBeforeT_def toISOString_def isoDatePart_def civil_eval msPerDay_def
  pad2_def pad3_def pad4_def pad6_def digit_def

section \<open>Day numbers and local days\<close>

lemma localDays_bounds:
  assumes "localDays tz t = q"
  shows "q * 86400000 \<le> t + tz * 60000 \<and> t + tz * 60000 < (q + 1) * 86400000"
proof -
  define x where "x = t + tz * 60000"
  define r where "r = x mod 86400000"
  have q: "x div 86400000 = q"
    using assms by (simp add: localDays_def msPerDay_def x_def)
  have "x = 86400000 * (x div 86400000) + r"
    unfolding r_def by (rule mult_div_mod_eq [symmetric])
  then have e: "x = 86400000 * q + r"
    by (simp only: q)
  have r0: "0 \<le> r" and r1: "r < 86400000"
    unfolding r_def by simp_all
  show ?thesis
    using e r0 r1 unfolding x_def by (simp add: algebra_simps)
qed

lemma localDays_newDate:
  "localDays tz (mkLocal tz d 0) = d"
  by (simp add: localDays_def mkLocal_def msPerDay_def)

lemma inferYear_not_past:
  assumes ref: "localDays tz ref = q"
    and yr: "fst (civil q) = y" "99 < y"
    and later: "q < makeDay y m d"
  shows "inferYear tz m d ref = newDate tz y m d"
proof -
  have y: "getFullYear tz ref = y"
    using ref yr(1) by (simp add: getFullYear_def)
  have a: "ref + tz * 60000 < (q + 1) * 86400000"
    using localDays_bounds [OF ref] by simp
  have b: "(q + 1) * 86400000 \<le> makeDay y m d * 86400000"
    using later by simp
  have c: "newDate tz y m d = makeDay y m d * 86400000 - tz * 60000"
    using yr(2) by (simp add: newDate_def mkLocal_def msPerDay_def)
  have nlt: "\<not> newDate tz y m d < ref"
    unfolding c using a b by linarith
  have "inferYear tz m d ref =
    (if newDate tz y m d < ref \<and> ref - newDate tz y m d > 30 * 86400000
     then setFullYear tz (newDate tz y m d) (getFullYear tz (newDate tz y m d) + 1)
     else newDate tz y m d)"
    unfolding inferYear_def y Let_def ..
  with nlt show ?thesis
    by (simp only: simp_thms if_False)
qed

lemma getFullYear_newDate:
  "99 < y \<Longrightarrow> getFullYear tz (newDate tz y m d) = fst (civil (makeDay y m d))"
  by (simp add: getFullYear_def newDate_def localDays_newDate)

section \<open>The year of a named date without a year\<close>

lemma march5_iso: "extractISO tz (js ''event on March 5'') ref = None"
  by (simp add: extractISO_def rx_eval date_rx Let_def cong: map_weak_cong let_weak_cong)

lemma march5_named:
  "extractNamed tz (js ''event on March 5'') ref =
     Some \<lparr>start = inferYear tz 2 5 ref, end = None, type = KNamed\<rparr>"
  by (simp add: extractNamed_def rx_eval date_rx dateWithYear_def monthNum_def nullAsZero_def Let_def
      cong: map_weak_cong let_weak_cong)

lemma dec20_iso: "extractISO tz (js ''event on Dec 20'') ref = None"
  by (simp add: extractISO_def rx_eval date_rx Let_def cong: map_weak_cong let_weak_cong)

lemma dec20_named:
  "extractNamed tz (js ''event on Dec 20'') ref =
     Some \<lparr>start = inferYear tz 11 20 ref, end = None, type = KNamed\<rparr>"
  by (simp add: extractNamed_def rx_eval date_rx dateWithYear_def monthNum_def nullAsZero_def Let_def
      cong: map_weak_cong let_weak_cong)

lemma day_2026_01_10: "civil 20463 = (2026, 0, 10)"
  by (simp add: civil_eval)

lemma day_2026_03_05: "makeDay 2026 2 5 = 20517" "civil 20517 = (2026, 2, 5)"
  by (simp_all add: civil_eval makeDay_eval)

lemma day_2026_12_20: "makeDay 2026 11 20 = 20807" "civil 20807 = (2026, 11, 20)"
  by (simp_all add: civil_eval makeDay_eval)

text \<open>
  C3, as amended. For every time zone offset and every reference instant on 10 January 2026
  (local time), \<open>extractDate\<close> on "event on March 5" returns 5 March 2026 and on
  "event on Dec 20" returns 20 December 2026: the date is built in the reference
  year, and neither date is in the past of the reference, so none is moved by a year.
\<close>

theorem C3_year_inference:
  assumes "localDays tz ref = 20463"
  shows "extractDate tz now (js ''event on March 5'') (Some (Date ref))
           = Some \<lparr>start = newDate tz 2026 2 5, end = None, type = KNamed\<rparr>
       \<and> getFullYear tz (newDate tz 2026 2 5) = 2026
       \<and> extractDate tz now (js ''event on Dec 20'') (Some (Date ref))
           = Some \<lparr>start = newDate tz 2026 11 20, end = None, type = KNamed\<rparr>
       \<and> getFullYear tz (newDate tz 2026 11 20) = 2026"
proof -
  have m: "inferYear tz 2 5 ref = newDate tz 2026 2 5"
    by (rule inferYear_not_past [OF assms]) (simp_all add: day_2026_01_10 day_2026_03_05)
  have d: "inferYear tz 11 20 ref = newDate tz 2026 11 20"
    by (rule inferYear_not_past [OF assms]) (simp_all add: day_2026_01_10 day_2026_12_20)
  have "extractDate tz now (js ''event on March 5'') (Some (Date ref))
      = Some \<lparr>start = newDate tz 2026 2 5, end = None, type = KNamed\<rparr>"
    by (simp add: extractDate_def orElse_def march5_iso march5_named m js_not_empty)
  moreover have "extractDate tz now (js ''event on Dec 20'') (Some (Date ref))
      = Some \<lparr>start = newDate tz 2026 11 20, end = None, type = KNamed\<rparr>"
    by (simp add: extractDate_def orElse_def dec20_iso dec20_named d js_not_empty)
  moreover have "getFullYear tz (newDate tz 2026 2 5) = 2026"
    by (simp add: getFullYear_newDate day_2026_03_05)
  moreover have "getFullYear tz (newDate tz 2026 11 20) = 2026"
    by (simp add: getFullYear_newDate day_2026_12_20)
  ultimately show ?thesis
    by simp
qed

lemma ref_2026_01_10: "localDays 0 (newDate 0 2026 0 10) = 20463"
  by (simp add: newDate_def localDays_newDate makeDay_eval)

theorem C3_year_inference_witness:
  "localDays 0 (newDate 0 2026 0 10) = 20463
   \<and> extractDate 0 0 (js ''event on March 5'') (Some (Date (newDate 0 2026 0 10)))
       = Some \<lparr>start = newDate 0 2026 2 5, end = None, type = KNamed\<rparr>
   \<and> getFullYear 0 (newDate 0 2026 2 5) = 2026
   \<and> extractDate 0 0 (js ''event on Dec 20'') (Some (Date (newDate 0 2026 0 10)))
       = Some \<lparr>start = newDate 0 2026 11 20, end = None, type = KNamed\<rparr>
   \<and> getFullYear 0 (newDate 0 2026 11 20) = 2026"
  using C3_year_inference [OF ref_2026_01_10, of 0] ref_2026_01_10 by simp

text \<open>
  C3 as stated fails: with the reference date 2026-01-10, the date returned for
  "event on Dec 20" is in the year 2026, not 2025.
\<close>

theorem C3_dec20_counterexample:
  "extractDate 0 0 (js ''event on Dec 20'') (Some (Date (newDate 0 2026 0 10)))
     = Some \<lparr>start = newDate 0 2026 11 20, end = None, type = KNamed\<rparr>
   \<and> getFullYear 0 (newDate 0 2026 11 20) = 2026
   \<and> getFullYear 0 (newDate 0 2026 11 20) \<noteq> 2025"
proof -
  have d: "inferYear 0 11 20 (newDate 0 2026 0 10) = newDate 0 2026 11 20"
    by (rule inferYear_not_past [OF ref_2026_01_10]) (simp_all add: day_2026_01_10 day_2026_12_20)
  have y: "getFullYear 0 (newDate 0 2026 11 20) = 2026"
    by (simp add: getFullYear_newDate day_2026_12_20)
  show ?thesis
    by (simp add: extractDate_def orElse_def dec20_iso dec20_named d y js_not_empty)
qed

section \<open>What the patterns of the filters match\<close>

lemma startsWith_iff: "startsWith s w \<longleftrightarrow> (\<exists>post. s = w @ post)"
  by (induction s w rule: startsWith.induct) auto

lemma strIncludes_iff: "strIncludes s w \<longleftrightarrow> (\<exists>pre post. s = pre @ w @ post)"
proof (induction s)
  case Nil
  then show ?case
    by (simp add: startsWith_iff)
next
  case (Cons c cs)
  show ?case
  proof
    assume "strIncludes (c # cs) w"
    then consider "startsWith (c # cs) w" | "strIncludes cs w"
      by auto
    then show "\<exists>pre post. c # cs = pre @ w @ post"
    proof cases
      case 1
      then obtain post where "c # cs = [] @ w @ post"
        by (auto simp: startsWith_iff)
      then show ?thesis
        by blast
    next
      case 2
      with Cons.IH obtain pre post where "cs = pre @ w @ post"
        by blast
      then have "c # cs = (c # pre) @ w @ post"
        by simp
      then show ?thesis
        by blast
    qed
  next
    assume "\<exists>pre post. c # cs = pre @ w @ post"
    then obtain pre post where e: "c # cs = pre @ w @ post"
      by blast
    show "strIncludes (c # cs) w"
    proof (cases pre)
      case Nil
      with e have "startsWith (c # cs) w"
        by (auto simp: startsWith_iff)
      then show ?thesis
        by simp
    next
      case (Cons p ps)
      with e have "cs = ps @ w @ post"
        by simp
      with Cons.IH have "strIncludes cs w"
        by blast
      then show ?thesis
        by simp
    qed
  qed
qed

lemma litPrefix_take:
  "litPrefix True w s \<longleftrightarrow> length w \<le> length s \<and> sameFolded (take (length w) s) w"
  by (induction True w s rule: litPrefix.induct) (auto simp: sameFolded_def sameChar_def)

lemma sameFolded_length: "sameFolded a b \<Longrightarrow> length a = length b"
  unfolding sameFolded_def by (rule map_eq_imp_length_eq)

lemma litPrefix_iff:
  "litPrefix True w s \<longleftrightarrow> (\<exists>mid post. s = mid @ post \<and> sameFolded mid w)"
proof
  assume "litPrefix True w s"
  then have "s = take (length w) s @ drop (length w) s \<and> sameFolded (take (length w) s) w"
    by (simp add: litPrefix_take)
  then show "\<exists>mid post. s = mid @ post \<and> sameFolded mid w"
    by blast
next
  assume "\<exists>mid post. s = mid @ post \<and> sameFolded mid w"
  then obtain mid post where s: "s = mid @ post" and m: "sameFolded mid w"
    by blast
  from m have "length mid = length w"
    by (rule sameFolded_length)
  with s m show "litPrefix True w s"
    by (simp add: litPrefix_take)
qed

lemma prevAfter_Nil: "prevAfter prev [] = prev"
  by (simp add: prevAfter_def)

lemma prevAfter_Cons: "prevAfter prev (x # xs) = prevAfter (Some x) xs"
  by (simp add: prevAfter_def)

lemma prevAfter_None: "prevAfter None s = lastChar s"
  by (simp add: prevAfter_def lastChar_def)

lemma prevAfter_lastChar: "prevAfter (lastChar pre) mid = lastChar (pre @ mid)"
  by (simp add: prevAfter_def lastChar_def)

text \<open>A search succeeds exactly when the pattern matches at some position of the text.\<close>

lemma rsearch_iff:
  "rsearch i r prev s \<noteq> None
     \<longleftrightarrow> (\<exists>pre post. s = pre @ post \<and> rmatch i r (prevAfter prev pre) post [] \<noteq> [])"
proof (induction s arbitrary: prev)
  case Nil
  then show ?case
    by (auto simp: prevAfter_Nil split: list.splits)
next
  case (Cons x xs)
  have "(\<exists>pre post. x # xs = pre @ post \<and> rmatch i r (prevAfter prev pre) post [] \<noteq> [])
      \<longleftrightarrow> (rmatch i r prev (x # xs) [] \<noteq> []
           \<or> (\<exists>pre post. xs = pre @ post \<and> rmatch i r (prevAfter (Some x) pre) post [] \<noteq> []))"
    (is "?L \<longleftrightarrow> ?A \<or> ?B")
  proof
    assume ?L
    then obtain pre post where e: "x # xs = pre @ post"
      and m: "rmatch i r (prevAfter prev pre) post [] \<noteq> []"
      by blast
    show "?A \<or> ?B"
    proof (cases pre)
      case Nil
      with e m show ?thesis
        by (simp add: prevAfter_Nil)
    next
      case (Cons p ps)
      with e have "xs = ps @ post" and "p = x"
        by simp_all
      moreover from Cons m \<open>p = x\<close> have "rmatch i r (prevAfter (Some x) ps) post [] \<noteq> []"
        by (simp add: prevAfter_Cons)
      ultimately show ?thesis
        by blast
    qed
  next
    assume "?A \<or> ?B"
    then show ?L
    proof
      assume ?A
      then have "x # xs = [] @ (x # xs) \<and> rmatch i r (prevAfter prev []) (x # xs) [] \<noteq> []"
        by (simp add: prevAfter_Nil)
      then show ?L
        by blast
    next
      assume ?B
      then obtain pre post where "xs = pre @ post"
        and "rmatch i r (prevAfter (Some x) pre) post [] \<noteq> []"
        by blast
      then have "x # xs = (x # pre) @ post \<and> rmatch i r (prevAfter prev (x # pre)) post [] \<noteq> []"
        by (simp add: prevAfter_Cons)
      then show ?L
        by blast
    qed
  qed
  with Cons.IH [of "Some x"] show ?case
    by (auto split: list.splits)
qed

lemma rxTest_iff:
  "rxTest i r s \<longleftrightarrow> (\<exists>pre post. s = pre @ post \<and> rmatch i r (lastChar pre) post [] \<noteq> [])"
  unfolding rxTest_def rxMatch_def rsearch_iff prevAfter_None ..

lemma rmatch_wordBoundaryRe:
  "rmatch True (wordBoundaryRe w) prev s [] \<noteq> []
     \<longleftrightarrow> isWordAt prev \<noteq> isWordAt (nextChar s) \<and> litPrefix True w s
         \<and> isWordAt (prevAfter prev (take (length w) s)) \<noteq> isWordAt (nextChar (drop (length w) s))"
  by (simp add: wordBoundaryRe_def prevAfter_Nil)

lemma rxTest_wordBoundaryRe: "rxTest True (wordBoundaryRe w) tx \<longleftrightarrow> occursAsWord tx w"
proof
  assume "rxTest True (wordBoundaryRe w) tx"
  then obtain pre post where tx: "tx = pre @ post"
    and b1: "isWordAt (lastChar pre) \<noteq> isWordAt (nextChar post)"
    and lp: "litPrefix True w post"
    and b2: "isWordAt (prevAfter (lastChar pre) (take (length w) post))
        \<noteq> isWordAt (nextChar (drop (length w) post))"
    unfolding rxTest_iff rmatch_wordBoundaryRe by blast
  let ?mid = "take (length w) post" and ?post = "drop (length w) post"
  have "tx = pre @ ?mid @ ?post"
    using tx by simp
  moreover have "sameFolded ?mid w"
    using lp by (simp add: litPrefix_take)
  moreover have "boundaryBetween pre (?mid @ ?post)"
    using b1 by (simp add: boundaryBetween_def)
  moreover have "boundaryBetween (pre @ ?mid) ?post"
    using b2 by (simp add: boundaryBetween_def prevAfter_lastChar)
  ultimately show "occursAsWord tx w"
    unfolding occursAsWord_def by blast
next
  assume "occursAsWord tx w"
  then obtain pre mid post where tx: "tx = pre @ mid @ post" and m: "sameFolded mid w"
    and b1: "boundaryBetween pre (mid @ post)" and b2: "boundaryBetween (pre @ mid) post"
    unfolding occursAsWord_def by blast
  have len: "length mid = length w"
    using m by (rule sameFolded_length)
  have "litPrefix True w (mid @ post)"
    using m by (auto simp: litPrefix_iff)
  moreover have "isWordAt (lastChar pre) \<noteq> isWordAt (nextChar (mid @ post))"
    using b1 by (simp add: boundaryBetween_def)
  moreover have "isWordAt (prevAfter (lastChar pre) (take (length w) (mid @ post)))
      \<noteq> isWordAt (nextChar (drop (length w) (mid @ post)))"
    using b2 len by (simp add: boundaryBetween_def prevAfter_lastChar)
  ultimately have "rmatch True (wordBoundaryRe w) (lastChar pre) (mid @ post) [] \<noteq> []"
    by (simp only: rmatch_wordBoundaryRe simp_thms)
  with tx show "rxTest True (wordBoundaryRe w) tx"
    unfolding rxTest_iff by blast
qed

lemma rmatch_alts:
  "ws \<noteq> [] \<Longrightarrow> rmatch True (alts ws) prev s c \<noteq> [] \<longleftrightarrow> (\<exists>w \<in> set ws. litPrefix True w s)"
  by (induction ws rule: alts.induct) auto

lemma rxTest_alts:
  assumes "ws \<noteq> []"
  shows "rxTest True (alts ws) tx \<longleftrightarrow> (\<exists>w \<in> set ws. containsFolded tx w)"
proof -
  have "rxTest True (alts ws) tx
      \<longleftrightarrow> (\<exists>pre post. tx = pre @ post \<and> (\<exists>w \<in> set ws. \<exists>mid post'. post = mid @ post' \<and> sameFolded mid w))"
    unfolding rxTest_iff rmatch_alts [OF assms] litPrefix_iff ..
  also have "\<dots> \<longleftrightarrow> (\<exists>w \<in> set ws. containsFolded tx w)"
    unfolding containsFolded_def by blast
  finally show ?thesis .
qed

lemma mem_countDown: "j \<in> set (countDown n m) \<longleftrightarrow> m \<le> j \<and> j \<le> n"
proof (induction n)
  case 0
  then show ?case
    by auto
next
  case (Suc n)
  show ?case
  proof (cases "m \<le> Suc n")
    case True
    have "(j = Suc n \<or> m \<le> j \<and> j \<le> n) \<longleftrightarrow> m \<le> j \<and> j \<le> Suc n"
      using True by arith
    with True Suc show ?thesis
      by simp
  next
    case False
    then have "\<not> (m \<le> j \<and> j \<le> Suc n)"
      by arith
    with False show ?thesis
      by simp
  qed
qed

lemma set_countDown: "set (countDown n m) = {j. m \<le> j \<and> j \<le> n}"
  by (rule set_eqI) (simp add: mem_countDown)

lemma runLength_le: "runLength k s \<le> length s"
  by (induction s) auto

lemma runLength_nth: "j < runLength k s \<Longrightarrow> inCls k (s ! j)"
proof (induction s arbitrary: j)
  case Nil
  then show ?case
    by simp
next
  case (Cons c cs)
  then show ?case
    by (cases j) (auto split: if_splits)
qed

lemma rmatch_Seq_iff:
  "rmatch i (Seq a b) prev s c \<noteq> []
     \<longleftrightarrow> (\<exists>(m1, s1, c1) \<in> set (rmatch i a prev s c). rmatch i b (prevAfter prev m1) s1 c1 \<noteq> [])"
  by (simp add: split_beta)

lemma set_rmatch_Many:
  "set (rmatch i (Many k lo None) prev s c) = (\<lambda>j. (take j s, drop j s, c)) ` {j. lo \<le> j \<and> j \<le> runLength k s}"
  by (simp add: set_countDown)

lemma rmatch_Lit_iff: "rmatch i (Lit w) prev s c \<noteq> [] \<longleftrightarrow> litPrefix i w s"
  by simp

lemma rmatch_countNewRe:
  "rmatch True countNewRe prev s c \<noteq> []
     \<longleftrightarrow> (\<exists>j. 1 \<le> j \<and> j \<le> runLength CDigit s \<and> litPrefix True (js '' new'') (drop j s))"
  unfolding countNewRe_def rmatch_Seq_iff set_rmatch_Many rmatch_Lit_iff by blast

lemma rxTest_countNewRe: "rxTest True countNewRe tx \<longleftrightarrow> hasCountNew tx"
proof
  assume "rxTest True countNewRe tx"
  then obtain pre post j where tx: "tx = pre @ post" and j: "1 \<le> j" "j \<le> runLength CDigit post"
    and lp: "litPrefix True (js '' new'') (drop j post)"
    unfolding rxTest_iff rmatch_countNewRe by blast
  from lp obtain mid post' where d: "drop j post = mid @ post'" and m: "sameFolded mid (js '' new'')"
    unfolding litPrefix_iff by blast
  have jl: "j - 1 < length post"
    using j runLength_le [of CDigit post] by simp
  have "isDigit (post ! (j - 1))"
    using runLength_nth [of "j - 1" CDigit post] j by simp
  moreover have "post = take (j - 1) post @ [post ! (j - 1)] @ drop j post"
    using jl j id_take_nth_drop [of "j - 1" post] by simp
  then have "tx = (pre @ take (j - 1) post) @ [post ! (j - 1)] @ mid @ post'"
    using tx d by simp
  ultimately show "hasCountNew tx"
    unfolding hasCountNew_def using m by blast
next
  assume "hasCountNew tx"
  then obtain pre d mid post where tx: "tx = pre @ [d] @ mid @ post" and d: "isDigit d"
    and m: "sameFolded mid (js '' new'')"
    unfolding hasCountNew_def by blast
  have "litPrefix True (js '' new'') (drop 1 (d # mid @ post))"
    using m by (auto simp: litPrefix_iff)
  moreover have "1 \<le> runLength CDigit (d # mid @ post)"
    using d by simp
  ultimately have "rmatch True countNewRe (lastChar pre) (d # mid @ post) [] \<noteq> []"
    unfolding rmatch_countNewRe by blast
  moreover have "tx = pre @ (d # mid @ post)"
    using tx by simp
  ultimately show "rxTest True countNewRe tx"
    unfolding rxTest_iff by blast
qed

text \<open>The two keyword matchers, in the notions of the specification.\<close>

lemma keywordMatches_iff:
  "keywordMatches tx w \<longleftrightarrow>
     (if 32 \<in> set w then (\<exists>pre post. tx = pre @ w @ post) else occursAsWord tx w)"
  by (simp add: keywordMatches_def strIncludes_iff rxTest_wordBoundaryRe)

lemma isRoundupText_iff:
  "isRoundupText tx \<longleftrightarrow>
     (\<exists>w \<in> set (map js [''ott'', ''releases'', ''week'', ''weekend'']). containsFolded tx w) \<and> hasCountNew tx"
  unfolding isRoundupText_def rxTest_countNewRe by (subst rxTest_alts) simp_all

section \<open>Ranges behind the named layer\<close>

lemmas range_rx = toWords_def rangeRe1_def rangeRe2_def rangeRe3_def

lemma day_2026_02: "makeDay 2026 1 10 = 20494" "makeDay 2026 1 24 = 20508" "makeDay 2026 1 12 = 20496"
  by (simp_all add: makeDay_eval)

lemma feb_2026:
  "inferYear 0 1 10 (newDate 0 2026 0 10) = newDate 0 2026 1 10"
  "inferYear 0 1 24 (newDate 0 2026 0 10) = newDate 0 2026 1 24"
  "inferYear 0 1 12 (newDate 0 2026 0 10) = newDate 0 2026 1 12"
  by (rule inferYear_not_past [OF ref_2026_01_10], simp_all add: day_2026_01_10 day_2026_02)+

lemma range1_iso: "extractISO tz (js ''Feb 10 to Feb 24'') ref = None"
  by (simp add: extractISO_def rx_eval date_rx Let_def cong: map_weak_cong let_weak_cong)

lemma range1_named:
  "extractNamed tz (js ''Feb 10 to Feb 24'') ref =
     Some \<lparr>start = inferYear tz 1 10 ref, end = None, type = KNamed\<rparr>"
  by (simp add: extractNamed_def rx_eval date_rx dateWithYear_def monthNum_def nullAsZero_def Let_def
      cong: map_weak_cong let_weak_cong)

lemma range1_range:
  "extractRange tz (js ''Feb 10 to Feb 24'') ref =
     Some \<lparr>start = inferYear tz 1 10 ref, end = Some (inferYear tz 1 24 ref), type = KRange\<rparr>"
  by (simp add: extractRange_def rx_eval date_rx range_rx monthNum_def nullAsZero_def Let_def
      cong: map_weak_cong let_weak_cong)

lemma range2_iso: "extractISO tz (js ''Feb 10 to 24'') ref = None"
  by (simp add: extractISO_def rx_eval date_rx Let_def cong: map_weak_cong let_weak_cong)

lemma range2_named:
  "extractNamed tz (js ''Feb 10 to 24'') ref =
     Some \<lparr>start = inferYear tz 1 10 ref, end = None, type = KNamed\<rparr>"
  by (simp add: extractNamed_def rx_eval date_rx dateWithYear_def monthNum_def nullAsZero_def Let_def
      cong: map_weak_cong let_weak_cong)

lemma range2_range:
  "extractRange tz (js ''Feb 10 to 24'') ref =
     Some \<lparr>start = inferYear tz 1 10 ref, end = Some (inferYear tz 1 24 ref), type = KRange\<rparr>"
  by (simp add: extractRange_def rx_eval date_rx range_rx monthNum_def nullAsZero_def Let_def
      cong: map_weak_cong let_weak_cong)

lemma range3_iso: "extractISO tz (js ''10 to 24 February'') ref = None"
  by (simp add: extractISO_def rx_eval date_rx Let_def cong: map_weak_cong let_weak_cong)

lemma range3_named:
  "extractNamed tz (js ''10 to 24 February'') ref =
     Some \<lparr>start = inferYear tz 1 24 ref, end = None, type = KNamed\<rparr>"
  by (simp add: extractNamed_def rx_eval date_rx dateWithYear_def monthNum_def nullAsZero_def Let_def
      cong: map_weak_cong let_weak_cong)

lemma range3_range:
  "extractRange tz (js ''10 to 24 February'') ref =
     Some \<lparr>start = inferYear tz 1 10 ref, end = Some (inferYear tz 1 24 ref), type = KRange\<rparr>"
  by (simp add: extractRange_def rx_eval date_rx range_rx monthNum_def nullAsZero_def Let_def
      cong: map_weak_cong let_weak_cong)

text \<open>
  C1, what the code does. With the reference date 2026-01-10, the texts "Feb 10 to Feb 24",
  "Feb 10 to 24" and "10 to 24 February" each contain one of the three range forms, and the
  range layer alone gives 10 to 24 February 2026 for each. \<open>extractDate\<close> returns a
  named date without an end for all three, since the named layer, tried first, matches
  a part of the range.
\<close>

theorem C1_range_shadowed_by_named:
  "extractRange 0 (js ''Feb 10 to Feb 24'') (newDate 0 2026 0 10)
     = Some \<lparr>start = newDate 0 2026 1 10, end = Some (newDate 0 2026 1 24), type = KRange\<rparr>
   \<and> extractDate 0 0 (js ''Feb 10 to Feb 24'') (Some (Date (newDate 0 2026 0 10)))
     = Some \<lparr>start = newDate 0 2026 1 10, end = None, type = KNamed\<rparr>
   \<and> extractRange 0 (js ''Feb 10 to 24'') (newDate 0 2026 0 10)
     = Some \<lparr>start = newDate 0 2026 1 10, end = Some (newDate 0 2026 1 24), type = KRange\<rparr>
   \<and> extractDate 0 0 (js ''Feb 10 to 24'') (Some (Date (newDate 0 2026 0 10)))
     = Some \<lparr>start = newDate 0 2026 1 10, end = None, type = KNamed\<rparr>
   \<and> extractRange 0 (js ''10 to 24 February'') (newDate 0 2026 0 10)
     = Some \<lparr>start = newDate 0 2026 1 10, end = Some (newDate 0 2026 1 24), type = KRange\<rparr>
   \<and> extractDate 0 0 (js ''10 to 24 February'') (Some (Date (newDate 0 2026 0 10)))
     = Some \<lparr>start = newDate 0 2026 1 24, end = None, type = KNamed\<rparr>"
  by (simp add: extractDate_def orElse_def js_not_empty feb_2026
      range1_iso range1_named range1_range range2_iso range2_named range2_range
      range3_iso range3_named range3_range)

section \<open>The deadline layer is never reached\<close>

lemma set_rmatch_Seq:
  "(m, s', c') \<in> set (rmatch i (Seq a b) prev s c) \<longleftrightarrow>
     (\<exists>m1 s1 c1 m2. (m1, s1, c1) \<in> set (rmatch i a prev s c)
        \<and> (m2, s', c') \<in> set (rmatch i b (prevAfter prev m1) s1 c1) \<and> m = m1 @ m2)"
proof
  assume "(m, s', c') \<in> set (rmatch i (Seq a b) prev s c)"
  then obtain x y where "x \<in> set (rmatch i a prev s c)"
    and "y \<in> set (rmatch i b (prevAfter prev (fst x)) (fst (snd x)) (snd (snd x)))"
    and "(m, s', c') = (fst x @ fst y, snd y)"
    by (auto simp: split_beta)
  then have "(fst x, fst (snd x), snd (snd x)) \<in> set (rmatch i a prev s c)
      \<and> (fst y, s', c') \<in> set (rmatch i b (prevAfter prev (fst x)) (fst (snd x)) (snd (snd x)))
      \<and> m = fst x @ fst y"
    by (cases y) auto
  then show "\<exists>m1 s1 c1 m2. (m1, s1, c1) \<in> set (rmatch i a prev s c)
      \<and> (m2, s', c') \<in> set (rmatch i b (prevAfter prev m1) s1 c1) \<and> m = m1 @ m2"
    by blast
next
  assume "\<exists>m1 s1 c1 m2. (m1, s1, c1) \<in> set (rmatch i a prev s c)
      \<and> (m2, s', c') \<in> set (rmatch i b (prevAfter prev m1) s1 c1) \<and> m = m1 @ m2"
  then obtain m1 s1 c1 m2 where 1: "(m1, s1, c1) \<in> set (rmatch i a prev s c)"
    and 2: "(m2, s', c') \<in> set (rmatch i b (prevAfter prev m1) s1 c1)" and m: "m = m1 @ m2"
    by blast
  from 2 have "(m1 @ m2, s', c') \<in> (\<lambda>y. (m1 @ fst y, snd y)) ` set (rmatch i b (prevAfter prev m1) s1 c1)"
    by force
  with 1 m show "(m, s', c') \<in> set (rmatch i (Seq a b) prev s c)"
    by (simp add: split_beta) force
qed

lemma rmatch_consumes:
  "(m, s', c') \<in> set (rmatch i r prev s c) \<Longrightarrow> s = m @ s'"
proof (induction r arbitrary: prev s c m s' c')
  case (Seq a b)
  from Seq.prems obtain m1 s1 c1 m2 where 1: "(m1, s1, c1) \<in> set (rmatch i a prev s c)"
    and 2: "(m2, s', c') \<in> set (rmatch i b (prevAfter prev m1) s1 c1)" and m: "m = m1 @ m2"
    unfolding set_rmatch_Seq by blast
  from Seq.IH(1) [OF 1] Seq.IH(2) [OF 2] m show ?case
    by simp
next
  case (Cls k)
  then show ?case
    by (auto split: list.splits if_splits)
qed (auto split: if_splits)

lemma rmatch_noGroups:
  "noGroups r \<Longrightarrow> (m, s', c') \<in> set (rmatch i r prev s c) \<Longrightarrow> c' = c"
proof (induction r arbitrary: prev s c m s' c')
  case (Seq a b)
  from Seq.prems(2) obtain m1 s1 c1 m2 where 1: "(m1, s1, c1) \<in> set (rmatch i a prev s c)"
    and 2: "(m2, s', c') \<in> set (rmatch i b (prevAfter prev m1) s1 c1)"
    unfolding set_rmatch_Seq by blast
  from Seq.prems(1) have "noGroups a" and "noGroups b"
    by simp_all
  from Seq.IH(1) [OF \<open>noGroups a\<close> 1] Seq.IH(2) [OF \<open>noGroups b\<close> 2] show ?case
    by simp
next
  case (Cls k)
  then show ?case
    by (auto split: list.splits if_splits)
qed (auto split: if_splits)

lemma nonempty_result: "xs \<noteq> [] \<Longrightarrow> \<exists>m s' c'. (m, s', c') \<in> set xs"
  by (cases xs) auto

lemma prevAfter_append: "prevAfter (prevAfter p a) b = prevAfter p (a @ b)"
  by (simp add: prevAfter_def)

lemma space_not_word: "isSpace x \<Longrightarrow> \<not> isWordChar x"
  by (auto simp: isSpace_def isWordChar_def)

text \<open>A run of one or more spaces ends with a space.\<close>

lemma spaces_result:
  assumes "(m, s', c') \<in> set (rmatch i (Many CSpace 1 None) prev s c)"
  shows "m \<noteq> [] \<and> isSpace (last m) \<and> c' = c"
proof -
  from assms obtain j where j: "1 \<le> j" "j \<le> runLength CSpace s" and m: "m = take j s" and c: "c' = c"
    by (auto simp: mem_countDown)
  have l: "j \<le> length s"
    using j runLength_le [of CSpace s] by simp
  then have ne: "m \<noteq> []"
    using j m by auto
  have "length m = j"
    using l m by simp
  with ne have "last m = m ! (j - 1)"
    by (simp add: last_conv_nth)
  also have "\<dots> = s ! (j - 1)"
    using j m by simp
  finally have "last m = s ! (j - 1)" .
  moreover have "inCls CSpace (s ! (j - 1))"
    using j by (intro runLength_nth) simp
  ultimately show ?thesis
    using ne c by simp
qed

lemma first_letter:
  assumes "litPrefix True (p # ps) s" and "97 \<le> p" and "p \<le> 122"
  shows "isWordAt (nextChar s)"
proof (cases s)
  case Nil
  with assms show ?thesis
    by simp
next
  case (Cons x xs)
  with assms have "canonicalize p = canonicalize x"
    by (simp add: sameChar_def)
  with assms(3) have "x < 128 \<and> upperChar p = upperChar x"
    by (intro canonicalize_eq_ascii) simp_all
  with assms(2,3) have "isWordChar x"
    by (auto simp: upperChar_def isWordChar_def split: if_splits)
  with Cons show ?thesis
    by (simp add: isWordAt_def nextChar_def)
qed

lemma monthNames_letters:
  "monthNames = alts (filter (\<lambda>m. length m > 2) (map fst MONTHS))"
  "filter (\<lambda>m. length m > 2) (map fst MONTHS) \<noteq> []"
  "\<forall>w \<in> set (filter (\<lambda>m. length m > 2) (map fst MONTHS)). \<exists>p ps. w = p # ps \<and> 97 \<le> p \<and> p \<le> 122"
  by (simp_all add: monthNames_def MONTHS_def js_simps)

lemma monthDayYear_shape:
  "monthDayYear = Seq (Grp 1 monthNames) (seqs [Many CSpace 1 None, Grp 2 digits12, ordinalSuffix, optYear, Bnd])"
  by (simp add: monthDayYear_def)

lemma monthDayYear_letter:
  assumes "rmatch True monthDayYear prev s c \<noteq> []"
  shows "isWordAt (nextChar s)"
proof -
  from nonempty_result [OF assms]
  obtain m s' c' where "(m, s', c') \<in> set (rmatch True monthDayYear prev s c)"
    by blast
  then obtain m1 s1 c1 where "(m1, s1, c1) \<in> set (rmatch True (Grp 1 monthNames) prev s c)"
    unfolding monthDayYear_shape set_rmatch_Seq by blast
  then have "rmatch True monthNames prev s c \<noteq> []"
    by auto
  then obtain w where "w \<in> set (filter (\<lambda>m. length m > 2) (map fst MONTHS))" and "litPrefix True w s"
    unfolding monthNames_letters(1) rmatch_alts [OF monthNames_letters(2)] by blast
  moreover from this monthNames_letters(3) obtain p ps where "w = p # ps" "97 \<le> p" "p \<le> 122"
    by blast
  ultimately show ?thesis
    using first_letter [of p ps s] by simp
qed

lemma deadlineRe_shape:
  "deadlineRe = Seq Bnd (Seq deadlineAnchor (Seq (Many CSpace 1 None)
     (Seq (Opt (Seq (Lit (js ''on'')) (Many CSpace 1 None))) monthDayYear)))"
  "namedRe1 = Seq Bnd monthDayYear"
  "noGroups deadlineAnchor"
  by (simp_all add: deadlineRe_def namedRe1_def monthDayYear_def deadlineAnchor_def)

text \<open>Where the deadline pattern matches, the named pattern matches after the anchor.\<close>

lemma deadline_reaches_named:
  assumes "rmatch True deadlineRe prev s [] \<noteq> []"
  shows "\<exists>consumed rest. s = consumed @ rest \<and> consumed \<noteq> []
           \<and> rmatch True namedRe1 (Some (last consumed)) rest [] \<noteq> []"
proof -
  let ?on = "Seq (Lit (js ''on'')) (Many CSpace 1 None)"
  from nonempty_result [OF assms]
  obtain m s' c' where "(m, s', c') \<in> set (rmatch True deadlineRe prev s [])"
    by blast
  then obtain m0 s0 c0 m1 s1 c1 m2 s2 c2 m3 s3 c3 m4
    where b: "(m0, s0, c0) \<in> set (rmatch True Bnd prev s [])"
      and a: "(m1, s1, c1) \<in> set (rmatch True deadlineAnchor (prevAfter prev m0) s0 c0)"
      and sp: "(m2, s2, c2) \<in> set (rmatch True (Many CSpace 1 None) (prevAfter (prevAfter prev m0) m1) s1 c1)"
      and on: "(m3, s3, c3) \<in> set (rmatch True (Opt ?on) (prevAfter (prevAfter (prevAfter prev m0) m1) m2) s2 c2)"
      and t: "(m4, s', c') \<in> set (rmatch True monthDayYear
          (prevAfter (prevAfter (prevAfter (prevAfter prev m0) m1) m2) m3) s3 c3)"
    unfolding deadlineRe_shape(1) set_rmatch_Seq by blast
  from b have b': "m0 = []" "s0 = s" "c0 = []"
    by (auto split: if_splits)
  from a b' have c1: "c1 = []"
    using rmatch_noGroups [OF deadlineRe_shape(3)] by blast
  from spaces_result [OF sp] have m2: "m2 \<noteq> []" "isSpace (last m2)" and c2: "c2 = c1"
    by simp_all
  have m3: "(m3 = [] \<or> isSpace (last m3)) \<and> c3 = c2"
  proof -
    from on consider "(m3, s3, c3) \<in> set (rmatch True ?on
        (prevAfter (prevAfter (prevAfter prev m0) m1) m2) s2 c2)" | "m3 = []" "c3 = c2"
      by auto
    then show ?thesis
    proof cases
      case 1
      then obtain ma sa ca mb where
        "(mb, s3, c3) \<in> set (rmatch True (Many CSpace 1 None)
            (prevAfter (prevAfter (prevAfter (prevAfter prev m0) m1) m2) ma) sa ca)"
        and l: "(ma, sa, ca) \<in> set (rmatch True (Lit (js ''on''))
            (prevAfter (prevAfter (prevAfter prev m0) m1) m2) s2 c2)"
        and "m3 = ma @ mb"
        unfolding set_rmatch_Seq by blast
      moreover from l have "ca = c2"
        by (auto split: if_splits)
      ultimately show ?thesis
        using spaces_result by fastforce
    next
      case 2
      then show ?thesis
        by simp
    qed
  qed
  let ?consumed = "m1 @ m2 @ m3"
  have ne: "?consumed \<noteq> []"
    using m2 by simp
  have sp_last: "isSpace (last ?consumed)"
    using m2 m3 by (cases "m3 = []") simp_all
  have s: "s = ?consumed @ s3"
    using rmatch_consumes [OF a] rmatch_consumes [OF sp] rmatch_consumes [OF on] b' by simp
  have p: "prevAfter (prevAfter (prevAfter (prevAfter prev m0) m1) m2) m3 = Some (last ?consumed)"
    unfolding prevAfter_append using m2(1) b'(1) by (simp add: prevAfter_def)
  have c3: "c3 = []"
    using m3 c2 c1 by simp
  from t p c3 have tail: "rmatch True monthDayYear (Some (last ?consumed)) s3 [] \<noteq> []"
    by auto
  have "isWordAt (Some (last ?consumed)) \<noteq> isWordAt (nextChar s3)"
    using monthDayYear_letter [OF tail] space_not_word [OF sp_last] by (simp add: isWordAt_def)
  with tail have "rmatch True namedRe1 (Some (last ?consumed)) s3 [] \<noteq> []"
    unfolding deadlineRe_shape(2) rmatch_Seq_iff by (simp add: prevAfter_Nil)
  with s ne show ?thesis
    by blast
qed

lemma deadline_implies_named:
  assumes "extractDeadline tz tx ref \<noteq> None"
  shows "extractNamed tz tx ref \<noteq> None"
proof -
  from assms have "rsearch True deadlineRe None tx \<noteq> None"
    by (auto simp: extractDeadline_def rxMatch_def split: option.splits)
  then obtain pre post where tx: "tx = pre @ post"
    and d: "rmatch True deadlineRe (prevAfter None pre) post [] \<noteq> []"
    unfolding rsearch_iff by blast
  from deadline_reaches_named [OF d] obtain consumed rest where post: "post = consumed @ rest"
    and ne: "consumed \<noteq> []" and n: "rmatch True namedRe1 (Some (last consumed)) rest [] \<noteq> []"
    by blast
  have "prevAfter None (pre @ consumed) = Some (last consumed)"
    using ne by (simp add: prevAfter_def)
  with n tx post have "\<exists>pre' post'. tx = pre' @ post' \<and> rmatch True namedRe1 (prevAfter None pre') post' [] \<noteq> []"
    by (intro exI [of _ "pre @ consumed"] exI [of _ rest]) simp
  then have "rsearch True namedRe1 None tx \<noteq> None"
    unfolding rsearch_iff .
  then show ?thesis
    by (auto simp: extractNamed_def rxMatch_def Let_def split: option.splits)
qed

lemma layer_types:
  "extractISO tz tx ref = Some r \<Longrightarrow> type r \<noteq> KDeadline"
  "extractNamed tz tx ref = Some r \<Longrightarrow> type r \<noteq> KDeadline"
  "extractRange tz tx ref = Some r \<Longrightarrow> type r \<noteq> KDeadline"
  "extractRelative tz tx ref = Some r \<Longrightarrow> type r \<noteq> KDeadline"
  by (auto simp: extractISO_def extractNamed_def extractRange_def extractRelative_def Let_def
      split: option.splits if_splits)

lemma extractDate_never_deadline:
  assumes "extractDate tz now tx published = Some r"
  shows "type r \<noteq> KDeadline"
proof -
  from assms obtain ref where
    r: "orElse (extractISO tz tx ref) (orElse (extractNamed tz tx ref) (orElse (extractRange tz tx ref)
          (orElse (extractRelative tz tx ref) (extractDeadline tz tx ref)))) = Some r"
    by (auto simp: extractDate_def split: if_splits option.splits jsdate.splits)
  show ?thesis
  proof (cases "extractNamed tz tx ref")
    case None
    have "extractDeadline tz tx ref = None"
    proof (rule ccontr)
      assume "extractDeadline tz tx ref \<noteq> None"
      then have "extractNamed tz tx ref \<noteq> None"
        by (rule deadline_implies_named)
      with None show False
        by simp
    qed
    with r None layer_types [of tz tx ref r] show ?thesis
      by (auto simp: orElse_def split: option.splits)
  next
    case (Some n)
    with r layer_types [of tz tx ref r] show ?thesis
      by (auto simp: orElse_def split: option.splits)
  qed
qed

lemmas deadline_rx = deadlineAnchor_def deadlineRe_def

lemma deadline_iso: "extractISO tz (js ''ends Feb 12'') ref = None"
  by (simp add: extractISO_def rx_eval date_rx Let_def cong: map_weak_cong let_weak_cong)

lemma deadline_named:
  "extractNamed tz (js ''ends Feb 12'') ref =
     Some \<lparr>start = inferYear tz 1 12 ref, end = None, type = KNamed\<rparr>"
  by (simp add: extractNamed_def rx_eval date_rx dateWithYear_def monthNum_def nullAsZero_def Let_def
      cong: map_weak_cong let_weak_cong)

lemma deadline_deadline:
  "extractDeadline tz (js ''ends Feb 12'') ref =
     Some \<lparr>start = ref, end = Some (inferYear tz 1 12 ref), type = KDeadline\<rparr>"
  by (simp add: extractDeadline_def rx_eval date_rx deadline_rx dateWithYear_def monthNum_def nullAsZero_def
      Let_def cong: map_weak_cong let_weak_cong)

text \<open>
  C2, what the code does. Wherever the deadline pattern matches, the named pattern
  matches the date after the anchor, and the named layer is tried first: no result of
  \<open>extractDate\<close> has the kind deadline. With the reference date 2026-01-10, the text
  "ends Feb 12" has the anchor "ends" before a named date, and the deadline layer alone
  gives the reference date as start and 12 February 2026 as end; \<open>extractDate\<close> returns
  the named date 12 February 2026 as start, without an end.
\<close>

theorem C2_deadline_shadowed_by_named:
  "(extractDate tz now tx published = Some r \<longrightarrow> type r \<noteq> KDeadline)
   \<and> extractDeadline 0 (js ''ends Feb 12'') (newDate 0 2026 0 10)
     = Some \<lparr>start = newDate 0 2026 0 10, end = Some (newDate 0 2026 1 12), type = KDeadline\<rparr>
   \<and> extractDate 0 0 (js ''ends Feb 12'') (Some (Date (newDate 0 2026 0 10)))
     = Some \<lparr>start = newDate 0 2026 1 12, end = None, type = KNamed\<rparr>"
  using extractDate_never_deadline [of tz now tx published r]
  by (simp add: extractDate_def orElse_def js_not_empty feb_2026
      deadline_iso deadline_named deadline_deadline)

theorem C2_deadline_shadowed_by_named_witness:
  "extractDate 0 0 (js ''ends Feb 12'') (Some (Date (newDate 0 2026 0 10)))
     = Some \<lparr>start = newDate 0 2026 1 12, end = None, type = KNamed\<rparr>
   \<and> type \<lparr>start = newDate 0 2026 1 12, end = None, type = KNamed\<rparr> \<noteq> KDeadline"
  using C2_deadline_shadowed_by_named [of 0 0 "js ''ends Feb 12''" "Some (Date (newDate 0 2026 0 10))"
      "\<lparr>start = newDate 0 2026 1 12, end = None, type = KNamed\<rparr>"]
  by simp

section \<open>Deduplication in the planner store\<close>

lemma similarity_jaccard: "similarity a b = jaccard a b"
proof -
  let ?A = "set (splitWhitespace (toLowerCase a))"
  let ?B = "set (splitWhitespace (toLowerCase b))"
  have i: "length (filter (\<lambda>w. w \<in> set (wordSet b)) (wordSet a)) = card (?A \<inter> ?B)"
    by (simp add: wordSet_def distinct_length_filter Int_commute)
  have la: "length (wordSet a) = card ?A" and lb: "length (wordSet b) = card ?B"
    by (simp_all add: wordSet_def length_remdups_card_conv)
  have "card ?A + card ?B = card (?A \<union> ?B) + card (?A \<inter> ?B)"
    by (rule card_Un_Int) simp_all
  then have u: "card ?A + card ?B - card (?A \<inter> ?B) = card (?A \<union> ?B)"
    by simp
  show ?thesis
    unfolding similarity_def jaccard_def Let_def i la lb u ..
qed

lemma isDuplicate_iff:
  "isDuplicate existing newItem \<longleftrightarrow>
     (\<exists>item \<in> set existing. pId item = pId newItem \<or>
        (pTitle item \<noteq> [] \<and> pTitle newItem \<noteq> [] \<and> jaccard (pTitle item) (pTitle newItem) > 7 / 10))"
  by (simp add: isDuplicate_def list_ex_iff similarity_jaccard)

lemma concert_words:
  "wordSet (js ''City Concert This Weekend'') = map js [''city'', ''concert'', ''this'', ''weekend'']"
  "wordSet (js ''City Concert this Weekend!!'') = map js [''city'', ''concert'', ''this'', ''weekend!!'']"
  by (simp_all add: wordSet_def splitWhitespace_def toLowerCase_ascii lowerChar_def isSpace_def js_simps)

lemma concert_similarity:
  "similarity (js ''City Concert This Weekend'') (js ''City Concert this Weekend!!'') = 3 / 5"
  unfolding similarity_def Let_def concert_words by (simp add: js_simps)

lemma stored_fields [simp]:
  "pId (stored item now) = pId item" "pTitle (stored item now) = pTitle item"
  by (simp_all add: stored_def)

lemma concertC_words:
  "wordSet (js ''CITY  CONCERT  this weekend'') = map js [''city'', ''concert'', ''this'', ''weekend'']"
  by (simp add: wordSet_def splitWhitespace_def toLowerCase_ascii lowerChar_def isSpace_def js_simps)

lemma concert_similarity_one:
  "similarity (js ''City Concert This Weekend'') (js ''CITY  CONCERT  this weekend'') = 1"
  unfolding similarity_def Let_def concert_words concertC_words by (simp add: js_simps)

lemma objGet_objSet: "objGet (objSet data k v) k = Some v"
  by (induction data k v rule: objSet.induct) (simp_all add: objGet_def)

lemma merge_one:
  "objGet (load (merge tz now ls [key] [newItem])) key
     = (if quotaExceeded ls then objGet (load ls) key
        else Some (let day = (case objGet (prune tz now (load ls)) key of None \<Rightarrow> [] | Some xs \<Rightarrow> xs)
                   in if isDuplicate day newItem then day else day @ [stored newItem now]))"
  by (simp add: merge_def save_def load_def Let_def objGet_objSet del: objSet.simps)

lemma merge_two:
  "merge tz now \<lparr>content = None, quotaExceeded = False\<rparr> [key] [a, b]
     = \<lparr>content = Some [(key,
          if pId a = pId b \<or> (pTitle a \<noteq> [] \<and> pTitle b \<noteq> [] \<and> jaccard (pTitle a) (pTitle b) > 7 / 10)
          then [stored a now] else [stored a now, stored b now])],
        quotaExceeded = False\<rparr>"
proof -
  have d: "isDuplicate [stored a now] b
      \<longleftrightarrow> pId a = pId b \<or> (pTitle a \<noteq> [] \<and> pTitle b \<noteq> [] \<and> jaccard (pTitle a) (pTitle b) > 7 / 10)"
    by (simp add: isDuplicate_iff)
  have e: "\<not> isDuplicate [] a"
    by (simp add: isDuplicate_def)
  show ?thesis
    by (simp add: merge_def load_def prune_def save_def objGet_def d e)
qed

lemma isDuplicate_append: "isDuplicate xs newItem \<Longrightarrow> isDuplicate (xs @ ys) newItem"
  by (auto simp: isDuplicate_def list_ex_iff)

lemma mergeItems_prefix: "\<exists>added. mergeItems now existing newItems = existing @ added"
proof (induction newItems arbitrary: existing)
  case Nil
  show ?case
    by simp
next
  case (Cons item newItems)
  show ?case
  proof (cases "isDuplicate existing item")
    case True
    with Cons [of existing] show ?thesis
      by simp
  next
    case False
    from Cons [of "existing @ [stored item now]"] obtain added
      where "mergeItems now (existing @ [stored item now]) newItems = (existing @ [stored item now]) @ added"
      by blast
    with False show ?thesis
      by simp
  qed
qed

lemma mergeItems_represented:
  "item \<in> set newItems \<Longrightarrow> isDuplicate (mergeItems now existing newItems) item"
proof (induction newItems arbitrary: existing)
  case Nil
  then show ?case
    by simp
next
  case (Cons x newItems)
  let ?next = "if \<not> isDuplicate existing x then existing @ [stored x now] else existing"
  show ?case
  proof (cases "item = x")
    case True
    have "isDuplicate ?next x"
      by (auto simp: isDuplicate_def)
    moreover obtain added where "mergeItems now ?next newItems = ?next @ added"
      using mergeItems_prefix by blast
    ultimately have "isDuplicate (mergeItems now ?next newItems) x"
      using isDuplicate_append by simp
    with True show ?thesis
      by simp
  next
    case False
    with Cons.prems have "item \<in> set newItems"
      by simp
    from Cons.IH [OF this, of ?next] show ?thesis
      by simp
  qed
qed

lemma merge_day:
  assumes "\<not> quotaExceeded ls"
  shows "objGet (load (merge tz now ls [key] newItems)) key
     = Some (mergeItems now (case objGet (prune tz now (load ls)) key of None \<Rightarrow> [] | Some xs \<Rightarrow> xs) newItems)"
  using assms by (simp add: merge_def save_def load_def Let_def objGet_objSet del: objSet.simps)

lemma merge_all:
  assumes "\<not> quotaExceeded ls"
  shows "\<exists>added. objGet (load (merge tz now ls [key] newItems)) key
       = Some ((case objGet (prune tz now (load ls)) key of None \<Rightarrow> [] | Some xs \<Rightarrow> xs) @ added)
     \<and> (\<forall>item \<in> set newItems.
          isDuplicate ((case objGet (prune tz now (load ls)) key of None \<Rightarrow> [] | Some xs \<Rightarrow> xs) @ added) item)"
proof -
  let ?day = "case objGet (prune tz now (load ls)) key of None \<Rightarrow> [] | Some xs \<Rightarrow> xs"
  obtain added where a: "mergeItems now ?day newItems = ?day @ added"
    using mergeItems_prefix by blast
  have "\<forall>item \<in> set newItems. isDuplicate (?day @ added) item"
    using mergeItems_represented [of _ newItems now ?day] a by simp
  with merge_day [OF assms, of tz now key newItems] a show ?thesis
    by auto
qed

text \<open>
  C6, as amended. A new item is a duplicate exactly when a stored item of the day has its id,
  or both titles are non-empty and their word-set Jaccard similarity is strictly above 7/10.
  When the write succeeds, merging one item into a day of a store appends it to the records
  of the day, after pruning, unless it is a duplicate of one of them, and merging a batch of
  items keeps the records of the day and leaves every item of the batch with a duplicate
  among the records; when the write fails, the store is left as it was. Merging
  two items into a day of an empty store leaves one record when they have the same id or
  titles of similarity above 7/10, and two records otherwise. The titles "City Concert This
  Weekend" and "City Concert this Weekend!!" have the similarity 3/5, since "weekend" and
  "weekend!!" are different words; the titles "City Concert This Weekend" and
  "CITY  CONCERT  this weekend" have the similarity 1.
\<close>

theorem C6_merge_dedup:
  "(isDuplicate existing newItem \<longleftrightarrow>
     (\<exists>item \<in> set existing. pId item = pId newItem \<or>
        (pTitle item \<noteq> [] \<and> pTitle newItem \<noteq> [] \<and> jaccard (pTitle item) (pTitle newItem) > 7 / 10)))
   \<and> objGet (load (merge tz now ls [key] [newItem])) key
       = (if quotaExceeded ls then objGet (load ls) key
          else Some (let day = (case objGet (prune tz now (load ls)) key of None \<Rightarrow> [] | Some xs \<Rightarrow> xs)
                     in if isDuplicate day newItem then day else day @ [stored newItem now]))
   \<and> (\<not> quotaExceeded ls \<longrightarrow>
        (\<exists>added. objGet (load (merge tz now ls [key] newItems)) key
            = Some ((case objGet (prune tz now (load ls)) key of None \<Rightarrow> [] | Some xs \<Rightarrow> xs) @ added)
          \<and> (\<forall>item \<in> set newItems.
               isDuplicate ((case objGet (prune tz now (load ls)) key of None \<Rightarrow> [] | Some xs \<Rightarrow> xs) @ added) item)))
   \<and> merge tz now \<lparr>content = None, quotaExceeded = False\<rparr> [key] [a, b]
       = \<lparr>content = Some [(key,
            if pId a = pId b \<or> (pTitle a \<noteq> [] \<and> pTitle b \<noteq> [] \<and> jaccard (pTitle a) (pTitle b) > 7 / 10)
            then [stored a now] else [stored a now, stored b now])],
          quotaExceeded = False\<rparr>
   \<and> jaccard (js ''City Concert This Weekend'') (js ''City Concert this Weekend!!'') = 3 / 5
   \<and> jaccard (js ''City Concert This Weekend'') (js ''CITY  CONCERT  this weekend'') = 1"
proof -
  have s: "jaccard (js ''City Concert This Weekend'') (js ''City Concert this Weekend!!'') = 3 / 5"
    "jaccard (js ''City Concert This Weekend'') (js ''CITY  CONCERT  this weekend'') = 1"
    using concert_similarity concert_similarity_one by (simp_all only: similarity_jaccard)
  have m: "\<not> quotaExceeded ls \<longrightarrow>
        (\<exists>added. objGet (load (merge tz now ls [key] newItems)) key
            = Some ((case objGet (prune tz now (load ls)) key of None \<Rightarrow> [] | Some xs \<Rightarrow> xs) @ added)
          \<and> (\<forall>item \<in> set newItems.
               isDuplicate ((case objGet (prune tz now (load ls)) key of None \<Rightarrow> [] | Some xs \<Rightarrow> xs) @ added) item))"
    using merge_all by blast
  from isDuplicate_iff [of existing newItem] merge_one [of tz now ls key newItem] m
    merge_two [of tz now key a b] s
  show ?thesis
    by (intro conjI)
qed

theorem C6_merge_dedup_witness:
  "\<not> quotaExceeded \<lparr>content = None, quotaExceeded = False\<rparr>
   \<and> (\<exists>added. objGet (load (merge 0 0 \<lparr>content = None, quotaExceeded = False\<rparr> [js ''2026-01-12'']
                 [concertA, concertC])) (js ''2026-01-12'') = Some added
          \<and> isDuplicate added concertA \<and> isDuplicate added concertC)
   \<and> pId concertA \<noteq> pId concertC
   \<and> jaccard (pTitle concertA) (pTitle concertC) = 1
   \<and> isDuplicate [stored concertA 0] concertC
   \<and> merge 0 0 \<lparr>content = None, quotaExceeded = False\<rparr> [js ''2026-01-12''] [concertA, concertC]
       = \<lparr>content = Some [(js ''2026-01-12'', [stored concertA 0])], quotaExceeded = False\<rparr>
   \<and> pId concertA \<noteq> pId concertB
   \<and> jaccard (pTitle concertA) (pTitle concertB) = 3 / 5
   \<and> \<not> isDuplicate [stored concertA 0] concertB
   \<and> merge 0 0 \<lparr>content = None, quotaExceeded = False\<rparr> [js ''2026-01-12''] [concertA, concertB]
       = \<lparr>content = Some [(js ''2026-01-12'', [stored concertA 0, stored concertB 0])], quotaExceeded = False\<rparr>"
proof -
  have ids: "pId concertA \<noteq> pId concertC" "pId concertA \<noteq> pId concertB"
    by (simp_all add: concertA_def concertB_def concertC_def js_simps)
  have titles: "pTitle concertA = js ''City Concert This Weekend''"
    "pTitle concertB = js ''City Concert this Weekend!!''"
    "pTitle concertC = js ''CITY  CONCERT  this weekend''"
    by (simp_all add: concertA_def concertB_def concertC_def)
  note c = C6_merge_dedup [where existing = "[stored concertA 0]" and newItem = concertC and tz = 0
      and now = 0 and ls = "\<lparr>content = None, quotaExceeded = False\<rparr>" and key = "js ''2026-01-12''"
      and newItems = "[concertA, concertC]" and a = concertA and b = concertC]
  note b = C6_merge_dedup [where existing = "[stored concertA 0]" and newItem = concertB and tz = 0
      and now = 0 and key = "js ''2026-01-12''" and a = concertA and b = concertB]
  have q: "\<not> quotaExceeded \<lparr>content = None, quotaExceeded = False\<rparr>"
    by simp
  from c have j1: "jaccard (js ''City Concert This Weekend'') (js ''CITY  CONCERT  this weekend'') = 1"
    by blast
  from c have j2: "jaccard (js ''City Concert This Weekend'') (js ''City Concert this Weekend!!'') = 3 / 5"
    by blast
  from c q have "\<exists>added. objGet (load (merge 0 0 \<lparr>content = None, quotaExceeded = False\<rparr> [js ''2026-01-12'']
        [concertA, concertC])) (js ''2026-01-12'')
          = Some ((case objGet (prune 0 0 (load \<lparr>content = None, quotaExceeded = False\<rparr>)) (js ''2026-01-12'')
               of None \<Rightarrow> [] | Some xs \<Rightarrow> xs) @ added)
      \<and> (\<forall>item \<in> set [concertA, concertC].
           isDuplicate ((case objGet (prune 0 0 (load \<lparr>content = None, quotaExceeded = False\<rparr>)) (js ''2026-01-12'')
               of None \<Rightarrow> [] | Some xs \<Rightarrow> xs) @ added) item)"
    by blast
  then have 1: "\<exists>added. objGet (load (merge 0 0 \<lparr>content = None, quotaExceeded = False\<rparr> [js ''2026-01-12'']
        [concertA, concertC])) (js ''2026-01-12'') = Some added
      \<and> isDuplicate added concertA \<and> isDuplicate added concertC"
    by (simp add: load_def prune_def objGet_def)
  from c have "isDuplicate [stored concertA 0] concertC \<longleftrightarrow>
      (\<exists>item \<in> set [stored concertA 0]. pId item = pId concertC \<or>
        (pTitle item \<noteq> [] \<and> pTitle concertC \<noteq> [] \<and> jaccard (pTitle item) (pTitle concertC) > 7 / 10))"
    by blast
  then have 2: "isDuplicate [stored concertA 0] concertC"
    by (simp add: titles j1 js_not_empty)
  from c have "merge 0 0 \<lparr>content = None, quotaExceeded = False\<rparr> [js ''2026-01-12''] [concertA, concertC]
       = \<lparr>content = Some [(js ''2026-01-12'',
            if pId concertA = pId concertC \<or> (pTitle concertA \<noteq> [] \<and> pTitle concertC \<noteq> []
                \<and> jaccard (pTitle concertA) (pTitle concertC) > 7 / 10)
            then [stored concertA 0] else [stored concertA 0, stored concertC 0])],
          quotaExceeded = False\<rparr>"
    by blast
  then have 3: "merge 0 0 \<lparr>content = None, quotaExceeded = False\<rparr> [js ''2026-01-12''] [concertA, concertC]
       = \<lparr>content = Some [(js ''2026-01-12'', [stored concertA 0])], quotaExceeded = False\<rparr>"
    by (simp add: titles j1 js_not_empty)
  from b have "isDuplicate [stored concertA 0] concertB \<longleftrightarrow>
      (\<exists>item \<in> set [stored concertA 0]. pId item = pId concertB \<or>
        (pTitle item \<noteq> [] \<and> pTitle concertB \<noteq> [] \<and> jaccard (pTitle item) (pTitle concertB) > 7 / 10))"
    by blast
  then have 4: "\<not> isDuplicate [stored concertA 0] concertB"
    using ids by (simp add: titles j2)
  from b have "merge 0 0 \<lparr>content = None, quotaExceeded = False\<rparr> [js ''2026-01-12''] [concertA, concertB]
       = \<lparr>content = Some [(js ''2026-01-12'',
            if pId concertA = pId concertB \<or> (pTitle concertA \<noteq> [] \<and> pTitle concertB \<noteq> []
                \<and> jaccard (pTitle concertA) (pTitle concertB) > 7 / 10)
            then [stored concertA 0] else [stored concertA 0, stored concertB 0])],
          quotaExceeded = False\<rparr>"
    by blast
  then have 5: "merge 0 0 \<lparr>content = None, quotaExceeded = False\<rparr> [js ''2026-01-12''] [concertA, concertB]
       = \<lparr>content = Some [(js ''2026-01-12'', [stored concertA 0, stored concertB 0])], quotaExceeded = False\<rparr>"
    using ids by (simp add: titles j2)
  from q 1 ids 2 3 4 5 j1 j2 show ?thesis
    by (simp only: titles simp_thms)
qed

text \<open>
  C6 as stated fails: the two titles merged into the same day of an empty store, under
  different ids, give two stored records.
\<close>

theorem C6_two_records_counterexample:
  "merge 0 0 \<lparr>content = None, quotaExceeded = False\<rparr> [js ''2026-01-12''] [concertA, concertB]
     = \<lparr>content = Some [(js ''2026-01-12'', [stored concertA 0, stored concertB 0])], quotaExceeded = False\<rparr>
   \<and> length [stored concertA 0, stored concertB 0] = 2"
proof -
  have ids: "js ''a'' \<noteq> js ''b''"
    by (simp add: js_simps)
  have d: "\<not> isDuplicate [stored concertA 0] concertB"
    by (simp add: isDuplicate_def concertA_def concertB_def concert_similarity ids)
  have e: "\<not> isDuplicate [] concertA"
    by (simp add: isDuplicate_def)
  show ?thesis
    by (simp add: merge_def load_def prune_def save_def objGet_def d e)
qed
section \<open>Pruning of the planner store\<close>

lemma objKeys_objSet: "set (objKeys (objSet data k v)) = insert k (set (objKeys data))"
  by (induction data k v rule: objSet.induct) (auto simp: objKeys_def)

lemma objKeys_mergeKeys:
  "set (objKeys (mergeKeys now data keys its)) = set (objKeys data) \<union> set keys"
  by (induction keys arbitrary: data) (auto simp: objKeys_objSet Let_def)

lemma objKeys_prune:
  "k \<in> set (objKeys (prune tz now data)) \<Longrightarrow> \<not> strLess k (cutoffKey tz now)"
  by (auto simp: objKeys_def prune_def)

text \<open>
  C8, as amended. \<open>getAll\<close> returns and, when the write succeeds, stores data in which
  no day key is below the cutoff key, the first ten characters of the ISO string of the
  instant seven local days before now; \<open>getUpcomingDays\<close> reads through \<open>getAll\<close>. After \<open>merge\<close>, when the write succeeds, every
  stored day key is not below the cutoff key or is one of the day keys just merged.
  \<open>getDay\<close> reads without pruning and leaves the store as it is.
\<close>

theorem C8_prune_on_getAll_and_merge:
  "(\<forall>k \<in> set (objKeys (fst (getAll tz now ls))). \<not> strLess k (cutoffKey tz now))
   \<and> (\<not> quotaExceeded ls \<longrightarrow> load (snd (getAll tz now ls)) = fst (getAll tz now ls))
   \<and> (\<not> quotaExceeded ls \<longrightarrow>
        (\<forall>k \<in> set (objKeys (load (merge tz now ls dateKeys its))).
           \<not> strLess k (cutoffKey tz now) \<or> k \<in> set dateKeys))
   \<and> snd (getUpcomingDays tz now ls n) = snd (getAll tz now ls)
   \<and> snd (getDay_store ls dateKey) = ls"
proof -
  have "\<not> strLess k (cutoffKey tz now) \<or> k \<in> set dateKeys"
    if "\<not> quotaExceeded ls" "k \<in> set (objKeys (load (merge tz now ls dateKeys its)))" for k
  proof -
    from that have "k \<in> set (objKeys (prune tz now (load ls))) \<union> set dateKeys"
      by (simp add: merge_def save_def load_def objKeys_mergeKeys)
    then show ?thesis
      using objKeys_prune by blast
  qed
  moreover have "\<forall>k \<in> set (objKeys (fst (getAll tz now ls))). \<not> strLess k (cutoffKey tz now)"
    by (auto simp: getAll_def Let_def dest: objKeys_prune)
  moreover have "\<not> quotaExceeded ls \<longrightarrow> load (snd (getAll tz now ls)) = fst (getAll tz now ls)"
    by (simp add: getAll_def Let_def save_def load_def)
  moreover have "snd (getUpcomingDays tz now ls n) = snd (getAll tz now ls)"
    by (simp add: getUpcomingDays_def split: prod.splits)
  moreover have "snd (getDay_store ls dateKey) = ls"
    by (simp add: getDay_store_def)
  ultimately show ?thesis
    by blast
qed

lemma cutoff_2026_01_10: "cutoffKey 0 now_2026_01_10 = js ''2026-01-03''"
  by (simp add: cutoffKey_def now_2026_01_10_def PRUNE_DAYS_PAST_def newDate_def makeDay_eval
      mkLocal_def setDate_def getDate_def localDays_def timeInDay_def iso_eval js_simps)

lemma old_key_below_cutoff: "strLess (js ''2000-01-01'') (js ''2026-01-03'')"
  by (simp add: js_simps)

lemma recent_key_not_below_cutoff: "\<not> strLess (js ''2026-01-09'') (js ''2026-01-03'')"
  by (simp add: js_simps)

lemma getAll_oldStore:
  "fst (getAll 0 now_2026_01_10 oldStore) = [(js ''2026-01-09'', [stored concertB 0])]"
  by (simp add: getAll_def Let_def prune_def load_def oldStore_def cutoff_2026_01_10
      old_key_below_cutoff recent_key_not_below_cutoff)

theorem C8_prune_on_getAll_and_merge_witness:
  "\<not> quotaExceeded oldStore
   \<and> js ''2026-01-09'' \<in> set (objKeys (fst (getAll 0 now_2026_01_10 oldStore)))
   \<and> \<not> strLess (js ''2026-01-09'') (cutoffKey 0 now_2026_01_10)
   \<and> load (snd (getAll 0 now_2026_01_10 oldStore)) = [(js ''2026-01-09'', [stored concertB 0])]
   \<and> snd (getDay_store oldStore (js ''2026-01-09'')) = oldStore"
proof -
  have q: "\<not> quotaExceeded oldStore"
    by (simp add: oldStore_def)
  have k: "js ''2026-01-09'' \<in> set (objKeys (fst (getAll 0 now_2026_01_10 oldStore)))"
    by (simp add: getAll_oldStore objKeys_def)
  from C8_prune_on_getAll_and_merge [of 0 now_2026_01_10 oldStore "[]" "[]" 14 "js ''2026-01-09''"] q k
  show ?thesis
    by (auto simp: getAll_oldStore)
qed

text \<open>
  C8 as stated fails. On 2026-01-10 the cutoff key is 2026-01-03. \<open>getDay\<close> leaves the
  entry of 2000-01-01 in the store, and a \<open>merge\<close> under the day key 2000-01-01 stores
  an entry under that key.
\<close>

theorem C8_old_entry_remains_counterexample:
  "cutoffKey 0 now_2026_01_10 = js ''2026-01-03''
   \<and> strLess (js ''2000-01-01'') (js ''2026-01-03'')
   \<and> fst (getDay_store oldStore (js ''2026-01-09'')) = [stored concertB 0]
   \<and> objKeys (load (snd (getDay_store oldStore (js ''2026-01-09'')))) = [js ''2000-01-01'', js ''2026-01-09'']
   \<and> objKeys (load (merge 0 now_2026_01_10 \<lparr>content = None, quotaExceeded = False\<rparr> [js ''2000-01-01''] [concertA]))
       = [js ''2000-01-01'']"
proof -
  have ne: "js ''2000-01-01'' \<noteq> js ''2026-01-09''"
    by (simp add: js_simps)
  have "fst (getDay_store oldStore (js ''2026-01-09'')) = [stored concertB 0]"
    using ne by (simp add: getDay_store_def load_def oldStore_def objGet_def)
  moreover have "objKeys (load (snd (getDay_store oldStore (js ''2026-01-09'')))) = [js ''2000-01-01'', js ''2026-01-09'']"
    by (simp add: getDay_store_def load_def oldStore_def objKeys_def)
  moreover have "objKeys (load (merge 0 now_2026_01_10 \<lparr>content = None, quotaExceeded = False\<rparr> [js ''2000-01-01''] [concertA]))
       = [js ''2000-01-01'']"
    by (simp add: merge_def load_def prune_def save_def objGet_def objKeys_def)
  ultimately show ?thesis
    using cutoff_2026_01_10 old_key_below_cutoff by simp
qed

section \<open>The pattern cache is transparent\<close>

lemma cacheOk_Nil: "cacheOk []"
  by (simp add: cacheOk_def)

lemma matchesWord_cacheOk:
  assumes "cacheOk cache"
  shows "fst (matchesWord cache tx w) = rxTest True (wordBoundaryRe w) tx"
    and "cacheOk (snd (matchesWord cache tx w))"
proof -
  have "re = wordBoundaryRe w" if "map_of cache w = Some re" for re
    using assms map_of_SomeD [OF that] by (auto simp: cacheOk_def)
  then show "fst (matchesWord cache tx w) = rxTest True (wordBoundaryRe w) tx"
    by (auto simp: matchesWord_def Let_def split: option.splits)
  show "cacheOk (snd (matchesWord cache tx w))"
    using assms by (auto simp: matchesWord_def Let_def cacheOk_def split: option.splits)
qed

lemma matchesKeyword_cacheOk:
  assumes "cacheOk cache"
  shows "fst (matchesKeyword cache tx w) = keywordMatches tx w"
    and "cacheOk (snd (matchesKeyword cache tx w))"
  using assms by (simp_all add: matchesKeyword_def keywordMatches_def matchesWord_cacheOk)

lemma someKeyword_cacheOk:
  "cacheOk cache \<Longrightarrow>
     fst (someKeyword cache tx ws) = anyKeyword tx ws \<and> cacheOk (snd (someKeyword cache tx ws))"
proof (induction ws arbitrary: cache)
  case Nil
  then show ?case
    by (simp add: anyKeyword_def)
next
  case (Cons w ws)
  obtain b c where m: "matchesKeyword cache tx (toLowerCase w) = (b, c)"
    by (cases "matchesKeyword cache tx (toLowerCase w)")
  from matchesKeyword_cacheOk [OF Cons.prems, of tx "toLowerCase w"] m
  have b: "b = keywordMatches tx (toLowerCase w)" and c: "cacheOk c"
    by simp_all
  show ?case
  proof (cases b)
    case True
    with m b c show ?thesis
      by (simp add: anyKeyword_def)
  next
    case False
    with m b Cons.IH [OF c] show ?thesis
      by (simp add: anyKeyword_def)
  qed
qed

lemma negativeDrop_cacheOk:
  assumes "cacheOk cache"
  shows "fst (negativeDrop cache st fullText) = negativeHit st fullText"
    and "cacheOk (snd (negativeDrop cache st fullText))"
  using assms someKeyword_cacheOk [OF assms, of fullText "mergedNegatives st"]
  by (simp_all add: negativeDrop_def negativeHit_def)

lemma positiveDrop_cacheOk:
  assumes "cacheOk cache"
  shows "fst (positiveDrop cache st c fullText (forwardScoreOf fullText)) = positiveMiss st c fullText"
    and "cacheOk (snd (positiveDrop cache st c fullText (forwardScoreOf fullText)))"
  using assms someKeyword_cacheOk [OF assms, of fullText "mergedPositives st c"]
  by (auto simp: positiveDrop_def positiveMiss_def Let_def split: prod.splits)

lemma fullTextOf_score [simp]: "fullTextOf (it\<lparr>forwardScore := x\<rparr>) = fullTextOf it"
  by (simp add: fullTextOf_def)

lemma isFresh_score [simp]: "isFresh now st (it\<lparr>forwardScore := x\<rparr>) = isFresh now st it"
  by (simp add: isFresh_def split: option.splits jsdate.splits)

lemma sectionReturn_score [simp]: "sectionReturn today (it\<lparr>forwardScore := x\<rparr>) = sectionReturn today it"
  by (simp add: sectionReturn_def split: option.splits)

lemma pushSection_score [simp]: "pushSection tz (it\<lparr>forwardScore := x\<rparr>) s = pushSection tz it s"
  by (simp add: pushSection_def displayItemOf_def)

lemma passesGates_score [simp]: "passesGates now st (it\<lparr>forwardScore := x\<rparr>) = passesGates now st it"
  by (simp add: passesGates_def)

lemma processItem_cacheOk:
  assumes "cacheOk cache"
  shows "\<exists>cache'. cacheOk cache' \<and>
           processItem tz now st (cache, s) it = ((cache', stepState tz now st s it), stepItem now st s it)"
proof -
  let ?ft = "fullTextOf it"
  obtain n c1 where n: "negativeDrop cache st ?ft = (n, c1)"
    by (cases "negativeDrop cache st ?ft")
  from negativeDrop_cacheOk [OF assms, of st ?ft] n
  have n': "n = negativeHit st ?ft" and c1: "cacheOk c1"
    by simp_all
  obtain p c2 where p: "positiveDrop c1 st (category it) ?ft (forwardScoreOf ?ft) = (p, c2)"
    by (cases "positiveDrop c1 st (category it) ?ft (forwardScoreOf ?ft)")
  from positiveDrop_cacheOk [OF c1, of st "category it" ?ft] p
  have p': "p = positiveMiss st (category it) ?ft" and c2: "cacheOk c2"
    by simp_all
  show ?thesis
    using assms c1 c2 n p n' p'
    by (auto simp: processItem_def stepState_def stepItem_def passesGates_def Let_def)
qed

section \<open>A second run over the same batch\<close>

lemma processItems_cacheOk:
  "cacheOk cache \<Longrightarrow>
     \<exists>cache'. cacheOk cache' \<and>
       processItems tz now st (cache, s) its
         = ((cache', foldl (stepState tz now st) s its), stepItems tz now st s its)"
proof (induction its arbitrary: cache s)
  case Nil
  then show ?case
    by simp
next
  case (Cons it its)
  from processItem_cacheOk [OF Cons.prems, of tz now st s it]
  obtain c1 where c1: "cacheOk c1"
    and p: "processItem tz now st (cache, s) it = ((c1, stepState tz now st s it), stepItem now st s it)"
    by blast
  from Cons.IH [OF c1, of "stepState tz now st s it"]
  obtain c2 where c2: "cacheOk c2"
    and q: "processItems tz now st (c1, stepState tz now st s it) its
        = ((c2, foldl (stepState tz now st) (stepState tz now st s it) its),
           stepItems tz now st (stepState tz now st s it) its)"
    by blast
  show ?case
    using c2 p q by simp
qed

lemma stepItem_sameButScore: "sameButScore it (stepItem now st s it)"
proof (cases "itemId it \<notin> set (seenIds s) \<and> passesGates now st it")
  case True
  then show ?thesis
    unfolding sameButScore_def stepItem_def by auto
next
  case False
  have "it = it\<lparr>forwardScore := forwardScore it\<rparr>"
    by simp
  then have "\<exists>x. it = it\<lparr>forwardScore := x\<rparr>"
    by (rule exI)
  with False show ?thesis
    unfolding sameButScore_def stepItem_def by (simp only: if_False)
qed

lemma stepItems_sameButScore: "list_all2 sameButScore its (stepItems tz now st s its)"
  by (induction its arbitrary: s) (simp_all add: stepItem_sameButScore)

lemma stepState_score: "stepState tz now st s (it\<lparr>forwardScore := x\<rparr>) = stepState tz now st s it"
  by (simp add: stepState_def)

lemma foldl_stepState_sameButScore:
  "list_all2 sameButScore its its' \<Longrightarrow>
     foldl (stepState tz now st) s its' = foldl (stepState tz now st) s its"
proof (induction its its' arbitrary: s rule: list_all2_induct)
  case Nil
  then show ?case
    by simp
next
  case (Cons a as b bs)
  then show ?case
    by (auto simp: sameButScore_def stepState_score)
qed

text \<open>
  C9. With the clock held at \<open>now\<close>, and starting from a well-formed pattern cache (the
  empty cache of a fresh module, or the cache any earlier run left), a second run of
  \<open>processUpAheadData\<close> over the batch as the first run left it, scores attached, and
  with the cache as the first run left it, gives the same timeline, sections and weekly plan.
\<close>

theorem C9_second_run_same_output:
  assumes "cacheOk cache"
  shows "case processUpAheadData tz now cache rawItems st of
           (out1, cache1, items1) \<Rightarrow>
             (case processUpAheadData tz now cache1 items1 st of
                (out2, cache2, items2) \<Rightarrow>
                  timeline out2 = timeline out1 \<and> sections out2 = sections out1
                  \<and> weekly_plan out2 = weekly_plan out1)"
proof -
  let ?items1 = "stepItems tz now st initialState rawItems"
  from processItems_cacheOk [OF assms, of tz now st initialState rawItems]
  obtain c1 where c1: "cacheOk c1"
    and r1: "processItems tz now st (cache, initialState) rawItems
        = ((c1, foldl (stepState tz now st) initialState rawItems), ?items1)"
    by blast
  from processItems_cacheOk [OF c1, of tz now st initialState ?items1]
  obtain c2 where
    r2: "processItems tz now st (c1, initialState) ?items1
        = ((c2, foldl (stepState tz now st) initialState ?items1),
           stepItems tz now st initialState ?items1)"
    by blast
  have same: "foldl (stepState tz now st) initialState ?items1
      = foldl (stepState tz now st) initialState rawItems"
    by (rule foldl_stepState_sameButScore) (rule stepItems_sameButScore)
  show ?thesis
    by (simp add: processUpAheadData_def r1 r2 same Let_def)
qed

theorem C9_second_run_same_output_witness:
  "cacheOk []
   \<and> (case processUpAheadData 330 clockIST [] [powerCut] chennaiSettings of
        (out1, cache1, items1) \<Rightarrow>
          (case processUpAheadData 330 clockIST cache1 items1 chennaiSettings of
             (out2, cache2, items2) \<Rightarrow>
               timeline out2 = timeline out1 \<and> sections out2 = sections out1
               \<and> weekly_plan out2 = weekly_plan out1))"
  using C9_second_run_same_output [OF cacheOk_Nil, where tz = 330 and now = clockIST
      and rawItems = "[powerCut]" and st = chennaiSettings] cacheOk_Nil
  by simp

section \<open>Evaluation of a run\<close>

lemmas kw_eval = keywordMatches_def wordBoundaryRe_def anyKeyword_def ALL_NEGATIVE_KEYWORDS_def
  NEGATIVE_KEYWORDS_def

lemmas text_eval = fullTextOf_def feedItem_def toLowerCase_ascii lowerChar_def js_simps

lemma review_negative: "js ''review'' \<in> set (mergedNegatives st)"
  by (simp add: mergedNegatives_def ALL_NEGATIVE_KEYWORDS_def NEGATIVE_KEYWORDS_def)

lemma anyKeyword_iff: "anyKeyword tx ws \<longleftrightarrow> (\<exists>w \<in> set ws. keywordMatches tx (toLowerCase w))"
  by (simp add: anyKeyword_def list_ex_iff)

lemma effectiveMaxAgeMs_spec:
  "effectiveMaxAgeMs st c = specMaxAgeHours (maxAgeHours st) c * 3600000"
  by (cases c) (simp_all add: effectiveMaxAgeMs_def CATEGORY_MAX_AGE_HOURS_def specMaxAgeHours_def
      maxAgeMs_def min_def)

lemma isFresh_iff:
  "isFresh now st it \<longleftrightarrow>
     (\<exists>p. pubDate it = Some (Date p) \<and> now - p \<le> specMaxAgeHours (maxAgeHours st) (category it) * 3600000)"
  by (auto simp: isFresh_def effectiveMaxAgeMs_spec split: option.splits jsdate.splits)

lemma not_fresh_dropped:
  "\<not> isFresh now st it \<Longrightarrow> itemId it \<notin> set (seenIds s) \<Longrightarrow>
     processItem tz now st (cache, s) it = ((cache, s\<lparr>seenIds := seenIds s @ [itemId it]\<rparr>), it)"
  by (simp add: processItem_def Let_def)

lemma clockIST_value: "clockIST = 1768019400000"
  by (simp add: clockIST_def newDate_def mkLocal_def msPerDay_def makeDay_eval)

lemma clockIST_local_day: "civil (localDays 330 clockIST) = (2026, 0, 10)"
  by (simp add: clockIST_value localDays_def msPerDay_def civil_eval)

lemma clockIST_utc_day: "isoSlice10 clockIST = js ''2026-01-10''"
  by (simp add: clockIST_value iso_eval js_simps)

lemma today_value: "setHoursZero 330 clockIST = 1767983400000"
  by (simp add: clockIST_value setHoursZero_def localDays_def mkLocal_def msPerDay_def)

lemma today_key: "isoBeforeT 1767983400000 = js ''2026-01-09''"
  by (simp add: iso_eval js_simps)

lemma today_midnight: "setHoursZero 330 1767983400000 = 1767983400000"
  by (simp add: setHoursZero_def localDays_def mkLocal_def msPerDay_def)

lemma today_label: "getDayLabel 330 clockIST 1767983400000 = js ''Today''"
  by (simp add: getDayLabel_def today_value today_midnight Let_def cong: let_weak_cong)


text \<open>The result of a run on a well-formed cache, from the loop body without the cache.\<close>

lemma run_result:
  assumes "cacheOk cache"
  shows "fst (processUpAheadData tz now cache rawItems st)
     = \<lparr>timeline = sortedTimeline (timelineMap (foldl (stepState tz now st) initialState rawItems)),
        sections = (\<lambda>k. take 5 (sectionLists (foldl (stepState tz now st) initialState rawItems) k)),
        weekly_plan = generateWeeklyPlan tz now
           (sortedTimeline (timelineMap (foldl (stepState tz now st) initialState rawItems))),
        lastUpdated = toISOString now\<rparr>"
proof -
  from processItems_cacheOk [OF assms, of tz now st initialState rawItems]
  obtain c where "processItems tz now st (cache, initialState) rawItems
      = ((c, foldl (stepState tz now st) initialState rawItems), stepItems tz now st initialState rawItems)"
    by blast
  then show ?thesis
    by (simp add: processUpAheadData_def Let_def)
qed

lemma stepState_dropped:
  "itemId it \<notin> set (seenIds s) \<Longrightarrow> \<not> passesGates now st it \<Longrightarrow>
     stepState tz now st s it = s\<lparr>seenIds := seenIds s @ [itemId it]\<rparr>"
  by (simp add: stepState_def)

text \<open>
  An alert or weather alert without an extracted date that passes the gates, published
  less than 24 hours ago, goes into its section and under today in the timeline.
\<close>

lemma stepState_alert:
  assumes "itemId it \<notin> set (seenIds s)" and "passesGates now st it"
    and "category it = alerts \<or> category it = weather_alerts" and "extractedDate it = None"
    and "pubDate it = Some (Date p)" and "now - p < 86400000"
    and "objGet (timelineMap s) (isoBeforeT (setHoursZero tz now)) = None"
  shows "stepState tz now st s it =
     s\<lparr>seenIds := seenIds s @ [itemId it],
       sectionLists := (sectionLists s)(category it := sectionLists s (category it) @ [displayItemOf tz it]),
       timelineMap := objSet (timelineMap s) (isoBeforeT (setHoursZero tz now))
          \<lparr>dayDate = isoBeforeT (setHoursZero tz now),
           dayLabel = getDayLabel tz now (setHoursZero tz now),
           items = [timelineItemOf (it\<lparr>forwardScore := Some (forwardScoreOf (fullTextOf it))\<rparr>)]\<rparr>\<rparr>"
proof -
  have r: "\<not> sectionReturn (setHoursZero tz now) it"
    using assms(3,4) by (auto simp: sectionReturn_def isPlannerCategory_def)
  have t: "targetDate now (setHoursZero tz now) (it\<lparr>forwardScore := x\<rparr>) = Some (setHoursZero tz now)" for x
    using assms(3-6) by (auto simp: targetDate_def)
  have g: "category it \<noteq> general"
    using assms(3) by auto
  show ?thesis
    using assms(1,2,7) r g by (simp add: stepState_def pushTimeline_def t pushSection_def Let_def)
qed

text \<open>An item that passes every gate and the section block is pushed to its section and to the timeline.\<close>

lemma passed_item_pushed:
  assumes "cacheOk cache" and "itemId it \<notin> set (seenIds s)" and "isFresh now st it"
    and "\<not> isStale (fullTextOf it)" and "\<not> negativeHit st (fullTextOf it)"
    and "\<not> positiveMiss st (category it) (fullTextOf it)"
    and "\<not> locationDrop st (category it) (fullTextOf it)"
    and "\<not> sectionReturn (setHoursZero tz now) it"
  shows "snd (fst (processItem tz now st (cache, s) it))
     = pushTimeline tz now (setHoursZero tz now) (it\<lparr>forwardScore := Some (forwardScoreOf (fullTextOf it))\<rparr>)
         (pushSection tz it (s\<lparr>seenIds := seenIds s @ [itemId it]\<rparr>))"
proof -
  from processItem_cacheOk [OF assms(1), of tz now st s it]
  have "snd (fst (processItem tz now st (cache, s) it)) = stepState tz now st s it"
    by auto
  with assms(2-) show ?thesis
    by (simp add: stepState_def passesGates_def)
qed
section \<open>Word boundaries in the negative filter\<close>

lemma previewItem_fields:
  "category previewItem = weather_alerts" "extractedDate previewItem = None"
  "pubDate previewItem = Some (Date (clockIST - 3600000))"
  "itemId previewItem = js ''preview screening announced''"
  "title previewItem = js ''preview screening announced''"
  by (simp_all add: previewItem_def feedItem_def)

lemma reviewItem_fields:
  "category reviewItem = weather_alerts"
  "pubDate reviewItem = Some (Date (clockIST - 3600000))"
  "itemId reviewItem = js ''this movie review is harsh''"
  by (simp_all add: reviewItem_def feedItem_def)

lemma previewItem_text: "fullTextOf previewItem = js ''preview screening announced ''"
  by (simp add: previewItem_def text_eval)

lemma reviewItem_text: "fullTextOf reviewItem = js ''this movie review is harsh ''"
  by (simp add: reviewItem_def text_eval)

lemma preview_not_review:
  "keywordMatches (js ''preview screening announced '') (js ''review'') = False"
  by (simp add: kw_eval rx_eval Let_def cong: map_weak_cong let_weak_cong)

lemma preview_no_negative:
  "anyKeyword (js ''preview screening announced '') ALL_NEGATIVE_KEYWORDS = False"
  by (simp add: kw_eval rx_eval Let_def cong: map_weak_cong let_weak_cong list_ex_weak_cong)

lemma review_is_review:
  "keywordMatches (js ''this movie review is harsh '') (toLowerCase (js ''review'')) = True"
  by (simp add: kw_eval rx_eval Let_def cong: map_weak_cong let_weak_cong)

lemma review_not_roundup: "isRoundupText (js ''this movie review is harsh '') = False"
  by (simp add: isRoundupText_def countNewRe_def rx_eval Let_def cong: map_weak_cong let_weak_cong)

lemma preview_not_stale: "isStale (js ''preview screening announced '') = False"
  by (simp add: isStale_def staleRegex_def rx_eval Let_def cong: map_weak_cong let_weak_cong)

lemma review_not_stale: "isStale (js ''this movie review is harsh '') = False"
  by (simp add: isStale_def staleRegex_def rx_eval Let_def cong: map_weak_cong let_weak_cong)

lemma preview_fresh: "isFresh clockIST chennaiSettings previewItem"
  by (simp add: isFresh_iff previewItem_fields specMaxAgeHours_def maxAgeHours_def chennaiSettings_def)

lemma review_fresh: "isFresh clockIST chennaiSettings reviewItem"
  by (simp add: isFresh_iff reviewItem_fields specMaxAgeHours_def maxAgeHours_def chennaiSettings_def)

lemma review_hit: "negativeHit st (fullTextOf reviewItem)"
proof -
  have "anyKeyword (js ''this movie review is harsh '') (mergedNegatives st)"
    unfolding anyKeyword_iff using review_negative review_is_review by blast
  then show ?thesis
    by (simp add: negativeHit_def reviewItem_text review_not_roundup)
qed

lemma preview_passes: "passesGates clockIST chennaiSettings previewItem"
proof -
  have "\<not> negativeHit chennaiSettings (js ''preview screening announced '')"
    by (simp add: negativeHit_def mergedNegatives_def chennaiSettings_def preview_no_negative)
  moreover have "\<not> positiveMiss chennaiSettings weather_alerts (js ''preview screening announced '')"
    by (simp add: positiveMiss_def)
  moreover have "\<not> locationDrop chennaiSettings weather_alerts (js ''preview screening announced '')"
    by (simp add: locationDrop_def)
  ultimately show ?thesis
    by (simp add: passesGates_def previewItem_text preview_fresh preview_not_stale previewItem_fields)
qed

lemma preview_review_ids: "js ''this movie review is harsh'' \<noteq> js ''preview screening announced''"
  by (simp add: js_simps)

lemma boundary_run:
  "foldl (stepState 330 clockIST chennaiSettings) initialState [previewItem, reviewItem]
     = \<lparr>seenIds = [itemId previewItem, itemId reviewItem],
        sectionLists = (\<lambda>_. [])(weather_alerts := [displayItemOf 330 previewItem]),
        timelineMap = [(js ''2026-01-09'',
          \<lparr>dayDate = js ''2026-01-09'', dayLabel = js ''Today'',
           items = [timelineItemOf (previewItem\<lparr>forwardScore := Some (forwardScoreOf (fullTextOf previewItem))\<rparr>)]\<rparr>)]\<rparr>"
proof -
  have 1: "stepState 330 clockIST chennaiSettings initialState previewItem
      = \<lparr>seenIds = [itemId previewItem],
        sectionLists = (\<lambda>_. [])(weather_alerts := [displayItemOf 330 previewItem]),
        timelineMap = [(js ''2026-01-09'',
          \<lparr>dayDate = js ''2026-01-09'', dayLabel = js ''Today'',
           items = [timelineItemOf (previewItem\<lparr>forwardScore := Some (forwardScoreOf (fullTextOf previewItem))\<rparr>)]\<rparr>)]\<rparr>"
    by (subst stepState_alert [where p = "clockIST - 3600000"])
       (simp_all add: preview_passes previewItem_fields initialState_def today_value today_key
          today_label objGet_def)
  have 2: "stepState 330 clockIST chennaiSettings s reviewItem = s\<lparr>seenIds := seenIds s @ [itemId reviewItem]\<rparr>"
    if "itemId reviewItem \<notin> set (seenIds s)" for s
    using that review_hit by (intro stepState_dropped) (simp_all add: passesGates_def)
  show ?thesis
    by (simp add: 1) (subst 2, simp_all add: previewItem_fields reviewItem_fields preview_review_ids)
qed

lemma negative_hit_dropped:
  assumes "fst (negativeDrop cache st (fullTextOf it))" and "itemId it \<notin> set (seenIds s)"
  shows "snd (fst (processItem tz now st (cache, s) it)) = s\<lparr>seenIds := seenIds s @ [itemId it]\<rparr>
       \<and> snd (processItem tz now st (cache, s) it) = it"
proof -
  obtain c where "negativeDrop cache st (fullTextOf it) = (True, c)"
    using assms(1) by (cases "negativeDrop cache st (fullTextOf it)") simp
  with assms(2) show ?thesis
    by (simp add: processItem_def Let_def)
qed

lemma enye: "canonicalize 209 = 209" "canonicalize 241 = 209"
  by (simp_all add: canonicalize_def upperOf_def upperSpecial_def simpleUpper_def upperTable_def codeUnits_def)

lemma senor: "keywordMatches [115, 101, 209, 111, 114] [115, 101, 241, 111, 114]"
  by (simp add: kw_eval rxMatch_def rxTest_def sameChar_def canonicalize_ascii enye upperChar_def isWordAt_def
      nextChar_def isWordChar_def prevAfter_def Let_def cong: map_weak_cong let_weak_cong)

lemma review_lower: "toLowerCase (js ''review'') = js ''review''"
  by (simp add: toLowerCase_ascii lowerChar_def js_simps)

lemma review_no_space: "32 \<notin> set (js ''review'')"
  by (simp add: js_simps)

text \<open>
  C4. On a well-formed cache, a keyword without a space matches a text exactly when the text
  has it between two word boundaries, up to the case of letters, and a keyword with a space
  exactly when the text contains it. The item "preview screening announced" is not matched by
  the keyword "review" and, without negative keywords of the user, not dropped by the negative
  filter; the item "this movie review is harsh" is dropped by it. An item on which the
  negative filter fires leaves the loop body with no entry in a section or in the timeline,
  and an item on which it does not fire and that no other gate and not the section block turns
  away is pushed to its section and to the timeline. The second item is fresh and not stale,
  and a run over the two items, both weather alerts published an hour ago, gives a timeline
  and a section of weather alerts that hold the first item and nothing else.
\<close>

theorem C4_word_boundary_matching:
  assumes "cacheOk cache"
  shows "(32 \<notin> set keyword \<longrightarrow> (fst (matchesKeyword cache tx keyword) \<longleftrightarrow> occursAsWord tx keyword))
       \<and> (32 \<in> set keyword \<longrightarrow> (fst (matchesKeyword cache tx keyword) \<longleftrightarrow> (\<exists>pre post. tx = pre @ keyword @ post)))
       \<and> \<not> fst (matchesKeyword cache (fullTextOf previewItem) (js ''review''))
       \<and> (negative st = None \<longrightarrow> \<not> fst (negativeDrop cache st (fullTextOf previewItem)))
       \<and> fst (negativeDrop cache st (fullTextOf reviewItem))
       \<and> (fst (negativeDrop cache st (fullTextOf it)) \<longrightarrow> itemId it \<notin> set (seenIds s) \<longrightarrow>
            snd (fst (processItem tz now st (cache, s) it)) = s\<lparr>seenIds := seenIds s @ [itemId it]\<rparr>
            \<and> snd (processItem tz now st (cache, s) it) = it)
       \<and> (\<not> fst (negativeDrop cache st (fullTextOf it)) \<longrightarrow> itemId it \<notin> set (seenIds s) \<longrightarrow>
            isFresh now st it \<longrightarrow> \<not> isStale (fullTextOf it) \<longrightarrow>
            \<not> positiveMiss st (category it) (fullTextOf it) \<longrightarrow> \<not> locationDrop st (category it) (fullTextOf it) \<longrightarrow>
            \<not> sectionReturn (setHoursZero tz now) it \<longrightarrow>
            snd (fst (processItem tz now st (cache, s) it))
              = pushTimeline tz now (setHoursZero tz now) (it\<lparr>forwardScore := Some (forwardScoreOf (fullTextOf it))\<rparr>)
                  (pushSection tz it (s\<lparr>seenIds := seenIds s @ [itemId it]\<rparr>)))
       \<and> isFresh clockIST chennaiSettings reviewItem
       \<and> \<not> isStale (fullTextOf reviewItem)
       \<and> map (map tId \<circ> items)
            (timeline (fst (processUpAheadData 330 clockIST cache [previewItem, reviewItem] chennaiSettings)))
           = [[itemId previewItem]]
       \<and> map dTitle (sections (fst (processUpAheadData 330 clockIST cache [previewItem, reviewItem] chennaiSettings))
            weather_alerts)
           = [title previewItem]"
proof -
  have general: "fst (matchesKeyword cache tx keyword)
      \<longleftrightarrow> (if 32 \<in> set keyword then (\<exists>pre post. tx = pre @ keyword @ post) else occursAsWord tx keyword)"
    by (simp only: matchesKeyword_cacheOk [OF assms] keywordMatches_iff)
  have preview: "\<not> fst (matchesKeyword cache (fullTextOf previewItem) (js ''review''))"
    by (simp only: matchesKeyword_cacheOk [OF assms] previewItem_text preview_not_review simp_thms)
  have "\<not> negativeHit st (fullTextOf previewItem)" if "negative st = None"
    using that by (simp add: negativeHit_def mergedNegatives_def previewItem_text preview_no_negative)
  then have kept: "negative st = None \<longrightarrow> \<not> fst (negativeDrop cache st (fullTextOf previewItem))"
    by (simp only: negativeDrop_cacheOk [OF assms]) blast
  have dropped: "fst (negativeDrop cache st (fullTextOf reviewItem))"
    using review_hit by (simp only: negativeDrop_cacheOk [OF assms])
  have body: "fst (negativeDrop cache st (fullTextOf it)) \<longrightarrow> itemId it \<notin> set (seenIds s) \<longrightarrow>
      snd (fst (processItem tz now st (cache, s) it)) = s\<lparr>seenIds := seenIds s @ [itemId it]\<rparr>
      \<and> snd (processItem tz now st (cache, s) it) = it"
    using negative_hit_dropped by blast
  have pushed: "\<not> fst (negativeDrop cache st (fullTextOf it)) \<longrightarrow> itemId it \<notin> set (seenIds s) \<longrightarrow>
      isFresh now st it \<longrightarrow> \<not> isStale (fullTextOf it) \<longrightarrow>
      \<not> positiveMiss st (category it) (fullTextOf it) \<longrightarrow> \<not> locationDrop st (category it) (fullTextOf it) \<longrightarrow>
      \<not> sectionReturn (setHoursZero tz now) it \<longrightarrow>
      snd (fst (processItem tz now st (cache, s) it))
        = pushTimeline tz now (setHoursZero tz now) (it\<lparr>forwardScore := Some (forwardScoreOf (fullTextOf it))\<rparr>)
            (pushSection tz it (s\<lparr>seenIds := seenIds s @ [itemId it]\<rparr>))"
    using passed_item_pushed [OF assms, of it s now st tz]
    by (simp only: negativeDrop_cacheOk [OF assms]) blast
  have gates: "isFresh clockIST chennaiSettings reviewItem" "\<not> isStale (fullTextOf reviewItem)"
    by (simp_all add: review_fresh reviewItem_text review_not_stale)
  have run: "map (map tId \<circ> items)
        (timeline (fst (processUpAheadData 330 clockIST cache [previewItem, reviewItem] chennaiSettings)))
       = [[itemId previewItem]]"
    "map dTitle (sections (fst (processUpAheadData 330 clockIST cache [previewItem, reviewItem] chennaiSettings))
        weather_alerts)
       = [title previewItem]"
    unfolding run_result [OF assms] boundary_run
    by (simp_all add: sortedTimeline_def finishDay_def timelineItemOf_def displayItemOf_def)
  from general preview kept dropped body pushed gates run show ?thesis
    by simp
qed

theorem C4_word_boundary_matching_witness:
  "cacheOk [] \<and> 32 \<notin> set (js ''review'') \<and> negative chennaiSettings = None
   \<and> \<not> occursAsWord (fullTextOf previewItem) (js ''review'')
   \<and> occursAsWord (fullTextOf reviewItem) (js ''review'')
   \<and> occursAsWord [115, 101, 209, 111, 114] [115, 101, 241, 111, 114]
   \<and> 32 \<in> set (js ''movie review'')
   \<and> fst (matchesKeyword [] (fullTextOf reviewItem) (js ''movie review''))
   \<and> \<not> fst (negativeDrop [] chennaiSettings (fullTextOf previewItem))
   \<and> fst (negativeDrop [] chennaiSettings (fullTextOf reviewItem))
   \<and> itemId reviewItem \<notin> set (seenIds initialState)
   \<and> snd (fst (processItem 330 clockIST chennaiSettings ([], initialState) reviewItem))
       = initialState\<lparr>seenIds := seenIds initialState @ [itemId reviewItem]\<rparr>
   \<and> snd (fst (processItem 330 clockIST chennaiSettings ([], initialState) previewItem))
       = pushTimeline 330 clockIST (setHoursZero 330 clockIST)
           (previewItem\<lparr>forwardScore := Some (forwardScoreOf (fullTextOf previewItem))\<rparr>)
           (pushSection 330 previewItem (initialState\<lparr>seenIds := seenIds initialState @ [itemId previewItem]\<rparr>))
   \<and> map (map tId \<circ> items)
        (timeline (fst (processUpAheadData 330 clockIST [] [previewItem, reviewItem] chennaiSettings)))
       = [[itemId previewItem]]"
proof -
  have n: "negative chennaiSettings = None"
    by (simp add: chennaiSettings_def)
  have u: "itemId reviewItem \<notin> set (seenIds initialState)"
    by (simp add: initialState_def)
  have r: "fst (matchesKeyword [] (fullTextOf reviewItem) (js ''review''))"
    using review_is_review
    by (simp only: matchesKeyword_cacheOk [OF cacheOk_Nil] reviewItem_text review_lower)
  have e: "fst (matchesKeyword [] [115, 101, 209, 111, 114] [115, 101, 241, 111, 114])"
    using senor by (simp only: matchesKeyword_cacheOk [OF cacheOk_Nil])
  have e32: "32 \<notin> set [115, 101, 241, 111, 114::nat]"
    by simp
  from C4_word_boundary_matching [OF cacheOk_Nil, of "js ''review''" "fullTextOf previewItem"
      chennaiSettings reviewItem initialState 330 clockIST] review_no_space n u
  have 1: "\<not> occursAsWord (fullTextOf previewItem) (js ''review'')"
    "\<not> fst (negativeDrop [] chennaiSettings (fullTextOf previewItem))"
    "fst (negativeDrop [] chennaiSettings (fullTextOf reviewItem))"
    "snd (fst (processItem 330 clockIST chennaiSettings ([], initialState) reviewItem))
       = initialState\<lparr>seenIds := seenIds initialState @ [itemId reviewItem]\<rparr>"
    "map (map tId \<circ> items)
        (timeline (fst (processUpAheadData 330 clockIST [] [previewItem, reviewItem] chennaiSettings)))
       = [[itemId previewItem]]"
    by blast+
  have g: "itemId previewItem \<notin> set (seenIds initialState)"
    "isFresh clockIST chennaiSettings previewItem" "\<not> isStale (fullTextOf previewItem)"
    "\<not> positiveMiss chennaiSettings (category previewItem) (fullTextOf previewItem)"
    "\<not> locationDrop chennaiSettings (category previewItem) (fullTextOf previewItem)"
    "\<not> sectionReturn (setHoursZero 330 clockIST) previewItem"
    using preview_passes
    by (simp_all add: initialState_def passesGates_def sectionReturn_def previewItem_fields
        isPlannerCategory_def)
  from C4_word_boundary_matching [OF cacheOk_Nil, of "js ''review''" "fullTextOf previewItem"
      chennaiSettings previewItem initialState 330 clockIST] n g
  have 4: "snd (fst (processItem 330 clockIST chennaiSettings ([], initialState) previewItem))
       = pushTimeline 330 clockIST (setHoursZero 330 clockIST)
           (previewItem\<lparr>forwardScore := Some (forwardScoreOf (fullTextOf previewItem))\<rparr>)
           (pushSection 330 previewItem (initialState\<lparr>seenIds := seenIds initialState @ [itemId previewItem]\<rparr>))"
    by blast
  from C4_word_boundary_matching [OF cacheOk_Nil, of "js ''review''" "fullTextOf reviewItem"] review_no_space r
  have 2: "occursAsWord (fullTextOf reviewItem) (js ''review'')"
    by blast
  from C4_word_boundary_matching [OF cacheOk_Nil, of "[115, 101, 241, 111, 114]" "[115, 101, 209, 111, 114]"] e32 e
  have 3: "occursAsWord [115, 101, 209, 111, 114] [115, 101, 241, 111, 114]"
    by blast
  have p32: "32 \<in> set (js ''movie review'')"
    by (simp add: js_simps)
  have "fullTextOf reviewItem = js ''this '' @ js ''movie review'' @ js '' is harsh ''"
    by (simp add: reviewItem_text js_def)
  with C4_word_boundary_matching [OF cacheOk_Nil, of "js ''movie review''" "fullTextOf reviewItem"] p32
  have 5: "fst (matchesKeyword [] (fullTextOf reviewItem) (js ''movie review''))"
    by blast
  from cacheOk_Nil review_no_space n u 1 2 3 4 p32 5 show ?thesis
    by blast
qed
section \<open>The roundup exemption of the negative filter\<close>

lemma roundupReview_text: "fullTextOf roundupReview = js ''film review 5 new releases this week''"
  by (simp add: roundupReview_def text_eval)

lemma roundupReview_flag: "isRoundup roundupReview = False"
  by (simp add: roundupReview_def feedItem_def normalizeIsRoundup_def countNewRe_def rx_eval Let_def
      cong: map_weak_cong let_weak_cong)

lemma roundupReview_title: "normalizeIsRoundup (title roundupReview) = False"
  by (simp add: roundupReview_def feedItem_def normalizeIsRoundup_def countNewRe_def rx_eval Let_def
      cong: map_weak_cong let_weak_cong)

lemma roundupReview_is_review:
  "keywordMatches (js ''film review 5 new releases this week'') (toLowerCase (js ''review'')) = True"
  by (simp add: kw_eval rx_eval Let_def cong: map_weak_cong let_weak_cong)

lemma roundupReview_roundup_text: "isRoundupText (js ''film review 5 new releases this week'') = True"
  by (simp add: isRoundupText_def countNewRe_def rx_eval Let_def cong: map_weak_cong let_weak_cong)

lemma roundupReview_negative:
  "anyKeyword (fullTextOf roundupReview) (mergedNegatives st)"
  unfolding anyKeyword_iff roundupReview_text
  using review_negative roundupReview_is_review by blast

text \<open>
  C7, as amended. On a well-formed cache, the negative filter drops an item exactly when
  a negative keyword matches its full text, the lower-cased title, a space and the
  description, and that full text does not have both one of "ott", "releases", "week",
  "weekend" and a digit followed by " new". The test reads the full text and not the
  item's \<open>isRoundup\<close> flag, which the normalizer computes on the title alone.
\<close>

theorem C7_roundup_exemption_on_full_text:
  assumes "cacheOk cache"
  shows "(fst (negativeDrop cache st (fullTextOf it)) \<longleftrightarrow>
            (\<exists>w \<in> set (mergedNegatives st). keywordMatches (fullTextOf it) (toLowerCase w))
            \<and> \<not> ((\<exists>w \<in> set (map js [''ott'', ''releases'', ''week'', ''weekend'']).
                      containsFolded (fullTextOf it) w)
                  \<and> hasCountNew (fullTextOf it)))
       \<and> fullTextOf it = toLowerCase (title it @ [32] @ description it)
       \<and> fullTextOf (it\<lparr>isRoundup := flag\<rparr>) = fullTextOf it"
proof -
  have "fst (negativeDrop cache st (fullTextOf it)) \<longleftrightarrow>
      \<not> isRoundupText (fullTextOf it) \<and> anyKeyword (fullTextOf it) (mergedNegatives st)"
    by (simp only: negativeDrop_cacheOk [OF assms] negativeHit_def)
  then show ?thesis
    unfolding isRoundupText_iff anyKeyword_iff by (auto simp: fullTextOf_def)
qed

theorem C7_roundup_exemption_on_full_text_witness:
  "cacheOk []
   \<and> js ''review'' \<in> set (mergedNegatives chennaiSettings)
   \<and> keywordMatches (fullTextOf roundupReview) (toLowerCase (js ''review''))
   \<and> \<not> fst (negativeDrop [] chennaiSettings (fullTextOf roundupReview))
   \<and> (\<exists>w \<in> set (map js [''ott'', ''releases'', ''week'', ''weekend'']).
         containsFolded (fullTextOf roundupReview) w)
   \<and> hasCountNew (fullTextOf roundupReview)"
proof -
  have k: "keywordMatches (fullTextOf roundupReview) (toLowerCase (js ''review''))"
    by (simp only: roundupReview_text roundupReview_is_review)
  have r: "isRoundupText (fullTextOf roundupReview)"
    by (simp only: roundupReview_text roundupReview_roundup_text)
  have d: "\<not> fst (negativeDrop [] chennaiSettings (fullTextOf roundupReview))"
    using r by (simp add: negativeDrop_def)
  from C7_roundup_exemption_on_full_text [OF cacheOk_Nil, of chennaiSettings roundupReview] d k
    review_negative [of chennaiSettings] cacheOk_Nil
  show ?thesis
    by blast
qed

text \<open>
  C7 as stated fails. The title "Film review" has no count and none of the words, so the
  item is not flagged as a roundup; the keyword "review" matches its text; but the
  description "5 new releases this week" exempts it from the negative filter.
\<close>

theorem C7_description_exempts_counterexample:
  "isRoundup roundupReview = False
   \<and> normalizeIsRoundup (title roundupReview) = False
   \<and> js ''review'' \<in> set (mergedNegatives chennaiSettings)
   \<and> keywordMatches (fullTextOf roundupReview) (toLowerCase (js ''review'')) = True
   \<and> fst (negativeDrop [] chennaiSettings (fullTextOf roundupReview)) = False"
proof -
  have "fst (negativeDrop [] chennaiSettings (fullTextOf roundupReview)) = False"
    by (simp add: negativeDrop_def roundupReview_text roundupReview_roundup_text)
  then show ?thesis
    using roundupReview_flag roundupReview_title review_negative [of chennaiSettings]
    by (simp add: roundupReview_text roundupReview_is_review)
qed

section \<open>The freshness gate\<close>

lemma weatherWarning_fields:
  "category weatherWarning = weather_alerts"
  "pubDate weatherWarning = Some (Date (clockIST - 7 * 3600000))"
  "itemId weatherWarning = js ''Heavy rain warning for Chennai''"
  by (simp_all add: weatherWarning_def feedItem_def)

lemma trafficAlert_fields:
  "category trafficAlert = alerts" "extractedDate trafficAlert = None"
  "pubDate trafficAlert = Some (Date (clockIST - 10 * 3600000))"
  "itemId trafficAlert = js ''Chennai traffic advisory for Anna Salai''"
  "title trafficAlert = js ''Chennai traffic advisory for Anna Salai''"
  by (simp_all add: trafficAlert_def feedItem_def)

lemma trafficAlert_text: "fullTextOf trafficAlert = js ''chennai traffic advisory for anna salai ''"
  by (simp add: trafficAlert_def text_eval)

lemma trafficAlert_fresh: "isFresh clockIST chennaiSettings trafficAlert"
  by (simp add: isFresh_iff trafficAlert_fields specMaxAgeHours_def maxAgeHours_def chennaiSettings_def)

lemma weatherWarning_not_fresh: "\<not> isFresh clockIST chennaiSettings weatherWarning"
  by (simp add: isFresh_iff weatherWarning_fields specMaxAgeHours_def maxAgeHours_def chennaiSettings_def)

lemma trafficAlert_not_stale: "isStale (js ''chennai traffic advisory for anna salai '') = False"
  by (simp add: isStale_def staleRegex_def rx_eval Let_def cong: map_weak_cong let_weak_cong)

lemma trafficAlert_no_negative:
  "anyKeyword (js ''chennai traffic advisory for anna salai '') ALL_NEGATIVE_KEYWORDS = False"
  by (simp add: kw_eval rx_eval Let_def cong: map_weak_cong let_weak_cong list_ex_weak_cong)

lemma trafficAlert_location:
  "locationDrop chennaiSettings alerts (js ''chennai traffic advisory for anna salai '') = False"
  by (simp add: locationDrop_def userLocations_def chennaiSettings_def toLowerCase_ascii lowerChar_def
      js_simps)

lemma trafficAlert_passes: "passesGates clockIST chennaiSettings trafficAlert"
proof -
  have "\<not> negativeHit chennaiSettings (js ''chennai traffic advisory for anna salai '')"
    by (simp add: negativeHit_def mergedNegatives_def chennaiSettings_def trafficAlert_no_negative)
  moreover have "\<not> positiveMiss chennaiSettings alerts (js ''chennai traffic advisory for anna salai '')"
    by (simp add: positiveMiss_def)
  ultimately show ?thesis
    by (simp add: passesGates_def trafficAlert_text trafficAlert_fresh trafficAlert_not_stale
        trafficAlert_location trafficAlert_fields)
qed

lemma ids_differ:
  "js ''Chennai traffic advisory for Anna Salai'' \<noteq> js ''Heavy rain warning for Chennai''"
  by (simp add: js_simps)

lemma freshness_run:
  "foldl (stepState 330 clockIST chennaiSettings) initialState [weatherWarning, trafficAlert]
     = \<lparr>seenIds = [itemId weatherWarning, itemId trafficAlert],
        sectionLists = (\<lambda>_. [])(alerts := [displayItemOf 330 trafficAlert]),
        timelineMap = [(js ''2026-01-09'',
          \<lparr>dayDate = js ''2026-01-09'', dayLabel = js ''Today'',
           items = [timelineItemOf (trafficAlert\<lparr>forwardScore := Some (forwardScoreOf (fullTextOf trafficAlert))\<rparr>)]\<rparr>)]\<rparr>"
proof -
  have 1: "stepState 330 clockIST chennaiSettings initialState weatherWarning
      = initialState\<lparr>seenIds := [itemId weatherWarning]\<rparr>"
    using stepState_dropped [of weatherWarning initialState clockIST chennaiSettings 330]
      weatherWarning_not_fresh
    by (simp add: initialState_def passesGates_def)
  have 2: "stepState 330 clockIST chennaiSettings (initialState\<lparr>seenIds := [itemId weatherWarning]\<rparr>) trafficAlert
      = \<lparr>seenIds = [itemId weatherWarning, itemId trafficAlert],
        sectionLists = (\<lambda>_. [])(alerts := [displayItemOf 330 trafficAlert]),
        timelineMap = [(js ''2026-01-09'',
          \<lparr>dayDate = js ''2026-01-09'', dayLabel = js ''Today'',
           items = [timelineItemOf (trafficAlert\<lparr>forwardScore := Some (forwardScoreOf (fullTextOf trafficAlert))\<rparr>)]\<rparr>)]\<rparr>"
    by (subst stepState_alert [where p = "clockIST - 10 * 3600000"])
       (simp_all add: trafficAlert_passes trafficAlert_fields weatherWarning_fields ids_differ
          initialState_def today_value today_key today_label objGet_def)
  show ?thesis
    by (simp add: 1 2)
qed

text \<open>
  C5. An item is fresh exactly when it has a valid publication date whose age is at most the
  smaller of the configured hours and the override of its category (6 for weather alerts, 12
  for alerts, 336 for festivals), the configured hours being 60 when the setting is missing or
  0; an item that is not fresh leaves the loop body at once, with no entry in a section or in
  the timeline, and a fresh item that no later gate and not the section block turns away is
  pushed to its section and to the timeline. A weather alert published 7 hours ago is not
  fresh whatever the setting, and an alert published 10 hours ago is fresh when the configured
  hours are 10 or more, as with 60. A run with 60 configured hours over a weather alert
  published 7 hours ago and an alert published 10 hours ago gives a timeline and an alerts
  section that hold the alert and nothing else, and an empty section of weather alerts.
\<close>

theorem C5_freshness_gate:
  "(isFresh now st it \<longleftrightarrow>
      (\<exists>p. pubDate it = Some (Date p)
          \<and> now - p \<le> specMaxAgeHours (maxAgeHours st) (category it) * 3600000))
   \<and> maxAgeHours st = (case hideOlderThanHours st of None \<Rightarrow> 60 | Some h \<Rightarrow> if h = 0 then 60 else h)
   \<and> (\<not> isFresh now st it \<longrightarrow> itemId it \<notin> set (seenIds s) \<longrightarrow>
        processItem tz now st (cache, s) it = ((cache, s\<lparr>seenIds := seenIds s @ [itemId it]\<rparr>), it))
   \<and> (cacheOk cache \<longrightarrow> itemId it \<notin> set (seenIds s) \<longrightarrow> isFresh now st it \<longrightarrow>
        \<not> isStale (fullTextOf it) \<longrightarrow> \<not> negativeHit st (fullTextOf it) \<longrightarrow>
        \<not> positiveMiss st (category it) (fullTextOf it) \<longrightarrow> \<not> locationDrop st (category it) (fullTextOf it) \<longrightarrow>
        \<not> sectionReturn (setHoursZero tz now) it \<longrightarrow>
        snd (fst (processItem tz now st (cache, s) it))
          = pushTimeline tz now (setHoursZero tz now) (it\<lparr>forwardScore := Some (forwardScoreOf (fullTextOf it))\<rparr>)
              (pushSection tz it (s\<lparr>seenIds := seenIds s @ [itemId it]\<rparr>)))
   \<and> (category it = weather_alerts \<longrightarrow> pubDate it = Some (Date (now - 7 * 3600000)) \<longrightarrow>
        \<not> isFresh now st it)
   \<and> (category it = alerts \<longrightarrow> pubDate it = Some (Date (now - 10 * 3600000)) \<longrightarrow> 10 \<le> maxAgeHours st \<longrightarrow>
        isFresh now st it)
   \<and> hideOlderThanHours chennaiSettings = Some 60
   \<and> category weatherWarning = weather_alerts
   \<and> pubDate weatherWarning = Some (Date (clockIST - 7 * 3600000))
   \<and> category trafficAlert = alerts
   \<and> pubDate trafficAlert = Some (Date (clockIST - 10 * 3600000))
   \<and> map (map tId \<circ> items)
        (timeline (fst (processUpAheadData 330 clockIST [] [weatherWarning, trafficAlert] chennaiSettings)))
       = [[itemId trafficAlert]]
   \<and> map dTitle (sections (fst (processUpAheadData 330 clockIST [] [weatherWarning, trafficAlert] chennaiSettings)) alerts)
       = [title trafficAlert]
   \<and> sections (fst (processUpAheadData 330 clockIST [] [weatherWarning, trafficAlert] chennaiSettings)) weather_alerts
       = []"
proof -
  have w: "\<not> isFresh now st it"
    if "category it = weather_alerts" "pubDate it = Some (Date (now - 7 * 3600000))"
    using that by (simp add: isFresh_iff specMaxAgeHours_def min_def)
  have a: "isFresh now st it"
    if "category it = alerts" "pubDate it = Some (Date (now - 10 * 3600000))" "10 \<le> maxAgeHours st"
    using that by (simp add: isFresh_iff specMaxAgeHours_def min_def)
  have general: "(isFresh now st it \<longleftrightarrow>
      (\<exists>p. pubDate it = Some (Date p)
          \<and> now - p \<le> specMaxAgeHours (maxAgeHours st) (category it) * 3600000))
   \<and> maxAgeHours st = (case hideOlderThanHours st of None \<Rightarrow> 60 | Some h \<Rightarrow> if h = 0 then 60 else h)
   \<and> (\<not> isFresh now st it \<longrightarrow> itemId it \<notin> set (seenIds s) \<longrightarrow>
        processItem tz now st (cache, s) it = ((cache, s\<lparr>seenIds := seenIds s @ [itemId it]\<rparr>), it))
   \<and> (cacheOk cache \<longrightarrow> itemId it \<notin> set (seenIds s) \<longrightarrow> isFresh now st it \<longrightarrow>
        \<not> isStale (fullTextOf it) \<longrightarrow> \<not> negativeHit st (fullTextOf it) \<longrightarrow>
        \<not> positiveMiss st (category it) (fullTextOf it) \<longrightarrow> \<not> locationDrop st (category it) (fullTextOf it) \<longrightarrow>
        \<not> sectionReturn (setHoursZero tz now) it \<longrightarrow>
        snd (fst (processItem tz now st (cache, s) it))
          = pushTimeline tz now (setHoursZero tz now) (it\<lparr>forwardScore := Some (forwardScoreOf (fullTextOf it))\<rparr>)
              (pushSection tz it (s\<lparr>seenIds := seenIds s @ [itemId it]\<rparr>)))
   \<and> (category it = weather_alerts \<longrightarrow> pubDate it = Some (Date (now - 7 * 3600000)) \<longrightarrow>
        \<not> isFresh now st it)
   \<and> (category it = alerts \<longrightarrow> pubDate it = Some (Date (now - 10 * 3600000)) \<longrightarrow> 10 \<le> maxAgeHours st \<longrightarrow>
        isFresh now st it)"
    using isFresh_iff [of now st it] not_fresh_dropped [of now st it s tz cache] w a
      passed_item_pushed [of cache it s now st tz]
    by (simp add: maxAgeHours_def)
  have inputs: "hideOlderThanHours chennaiSettings = Some 60"
    "category weatherWarning = weather_alerts"
    "pubDate weatherWarning = Some (Date (clockIST - 7 * 3600000))"
    "category trafficAlert = alerts"
    "pubDate trafficAlert = Some (Date (clockIST - 10 * 3600000))"
    by (simp_all add: chennaiSettings_def weatherWarning_fields trafficAlert_fields)
  have run: "map (map tId \<circ> items)
        (timeline (fst (processUpAheadData 330 clockIST [] [weatherWarning, trafficAlert] chennaiSettings)))
       = [[itemId trafficAlert]]"
    "map dTitle (sections (fst (processUpAheadData 330 clockIST [] [weatherWarning, trafficAlert] chennaiSettings)) alerts)
       = [title trafficAlert]"
    "sections (fst (processUpAheadData 330 clockIST [] [weatherWarning, trafficAlert] chennaiSettings)) weather_alerts
       = []"
    unfolding run_result [OF cacheOk_Nil] freshness_run
    by (simp_all add: sortedTimeline_def finishDay_def timelineItemOf_def displayItemOf_def)
  from general inputs run show ?thesis
    by blast
qed

theorem C5_freshness_gate_witness:
  "category weatherWarning = weather_alerts
   \<and> pubDate weatherWarning = Some (Date (clockIST - 7 * 3600000))
   \<and> hideOlderThanHours chennaiSettings = Some 60
   \<and> \<not> isFresh clockIST chennaiSettings weatherWarning
   \<and> itemId weatherWarning \<notin> set (seenIds initialState)
   \<and> processItem 330 clockIST chennaiSettings ([], initialState) weatherWarning
       = (([], initialState\<lparr>seenIds := seenIds initialState @ [itemId weatherWarning]\<rparr>), weatherWarning)
   \<and> category trafficAlert = alerts
   \<and> pubDate trafficAlert = Some (Date (clockIST - 10 * 3600000))
   \<and> 10 \<le> maxAgeHours chennaiSettings
   \<and> isFresh clockIST chennaiSettings trafficAlert
   \<and> snd (fst (processItem 330 clockIST chennaiSettings ([], initialState) trafficAlert))
       = pushTimeline 330 clockIST (setHoursZero 330 clockIST)
           (trafficAlert\<lparr>forwardScore := Some (forwardScoreOf (fullTextOf trafficAlert))\<rparr>)
           (pushSection 330 trafficAlert (initialState\<lparr>seenIds := seenIds initialState @ [itemId trafficAlert]\<rparr>))
   \<and> map (map tId \<circ> items)
        (timeline (fst (processUpAheadData 330 clockIST [] [weatherWarning, trafficAlert] chennaiSettings)))
       = [[itemId trafficAlert]]"
proof -
  have h: "10 \<le> maxAgeHours chennaiSettings"
    by (simp add: chennaiSettings_def maxAgeHours_def)
  have s: "itemId weatherWarning \<notin> set (seenIds initialState)"
    by (simp add: initialState_def)
  from C5_freshness_gate [of clockIST chennaiSettings weatherWarning initialState 330 "[]"] s
  have 1: "category weatherWarning = weather_alerts"
    "pubDate weatherWarning = Some (Date (clockIST - 7 * 3600000))"
    "hideOlderThanHours chennaiSettings = Some 60"
    "\<not> isFresh clockIST chennaiSettings weatherWarning"
    "processItem 330 clockIST chennaiSettings ([], initialState) weatherWarning
       = (([], initialState\<lparr>seenIds := seenIds initialState @ [itemId weatherWarning]\<rparr>), weatherWarning)"
    by blast+
  have g: "itemId trafficAlert \<notin> set (seenIds initialState)"
    "\<not> isStale (fullTextOf trafficAlert)" "\<not> negativeHit chennaiSettings (fullTextOf trafficAlert)"
    "\<not> positiveMiss chennaiSettings (category trafficAlert) (fullTextOf trafficAlert)"
    "\<not> locationDrop chennaiSettings (category trafficAlert) (fullTextOf trafficAlert)"
    "\<not> sectionReturn (setHoursZero 330 clockIST) trafficAlert"
    using trafficAlert_passes
    by (simp_all add: initialState_def passesGates_def sectionReturn_def trafficAlert_fields
        isPlannerCategory_def)
  from C5_freshness_gate [of clockIST chennaiSettings trafficAlert initialState 330 "[]"] h g cacheOk_Nil
  have 2: "category trafficAlert = alerts"
    "pubDate trafficAlert = Some (Date (clockIST - 10 * 3600000))"
    "isFresh clockIST chennaiSettings trafficAlert"
    "snd (fst (processItem 330 clockIST chennaiSettings ([], initialState) trafficAlert))
       = pushTimeline 330 clockIST (setHoursZero 330 clockIST)
           (trafficAlert\<lparr>forwardScore := Some (forwardScoreOf (fullTextOf trafficAlert))\<rparr>)
           (pushSection 330 trafficAlert (initialState\<lparr>seenIds := seenIds initialState @ [itemId trafficAlert]\<rparr>))"
    "map (map tId \<circ> items)
        (timeline (fst (processUpAheadData 330 clockIST [] [weatherWarning, trafficAlert] chennaiSettings)))
       = [[itemId trafficAlert]]"
    by blast+
  from 1 2 h s show ?thesis
    by blast
qed
section \<open>The day keys of the timeline\<close>

lemma powerCut_text: "fullTextOf powerCut = js ''chennai power cut in adyar ''"
  by (simp add: powerCut_def text_eval)

lemma powerCut_fresh: "isFresh clockIST chennaiSettings powerCut"
  by (simp add: isFresh_iff powerCut_def feedItem_def specMaxAgeHours_def maxAgeHours_def
      chennaiSettings_def)

lemma powerCut_not_stale: "isStale (js ''chennai power cut in adyar '') = False"
  by (simp add: isStale_def staleRegex_def rx_eval Let_def cong: map_weak_cong let_weak_cong)

lemma powerCut_no_negative:
  "anyKeyword (js ''chennai power cut in adyar '') ALL_NEGATIVE_KEYWORDS = False"
  by (simp add: kw_eval rx_eval Let_def cong: map_weak_cong let_weak_cong list_ex_weak_cong)

lemma powerCut_location:
  "locationDrop chennaiSettings alerts (js ''chennai power cut in adyar '') = False"
  by (simp add: locationDrop_def userLocations_def chennaiSettings_def toLowerCase_ascii lowerChar_def
      js_simps)

lemma powerCut_passes: "passesGates clockIST chennaiSettings powerCut"
proof -
  have c: "category powerCut = alerts"
    by (simp add: powerCut_def feedItem_def)
  have "\<not> negativeHit chennaiSettings (js ''chennai power cut in adyar '')"
    by (simp add: negativeHit_def mergedNegatives_def chennaiSettings_def powerCut_no_negative)
  moreover have "\<not> positiveMiss chennaiSettings alerts (js ''chennai power cut in adyar '')"
    by (simp add: positiveMiss_def)
  ultimately show ?thesis
    by (simp add: passesGates_def powerCut_text powerCut_fresh powerCut_not_stale powerCut_location c)
qed

lemma powerCut_fields:
  "category powerCut = alerts" "extractedDate powerCut = None" "isRoundup powerCut = False"
  "pubDate powerCut = Some (Date (clockIST - 2 * 3600000))"
  "itemId powerCut = js ''Chennai power cut in Adyar''"
  by (simp_all add: powerCut_def feedItem_def normalizeIsRoundup_def countNewRe_def rx_eval Let_def
      cong: map_weak_cong let_weak_cong)

lemma powerCut_timeline:
  "timelineMap (stepState 330 clockIST chennaiSettings initialState powerCut)
     = [(js ''2026-01-09'',
         \<lparr>dayDate = js ''2026-01-09'', dayLabel = js ''Today'',
          items = [timelineItemOf (powerCut\<lparr>forwardScore := Some (forwardScoreOf (fullTextOf powerCut))\<rparr>)]\<rparr>)]"
proof -
  have r: "\<not> sectionReturn 1767983400000 powerCut"
    by (simp add: sectionReturn_def powerCut_fields isPlannerCategory_def)
  have t: "targetDate clockIST 1767983400000
      (powerCut\<lparr>forwardScore := Some (forwardScoreOf (fullTextOf powerCut))\<rparr>) = Some 1767983400000"
    by (simp add: targetDate_def powerCut_fields)
  show ?thesis
    by (simp add: stepState_def initialState_def powerCut_passes today_value r t
        pushTimeline_def pushSection_def powerCut_fields today_key today_label objGet_def Let_def)
qed

text \<open>
  What the guard of the timeline does give: every day of the timeline carries the ISO
  date of an instant that is not before today, the local midnight.
\<close>

lemma set_objSet: "set (objSet data k v) \<subseteq> insert (k, v) (set data)"
  by (induction data k v rule: objSet.induct) auto

lemma objGet_mem: "objGet data k = Some v \<Longrightarrow> (k, v) \<in> set data"
  unfolding objGet_def by (rule map_of_SomeD)

lemma pushTimeline_keys:
  assumes "\<forall>(k, d) \<in> set (timelineMap s). dayDate d = k \<and> (\<exists>t \<ge> today. k = isoBeforeT t)"
  shows "\<forall>(k, d) \<in> set (timelineMap (pushTimeline tz now today it s)).
           dayDate d = k \<and> (\<exists>t \<ge> today. k = isoBeforeT t)"
proof (cases "targetDate now today it")
  case None
  with assms show ?thesis
    by (simp add: pushTimeline_def)
next
  case (Some t)
  show ?thesis
  proof (cases "t \<ge> today")
    case False
    with Some assms show ?thesis
      by (simp add: pushTimeline_def)
  next
    case True
    let ?k = "isoBeforeT t"
    let ?day = "case objGet (timelineMap s) ?k of
        None \<Rightarrow> \<lparr>dayDate = ?k, dayLabel = getDayLabel tz now t, items = []\<rparr> | Some d \<Rightarrow> d"
    have d: "dayDate ?day = ?k"
      using assms by (auto split: option.splits dest: objGet_mem)
    have "timelineMap (pushTimeline tz now today it s)
        = objSet (timelineMap s) ?k (?day\<lparr>items := items ?day @ [timelineItemOf it]\<rparr>)"
      using Some True by (simp add: pushTimeline_def Let_def)
    then have "set (timelineMap (pushTimeline tz now today it s))
        \<subseteq> insert (?k, ?day\<lparr>items := items ?day @ [timelineItemOf it]\<rparr>) (set (timelineMap s))"
      using set_objSet by simp
    with assms d True show ?thesis
      by (auto simp del: objSet.simps)
  qed
qed

lemma stepState_keys:
  assumes "\<forall>(k, d) \<in> set (timelineMap s). dayDate d = k \<and> (\<exists>t \<ge> setHoursZero tz now. k = isoBeforeT t)"
  shows "\<forall>(k, d) \<in> set (timelineMap (stepState tz now st s it)).
           dayDate d = k \<and> (\<exists>t \<ge> setHoursZero tz now. k = isoBeforeT t)"
proof -
  have "\<forall>(k, d) \<in> set (timelineMap (pushSection tz it (s\<lparr>seenIds := seenIds s @ [itemId it]\<rparr>))).
      dayDate d = k \<and> (\<exists>t \<ge> setHoursZero tz now. k = isoBeforeT t)"
    using assms by (simp add: pushSection_def)
  from pushTimeline_keys [OF this] assms show ?thesis
    by (simp add: stepState_def)
qed

lemma foldl_stepState_keys:
  "\<forall>(k, d) \<in> set (timelineMap s). dayDate d = k \<and> (\<exists>t \<ge> setHoursZero tz now. k = isoBeforeT t) \<Longrightarrow>
   \<forall>(k, d) \<in> set (timelineMap (foldl (stepState tz now st) s its)).
      dayDate d = k \<and> (\<exists>t \<ge> setHoursZero tz now. k = isoBeforeT t)"
proof (induction its arbitrary: s)
  case Nil
  then show ?case
    by simp
next
  case (Cons it its)
  from Cons.IH [OF stepState_keys [OF Cons.prems]] show ?case
    by simp
qed

lemma timeline_days_from_today:
  assumes "cacheOk cache" and "day \<in> set (timeline (fst (processUpAheadData tz now cache rawItems st)))"
  shows "\<exists>t \<ge> setHoursZero tz now. dayDate day = isoBeforeT t"
proof -
  from processItems_cacheOk [OF assms(1), of tz now st initialState rawItems]
  obtain c where "processItems tz now st (cache, initialState) rawItems
      = ((c, foldl (stepState tz now st) initialState rawItems), stepItems tz now st initialState rawItems)"
    by blast
  then have "timeline (fst (processUpAheadData tz now cache rawItems st))
      = sortedTimeline (timelineMap (foldl (stepState tz now st) initialState rawItems))"
    by (simp add: processUpAheadData_def Let_def)
  with assms(2) obtain k d where kd: "(k, d) \<in> set (timelineMap (foldl (stepState tz now st) initialState rawItems))"
    and "day = finishDay d"
    by (auto simp: sortedTimeline_def)
  then have "dayDate day = dayDate d"
    by (simp add: finishDay_def)
  moreover have "\<forall>(k, d) \<in> set (timelineMap (foldl (stepState tz now st) initialState rawItems)).
      dayDate d = k \<and> (\<exists>t \<ge> setHoursZero tz now. k = isoBeforeT t)"
    by (rule foldl_stepState_keys) (simp add: initialState_def)
  ultimately show ?thesis
    using kd by auto
qed

text \<open>
  C10, what the code does. In a zone 5:30 hours east of UTC, at 10:00 on 10 January 2026
  (04:30 UTC of the same day), a run over one alert published two hours before, with no
  extracted date, puts the alert under today, the local midnight. The day key is taken
  from the ISO string, which is in UTC, so the timeline has one day with the key
  2026-01-09 and the label "Today", a key before the current day.
\<close>

theorem C10_day_key_before_current_day:
  "civil (localDays 330 clockIST) = (2026, 0, 10)
   \<and> isoSlice10 clockIST = js ''2026-01-10''
   \<and> map dayDate (timeline (fst (processUpAheadData 330 clockIST [] [powerCut] chennaiSettings)))
       = [js ''2026-01-09'']
   \<and> map dayLabel (timeline (fst (processUpAheadData 330 clockIST [] [powerCut] chennaiSettings)))
       = [js ''Today'']
   \<and> strLess (js ''2026-01-09'') (js ''2026-01-10'')"
proof -
  from processItems_cacheOk [OF cacheOk_Nil, of 330 clockIST chennaiSettings initialState "[powerCut]"]
  obtain c where p: "processItems 330 clockIST chennaiSettings ([], initialState) [powerCut]
      = ((c, stepState 330 clockIST chennaiSettings initialState powerCut),
         stepItems 330 clockIST chennaiSettings initialState [powerCut])"
    by auto
  have "timeline (fst (processUpAheadData 330 clockIST [] [powerCut] chennaiSettings))
      = sortedTimeline (timelineMap (stepState 330 clockIST chennaiSettings initialState powerCut))"
    by (simp add: processUpAheadData_def p Let_def del: processItems.simps)
  then have "map dayDate (timeline (fst (processUpAheadData 330 clockIST [] [powerCut] chennaiSettings)))
        = [js ''2026-01-09'']"
    and "map dayLabel (timeline (fst (processUpAheadData 330 clockIST [] [powerCut] chennaiSettings)))
        = [js ''Today'']"
    by (simp_all add: powerCut_timeline sortedTimeline_def finishDay_def)
  moreover have "strLess (js ''2026-01-09'') (js ''2026-01-10'')"
    by (simp add: js_simps)
  ultimately show ?thesis
    using clockIST_local_day clockIST_utc_day by simp
qed


end
